theory Spec2Isabelle
  imports Complex_Main
begin

section \<open>The benchmark execution engine of src/src/execution.ts\<close>

text \<open>
  The engine is asynchronous JavaScript on one thread. The model is explicit state
  passing: the mutable part of the \<open>Context\<close> object together with a trace of every
  interaction with the outside world (events handed to the reporter, constructor and
  lifecycle calls, clock and heap readings, timers, suspensions at an \<open>await\<close>).
  Whatever the outside world decides (whether a step throws, what the clock reads, when
  \<open>cancel()\<close> is called) is read from an environment.
\<close>

subsection \<open>JavaScript numbers\<close>

text \<open>
  Clock readings and durations are finite and are modelled as reals. What the statistics
  library hands back may be \<open>NaN\<close> or infinite (the mean of no samples, a division by a
  zero mean), so those values are a \<open>jsnum\<close>. Rounding and the sign of zero are not
  modelled.
\<close>

datatype jsnum = Fin real | PInf | NInf | NaN

text \<open>\<open>a <= b\<close> on numbers: false as soon as one side is \<open>NaN\<close>.\<close>

fun js_le :: "jsnum \<Rightarrow> jsnum \<Rightarrow> bool" where
  "js_le NaN _ = False"
| "js_le _ NaN = False"
| "js_le NInf _ = True"
| "js_le _ PInf = True"
| "js_le (Fin a) (Fin b) = (a \<le> b)"
| "js_le (Fin a) NInf = False"
| "js_le PInf (Fin b) = False"
| "js_le PInf NInf = False"

fun js_sign :: "jsnum \<Rightarrow> real" where
  "js_sign (Fin a) = sgn a"
| "js_sign PInf = 1"
| "js_sign NInf = - 1"
| "js_sign NaN = 0"

definition js_inf :: "real \<Rightarrow> jsnum" where
  "js_inf sg = (if sg < 0 then NInf else PInf)"

text \<open>\<open>a / b\<close>: a zero divisor gives an infinity (or \<open>NaN\<close> for \<open>0 / 0\<close>), never an error.\<close>

fun js_div :: "jsnum \<Rightarrow> jsnum \<Rightarrow> jsnum" where
  "js_div NaN _ = NaN"
| "js_div _ NaN = NaN"
| "js_div (Fin a) (Fin b) =
     (if b \<noteq> 0 then Fin (a / b) else if a = 0 then NaN else js_inf (sgn a))"
| "js_div (Fin a) PInf = Fin 0"
| "js_div (Fin a) NInf = Fin 0"
| "js_div PInf (Fin b) = (if b < 0 then NInf else PInf)"
| "js_div NInf (Fin b) = (if b < 0 then PInf else NInf)"
| "js_div PInf PInf = NaN"
| "js_div PInf NInf = NaN"
| "js_div NInf PInf = NaN"
| "js_div NInf NInf = NaN"

fun js_mul :: "jsnum \<Rightarrow> jsnum \<Rightarrow> jsnum" where
  "js_mul NaN _ = NaN"
| "js_mul _ NaN = NaN"
| "js_mul (Fin a) (Fin b) = Fin (a * b)"
| "js_mul a b =
     (if js_sign a = 0 \<or> js_sign b = 0 then NaN else js_inf (js_sign a * js_sign b))"

subsection \<open>Configuration, examples, events\<close>

text \<open>
  The three counts are natural numbers: the source describes them as numbers of passes and
  of samples ("this many times", "minimum number of samples").
\<close>

record Configuration =
  verifyPasses :: nat
  warmups :: nat
  minSamples :: nat
  maxDurationMs :: real
  targetRelativeMarginOfError :: real

definition DEFAULT_CONFIG :: Configuration where
  "DEFAULT_CONFIG = \<lparr>verifyPasses = 2, warmups = 10, minSamples = 25,
     maxDurationMs = 15 * 1000, targetRelativeMarginOfError = 5\<rparr>"

definition customConfig :: Configuration where
  "customConfig = \<lparr>verifyPasses = 1, warmups = 0, minSamples = 2,
     maxDurationMs = 1 * 1000, targetRelativeMarginOfError = 15\<rparr>"

type_synonym error = string

text \<open>
  A raw example and its partials; the engine reads \<open>title\<close>, \<open>schema\<close> and \<open>partials\<close>
  and passes the rest through to the client.
\<close>

datatype RawExample =
  RawExample (title: string) (schema: string) (body: string) (partials: "RawExample list")

text \<open>\<open>{ ...p, schema }\<close>\<close>

definition with_schema :: "RawExample \<Rightarrow> string \<Rightarrow> RawExample" where
  "with_schema p sch = RawExample (title p) sch (body p) (partials p)"

text \<open>
  The transformed example: what the client made of the root, the raw title, and what the
  client made of each partial.
\<close>

record Example =
  ex_root :: string
  ex_title :: string
  ex_partials :: "string list"

datatype Phase = VERIFY | WARMUP | ITERATION

datatype Subject = SUITE | BENCHMARK | CLIENT_BENCHMARK | CLIENT_BENCHMARK_PHASE

datatype EventType = START | END

record Failure =
  f_error :: error
  f_phase :: Phase

text \<open>A reading of \<open>process.memoryUsage()\<close>.\<close>

record MemoryUsage =
  heapUsed :: real
  heapTotal :: real

record StatsMemoryUsage =
  mu_heapUsed :: jsnum
  mu_heapTotal :: jsnum
  mu_heapUsedBase :: "real option"
  mu_heapTotalBase :: "real option"

record ClientBenchmarkStats =
  st_iterations :: nat
  st_min :: jsnum
  st_mean :: jsnum
  st_max :: jsnum
  st_marginOfError :: jsnum
  st_percentRelativeMarginOfError :: jsnum
  st_memoryUsage :: StatsMemoryUsage

text \<open>\<open>Event.SuiteValues\<close>: what every event carries.\<close>

record SuiteValues =
  sv_clients :: "string list"
  sv_benchmarks :: "string list"
  sv_example :: RawExample
  sv_canceled :: bool

record Event =
  ev_common :: SuiteValues
  ev_subject :: Subject
  ev_type :: EventType
  ev_benchmark :: "string option"
  ev_client :: "string option"
  ev_phase :: "Phase option"
  ev_duration :: "real option"
  ev_stats :: "ClientBenchmarkStats option"
  ev_failure :: "Failure option"

subsection \<open>The outside world\<close>

text \<open>
  How a call of a possibly asynchronous lifecycle step ends: its promise is fulfilled, its
  promise is rejected, or the call itself throws before there is anything to await.
\<close>

datatype outcome = Fulfils | Rejects error | Throws error

text \<open>
  Client and benchmark classes. Every behaviour takes the length of the trace at the moment
  of the call, so that a step may end differently from one call to the next. A constructor
  returns (\<open>None\<close>) or throws (\<open>Some e\<close>).
\<close>

record ClientClass =
  c_metadata :: string
  c_name :: string
  c_new :: "nat \<Rightarrow> error option"
  c_transformRawExample :: "nat \<Rightarrow> RawExample \<Rightarrow> error + string"

record BenchmarkClass =
  b_metadata :: string
  b_new :: "nat \<Rightarrow> error option"
  b_setup :: "nat \<Rightarrow> outcome"
  b_run :: "nat \<Rightarrow> outcome"
  b_verify :: "nat \<Rightarrow> outcome"
  b_teardown :: "nat \<Rightarrow> outcome"

text \<open>
  The environment: whether \<open>global.gc\<close> exists, what \<open>performanceNow()\<close> and
  \<open>memoryUsage()\<close> read when called at a given trace length, and whether the holder of
  the suite promise calls \<open>cancel()\<close> while the engine is suspended for the n-th time
  (counting from 0). The reporter is a sink that neither throws nor cancels.
\<close>

record Env =
  gc :: bool
  clock :: "nat \<Rightarrow> real"
  memoryUsage :: "nat \<Rightarrow> MemoryUsage"
  cancelCalled :: "nat \<Rightarrow> bool"

text \<open>
  The statistics accumulator is the third-party class \<open>Stats\<close> of fast-stats; an
  accumulator is the list of the values pushed so far, and the methods the engine calls
  are parameters.
\<close>

record StatsLib =
  amean :: "real list \<Rightarrow> jsnum"
  moe :: "real list \<Rightarrow> jsnum"
  s_range :: "real list \<Rightarrow> jsnum \<times> jsnum"
  iqr :: "real list \<Rightarrow> real list"

datatype Action =
    Report Event
  | CallGc
  | ReadMemory MemoryUsage
  | ReadClock real
  | NewClient string
  | NewBenchmark string string "Example option"
  | TransformRawExample RawExample
  | Setup
  | Run
  | Verify
  | Teardown
  | SetTimeout nat
  | Suspend
  | ConsoleLog error
  | ReadFile string string jsnum

text \<open>
  The mutable fields of \<open>Context\<close> (\<open>canceled\<close>, \<open>eventCommon\<close>, whose \<open>canceled\<close>
  field \<open>cancel()\<close> also sets, and \<open>failure\<close>) and the trace.
\<close>

record state =
  canceled :: bool
  eventCommon :: SuiteValues
  failure :: "Failure option"
  trace :: "Action list"

definition tick :: "state \<Rightarrow> nat" where
  "tick s = length (trace s)"

definition act :: "Action \<Rightarrow> state \<Rightarrow> state" where
  "act a s = s\<lparr>trace := trace s @ [a]\<rparr>"

definition suspensions :: "state \<Rightarrow> nat" where
  "suspensions s = length (filter (\<lambda>a. a = Suspend) (trace s))"

text \<open>\<open>promise.cancel\<close> (lines 81-84).\<close>

definition cancel :: "state \<Rightarrow> state" where
  "cancel s = s\<lparr>canceled := True, eventCommon := (eventCommon s)\<lparr>sv_canceled := True\<rparr>\<rparr>"

text \<open>
  An \<open>await\<close>: the engine is suspended, other code runs, and that code may call
  \<open>cancel()\<close>.
\<close>

definition await :: "Env \<Rightarrow> state \<Rightarrow> state" where
  "await env s =
     (if cancelCalled env (suspensions s) then cancel (act Suspend s) else act Suspend s)"

definition reporter :: "Event \<Rightarrow> state \<Rightarrow> state" where
  "reporter ev s = act (Report ev) s"

definition performanceNow :: "Env \<Rightarrow> state \<Rightarrow> real \<times> state" where
  "performanceNow env s = (clock env (tick s), act (ReadClock (clock env (tick s))) s)"

text \<open>\<open>global.gc(); memoryUsage()\<close>\<close>

definition gcAndRead :: "Env \<Rightarrow> state \<Rightarrow> MemoryUsage \<times> state" where
  "gcAndRead env s =
     (let s1 = act CallGc s; m = memoryUsage env (tick s1) in (m, act (ReadMemory m) s1))"

text \<open>\<open>await new Promise(resolve => setTimeout(resolve, ms))\<close>\<close>

definition pause :: "Env \<Rightarrow> nat \<Rightarrow> state \<Rightarrow> state" where
  "pause env ms s = await env (act (SetTimeout ms) s)"

text \<open>
  \<open>await benchmark.step()\<close>: a call that throws is not awaited; a returned promise is
  awaited, and a rejection is thrown when the engine resumes.
\<close>

definition awaitStep :: "Env \<Rightarrow> Action \<Rightarrow> (nat \<Rightarrow> outcome) \<Rightarrow> state \<Rightarrow> error option \<times> state" where
  "awaitStep env a f s =
     (case f (tick s) of
        Throws e \<Rightarrow> (Some e, act a s)
      | Rejects e \<Rightarrow> (Some e, await env (act a s))
      | Fulfils \<Rightarrow> (None, await env (act a s)))"

text \<open>Sequencing inside a \<open>try\<close> block: the first error ends the block.\<close>

definition andThen ::
  "error option \<times> state \<Rightarrow> (state \<Rightarrow> (error + 'a) \<times> state) \<Rightarrow> (error + 'a) \<times> state" where
  "andThen r k = (case r of (Some e, s) \<Rightarrow> (Inl e, s) | (None, s) \<Rightarrow> k s)"

subsection \<open>The Single-Pass Runner\<close>

record PassResult =
  pr_duration :: real
  pr_memoryUsage :: "MemoryUsage option"

text \<open>Lines 312-313: the two constructors.\<close>

definition construct ::
  "BenchmarkClass \<Rightarrow> ClientClass \<Rightarrow> Example option \<Rightarrow> state \<Rightarrow> error option \<times> state" where
  "construct B C example s =
     (case c_new C (tick s) of
        Some e \<Rightarrow> (Some e, act (NewClient (c_metadata C)) s)
      | None \<Rightarrow>
          (let s1 = act (NewClient (c_metadata C)) s
           in (b_new B (tick s1), act (NewBenchmark (b_metadata B) (c_metadata C) example) s1)))"

text \<open>Lines 312-340: the body of the \<open>try\<close> block.\<close>

definition passBody ::
  "Env \<Rightarrow> BenchmarkClass \<Rightarrow> ClientClass \<Rightarrow> Example option \<Rightarrow> bool \<Rightarrow> state
     \<Rightarrow> (error + PassResult) \<times> state" where
  "passBody env B C example verify s =
     andThen (construct B C example s) (\<lambda>s.
     andThen (awaitStep env Setup (b_setup B) s) (\<lambda>s.
       let s = (if gc env then act CallGc s else s);
           (start, s) = performanceNow env s
       in
     andThen (awaitStep env Run (b_run B) s) (\<lambda>s.
       let (now, s) = performanceNow env s;
           duration = now - start;
           (memoryReadings, s) =
             (if gc env then (let (m, s) = gcAndRead env s in (Some m, s)) else (None, s))
       in
     andThen (if verify then awaitStep env Verify (b_verify B) s else (None, s)) (\<lambda>s.
     andThen (awaitStep env Teardown (b_teardown B) s) (\<lambda>s.
       (Inr \<lparr>pr_duration = duration, pr_memoryUsage = memoryReadings\<rparr>, pause env 0 s))))))"

text \<open>
  Lines 303-346. The result is \<open>None\<close> for \<open>undefined\<close>: the \<open>catch\<close> block records the
  failure, logs it and returns nothing.
\<close>

definition runSingleBenchmarkPass ::
  "Env \<Rightarrow> BenchmarkClass \<Rightarrow> ClientClass \<Rightarrow> Example option \<Rightarrow> Phase \<Rightarrow> bool \<Rightarrow> state
     \<Rightarrow> PassResult option \<times> state" where
  "runSingleBenchmarkPass env B C example phase verify s =
     (case passBody env B C example verify s of
        (Inr r, s1) \<Rightarrow> (Some r, s1)
      | (Inl e, s1) \<Rightarrow>
          (None, act (ConsoleLog e) (s1\<lparr>failure := Some \<lparr>f_error = e, f_phase = phase\<rparr>\<rparr>)))"

subsection \<open>Statistics of a pairing\<close>

text \<open>Lines 348-350.\<close>

definition percentRelativeMarginOfError :: "StatsLib \<Rightarrow> real list \<Rightarrow> jsnum" where
  "percentRelativeMarginOfError lib stats =
     js_mul (js_div (moe lib stats) (amean lib stats)) (Fin 100)"

text \<open>Lines 352-374.\<close>

definition statsSummary ::
  "StatsLib \<Rightarrow> real list \<Rightarrow> real list \<Rightarrow> real list \<Rightarrow> real option \<Rightarrow> real option
     \<Rightarrow> ClientBenchmarkStats" where
  "statsSummary lib stats heapUsedStats heapTotalStats heapUsedBase heapTotalBase =
     (let (mn, mx) = s_range lib stats
      in \<lparr>st_iterations = length stats,
          st_min = mn,
          st_mean = amean lib stats,
          st_max = mx,
          st_marginOfError = moe lib stats,
          st_percentRelativeMarginOfError = percentRelativeMarginOfError lib stats,
          st_memoryUsage =
            \<lparr>mu_heapUsed = amean lib heapUsedStats,
             mu_heapTotal = amean lib heapTotalStats,
             mu_heapUsedBase = heapUsedBase,
             mu_heapTotalBase = heapTotalBase\<rparr>\<rparr>)"

text \<open>Lines 296-301. The clock is read only when there are enough samples.\<close>

definition isFinalIteration ::
  "Env \<Rightarrow> StatsLib \<Rightarrow> Configuration \<Rightarrow> real \<Rightarrow> real list \<Rightarrow> state \<Rightarrow> bool \<times> state" where
  "isFinalIteration env lib config runStart stats s =
     (if length stats < minSamples config then (False, s)
      else
        (let (now, s1) = performanceNow env s
         in if now - runStart > maxDurationMs config then (True, s1)
            else if js_le (percentRelativeMarginOfError lib stats)
                      (Fin (targetRelativeMarginOfError config)) then (True, s1)
            else (False, s1)))"

subsection \<open>A client-benchmark pairing\<close>

text \<open>Lines 166-171: the root is transformed first, then each partial in order.\<close>

fun transformPartials ::
  "ClientClass \<Rightarrow> string \<Rightarrow> RawExample list \<Rightarrow> state \<Rightarrow> (error + string list) \<times> state" where
  "transformPartials C sch [] s = (Inr [], s)"
| "transformPartials C sch (p # ps) s =
     (case c_transformRawExample C (tick s) (with_schema p sch) of
        Inl e \<Rightarrow> (Inl e, act (TransformRawExample (with_schema p sch)) s)
      | Inr x \<Rightarrow>
          (case transformPartials C sch ps (act (TransformRawExample (with_schema p sch)) s) of
             (Inl e, s1) \<Rightarrow> (Inl e, s1)
           | (Inr xs, s1) \<Rightarrow> (Inr (x # xs), s1)))"

definition transformExample ::
  "ClientClass \<Rightarrow> RawExample \<Rightarrow> state \<Rightarrow> (error + Example) \<times> state" where
  "transformExample C rawExample s =
     (case c_transformRawExample C (tick s) rawExample of
        Inl e \<Rightarrow> (Inl e, act (TransformRawExample rawExample) s)
      | Inr rootExample \<Rightarrow>
          (case transformPartials C (schema rawExample) (partials rawExample)
                  (act (TransformRawExample rawExample) s) of
             (Inl e, s1) \<Rightarrow> (Inl e, s1)
           | (Inr ps, s1) \<Rightarrow>
               (Inr \<lparr>ex_root = rootExample, ex_title = title rawExample, ex_partials = ps\<rparr>,
                s1)))"

text \<open>
  The two counted loops (lines 176-181 and 204-207): before each pass the loop looks at
  \<open>canceled\<close> and \<open>failure\<close>; the result of the pass is awaited and dropped. The number
  is the count of iterations still to do.
\<close>

fun passes ::
  "Env \<Rightarrow> BenchmarkClass \<Rightarrow> ClientClass \<Rightarrow> Example option \<Rightarrow> Phase \<Rightarrow> bool \<Rightarrow> nat \<Rightarrow> state
     \<Rightarrow> state" where
  "passes env B C example phase verify 0 s = s"
| "passes env B C example phase verify (Suc n) s =
     (if canceled s \<or> failure s \<noteq> None then s
      else passes env B C example phase verify n
             (await env (snd (runSingleBenchmarkPass env B C example phase verify s))))"

text \<open>The events of a pairing spread the \<open>eventCommon\<close> captured when the pairing began.\<close>

definition pairingEvent ::
  "SuiteValues \<Rightarrow> BenchmarkClass \<Rightarrow> ClientClass \<Rightarrow> Subject \<Rightarrow> EventType \<Rightarrow> Event" where
  "pairingEvent common B C subj ty =
     \<lparr>ev_common = common, ev_subject = subj, ev_type = ty,
      ev_benchmark = Some (b_metadata B), ev_client = Some (c_metadata C),
      ev_phase = None, ev_duration = None, ev_stats = None, ev_failure = None\<rparr>"

definition phaseEvent ::
  "SuiteValues \<Rightarrow> BenchmarkClass \<Rightarrow> ClientClass \<Rightarrow> Phase \<Rightarrow> EventType \<Rightarrow> Event" where
  "phaseEvent common B C ph ty =
     (pairingEvent common B C CLIENT_BENCHMARK_PHASE ty)\<lparr>ev_phase := Some ph\<rparr>"

text \<open>Lines 156-189.\<close>

definition verifyPhase ::
  "Env \<Rightarrow> Configuration \<Rightarrow> RawExample \<Rightarrow> BenchmarkClass \<Rightarrow> ClientClass \<Rightarrow> SuiteValues \<Rightarrow> state
     \<Rightarrow> Example option \<times> state" where
  "verifyPhase env config rawExample B C common s =
     (let s = reporter (phaseEvent common B C VERIFY START) s;
          (verifyStart, s) = performanceNow env s;
          (example, s) =
            (case transformExample C rawExample s of
               (Inr ex, s) \<Rightarrow> (Some ex, s)
             | (Inl e, s) \<Rightarrow> (None, s\<lparr>failure := Some \<lparr>f_error = e, f_phase = VERIFY\<rparr>\<rparr>));
          s = passes env B C example VERIFY True (verifyPasses config) s;
          (now, s) = performanceNow env s
      in (example,
          reporter ((phaseEvent common B C VERIFY END)
                      \<lparr>ev_duration := Some (now - verifyStart), ev_failure := failure s\<rparr>) s))"

text \<open>Lines 196-216.\<close>

definition warmupPhase ::
  "Env \<Rightarrow> Configuration \<Rightarrow> BenchmarkClass \<Rightarrow> ClientClass \<Rightarrow> SuiteValues \<Rightarrow> Example option
     \<Rightarrow> state \<Rightarrow> state" where
  "warmupPhase env config B C common example s =
     (if \<not> canceled s \<and> failure s = None then
        (let s = reporter (phaseEvent common B C WARMUP START) s;
             (warmupStart, s) = performanceNow env s;
             s = passes env B C example WARMUP False (warmups config) s;
             (now, s) = performanceNow env s
         in reporter ((phaseEvent common B C WARMUP END)
                        \<lparr>ev_duration := Some (now - warmupStart), ev_failure := failure s\<rparr>) s)
      else s)"

text \<open>
  An asynchronous function settles: its promise is resolved with a value or rejected with
  an error. The state at that moment comes with it.
\<close>

datatype 'a settled = Resolved 'a state | Rejected error state

text \<open>What destructuring \<open>undefined\<close> throws (line 238).\<close>

definition destructureError :: error where
  "destructureError = ''TypeError: Cannot destructure property duration of undefined''"

text \<open>The three accumulators of lines 223-225.\<close>

type_synonym samples = "real list \<times> real list \<times> real list"

text \<open>Lines 245-251: a pass that returned a result adds its samples.\<close>

definition pushSample :: "PassResult \<Rightarrow> samples \<Rightarrow> samples" where
  "pushSample r acc =
     (case acc of (stats, heapUsedStats, heapTotalStats) \<Rightarrow>
        (stats @ [pr_duration r],
         (case pr_memoryUsage r of None \<Rightarrow> heapUsedStats | Some m \<Rightarrow> heapUsedStats @ [heapUsed m]),
         (case pr_memoryUsage r of None \<Rightarrow> heapTotalStats | Some m \<Rightarrow> heapTotalStats @ [heapTotal m])))"

text \<open>Lines 253-261: the event that ends one iteration.\<close>

definition iterationEnd ::
  "StatsLib \<Rightarrow> SuiteValues \<Rightarrow> BenchmarkClass \<Rightarrow> ClientClass \<Rightarrow> MemoryUsage option \<Rightarrow> PassResult
     \<Rightarrow> samples \<Rightarrow> Failure option \<Rightarrow> Event" where
  "iterationEnd lib common B C base r acc f =
     (case acc of (stats, heapUsedStats, heapTotalStats) \<Rightarrow>
        (phaseEvent common B C ITERATION END)
          \<lparr>ev_duration := Some (pr_duration r),
           ev_stats := Some (statsSummary lib stats heapUsedStats heapTotalStats
                               (map_option heapUsed base) (map_option heapTotal base)),
           ev_failure := f\<rparr>)"

text \<open>
  Lines 228-264, the \<open>while (true)\<close> loop. It may run forever, so the model takes fuel,
  one unit for each turn of the loop; \<open>None\<close> is a loop that has not ended when the fuel
  is spent. When the pass returns nothing, destructuring its result throws.
\<close>

fun iterationLoop ::
  "nat \<Rightarrow> Env \<Rightarrow> StatsLib \<Rightarrow> Configuration \<Rightarrow> BenchmarkClass \<Rightarrow> ClientClass \<Rightarrow> SuiteValues
     \<Rightarrow> Example option \<Rightarrow> MemoryUsage option \<Rightarrow> real \<Rightarrow> samples \<Rightarrow> state
     \<Rightarrow> samples settled option" where
  "iterationLoop 0 env lib config B C common example base runStart acc s = None"
| "iterationLoop (Suc fuel) env lib config B C common example base runStart acc s =
     (if canceled s \<or> failure s \<noteq> None then Some (Resolved acc s)
      else
        (let s = reporter (phaseEvent common B C ITERATION START) s;
             (result, s) = runSingleBenchmarkPass env B C example ITERATION False s;
             s = await env s
         in case result of
              None \<Rightarrow> Some (Rejected destructureError s)
            | Some r \<Rightarrow>
                (let acc = pushSample r acc;
                     s = reporter (iterationEnd lib common B C base r acc (failure s)) s;
                     (final, s) = isFinalIteration env lib config runStart (fst acc) s
                 in if final then Some (Resolved acc s)
                    else iterationLoop fuel env lib config B C common example base runStart
                           acc s)))"

text \<open>Lines 223-265.\<close>

definition iterationPhase ::
  "nat \<Rightarrow> Env \<Rightarrow> StatsLib \<Rightarrow> Configuration \<Rightarrow> BenchmarkClass \<Rightarrow> ClientClass \<Rightarrow> SuiteValues
     \<Rightarrow> Example option \<Rightarrow> MemoryUsage option \<Rightarrow> state \<Rightarrow> samples settled option" where
  "iterationPhase fuel env lib config B C common example base s =
     (let (runStart, s) = performanceNow env s
      in if \<not> canceled s \<and> failure s = None
         then iterationLoop fuel env lib config B C common example base runStart ([], [], []) s
         else Some (Resolved ([], [], []) s))"

text \<open>
  Lines 376-379, the synchronous part of \<open>saveData\<close>: without \<open>global.gc\<close> it returns at
  once; otherwise it asks for \<open>./findings.json\<close> to be read, with a callback that holds
  \<open>name\<close> and \<open>stat\<close>.
\<close>

definition saveData :: "Env \<Rightarrow> string \<Rightarrow> jsnum \<Rightarrow> state \<Rightarrow> state" where
  "saveData env name stat s =
     (if \<not> gc env then s else act (ReadFile ''./findings.json'' name stat) s)"

text \<open>Lines 267-293.\<close>

definition finishPairing ::
  "Env \<Rightarrow> StatsLib \<Rightarrow> BenchmarkClass \<Rightarrow> ClientClass \<Rightarrow> SuiteValues \<Rightarrow> MemoryUsage option
     \<Rightarrow> samples \<Rightarrow> state \<Rightarrow> ClientBenchmarkStats \<times> state" where
  "finishPairing env lib B C common base acc s =
     (let (stats, heapUsedStats, heapTotalStats) = acc;
          s = pause env 10 s;
          finalStats = statsSummary lib (iqr lib stats) (iqr lib heapUsedStats)
                         (iqr lib heapTotalStats)
                         (map_option heapUsed base) (map_option heapTotal base);
          s = reporter ((pairingEvent common B C CLIENT_BENCHMARK END)
                \<lparr>ev_stats := Some finalStats, ev_failure := failure s\<rparr>) s;
          s = s\<lparr>failure := None\<rparr>;
          s = saveData env (c_name C) (amean lib stats) s
      in (finalStats, s))"

text \<open>
  Lines 129-150: the start event, the memory baseline and the client that transforms the
  example. The constructor call of line 150 is outside every \<open>try\<close>: if it throws,
  the pairing is rejected.
\<close>

definition beginPairing ::
  "Env \<Rightarrow> BenchmarkClass \<Rightarrow> ClientClass \<Rightarrow> state \<Rightarrow> (error + MemoryUsage option) \<times> state" where
  "beginPairing env B C s =
     (let s = reporter (pairingEvent (eventCommon s) B C CLIENT_BENCHMARK START) s;
          (base, s) = (if gc env then (let (m, s) = gcAndRead env s in (Some m, s)) else (None, s))
      in case c_new C (tick s) of
           Some e \<Rightarrow> (Inl e, act (NewClient (c_metadata C)) s)
         | None \<Rightarrow> (Inr base, act (NewClient (c_metadata C)) s))"

text \<open>Lines 122-294.\<close>

definition runClientBenchmark ::
  "nat \<Rightarrow> Env \<Rightarrow> StatsLib \<Rightarrow> Configuration \<Rightarrow> RawExample \<Rightarrow> BenchmarkClass \<Rightarrow> ClientClass
     \<Rightarrow> state \<Rightarrow> ClientBenchmarkStats settled option" where
  "runClientBenchmark fuel env lib config rawExample B C s =
     (let common = eventCommon s
      in case beginPairing env B C s of
           (Inl e, s) \<Rightarrow> Some (Rejected e s)
         | (Inr base, s) \<Rightarrow>
             (let (example, s) = verifyPhase env config rawExample B C common s;
                  s = pause env 50 s;
                  s = warmupPhase env config B C common example s;
                  s = pause env 50 s
              in case iterationPhase fuel env lib config B C common example base s of
                   None \<Rightarrow> None
                 | Some (Rejected e s) \<Rightarrow> Some (Rejected e s)
                 | Some (Resolved acc s) \<Rightarrow>
                     (let (finalStats, s) = finishPairing env lib B C common base acc s
                      in Some (Resolved finalStats s))))"

subsection \<open>The suite\<close>

definition suiteEvent :: "SuiteValues \<Rightarrow> Subject \<Rightarrow> EventType \<Rightarrow> string option \<Rightarrow> Event" where
  "suiteEvent common subj ty b =
     \<lparr>ev_common = common, ev_subject = subj, ev_type = ty, ev_benchmark = b, ev_client = None,
      ev_phase = None, ev_duration = None, ev_stats = None, ev_failure = None\<rparr>"

text \<open>Lines 106-109.\<close>

fun clientsLoop ::
  "nat \<Rightarrow> Env \<Rightarrow> StatsLib \<Rightarrow> Configuration \<Rightarrow> RawExample \<Rightarrow> BenchmarkClass \<Rightarrow> ClientClass list
     \<Rightarrow> state \<Rightarrow> unit settled option" where
  "clientsLoop fuel env lib config rawExample B [] s = Some (Resolved () s)"
| "clientsLoop fuel env lib config rawExample B (C # cs) s =
     (if canceled s then Some (Resolved () s)
      else case runClientBenchmark fuel env lib config rawExample B C s of
             None \<Rightarrow> None
           | Some (Rejected e s1) \<Rightarrow> Some (Rejected e (await env s1))
           | Some (Resolved finalStats s1) \<Rightarrow>
               clientsLoop fuel env lib config rawExample B cs (await env s1))"

text \<open>Lines 97-117.\<close>

fun benchmarksLoop ::
  "nat \<Rightarrow> Env \<Rightarrow> StatsLib \<Rightarrow> Configuration \<Rightarrow> RawExample \<Rightarrow> BenchmarkClass list
     \<Rightarrow> ClientClass list \<Rightarrow> state \<Rightarrow> unit settled option" where
  "benchmarksLoop fuel env lib config rawExample [] clientClasses s = Some (Resolved () s)"
| "benchmarksLoop fuel env lib config rawExample (B # bs) clientClasses s =
     (if canceled s then Some (Resolved () s)
      else case clientsLoop fuel env lib config rawExample B clientClasses
                  (reporter (suiteEvent (eventCommon s) BENCHMARK START (Some (b_metadata B))) s) of
             None \<Rightarrow> None
           | Some (Rejected e s1) \<Rightarrow> Some (Rejected e s1)
           | Some (Resolved u s1) \<Rightarrow>
               benchmarksLoop fuel env lib config rawExample bs clientClasses
                 (reporter (suiteEvent (eventCommon s1) BENCHMARK END (Some (b_metadata B))) s1))"

text \<open>Lines 89-120, \<open>_runSuite\<close>.\<close>

definition runSuite_inner ::
  "nat \<Rightarrow> Env \<Rightarrow> StatsLib \<Rightarrow> Configuration \<Rightarrow> RawExample \<Rightarrow> BenchmarkClass list
     \<Rightarrow> ClientClass list \<Rightarrow> state \<Rightarrow> unit settled option" where
  "runSuite_inner fuel env lib config rawExample benchmarkClasses clientClasses s =
     (case benchmarksLoop fuel env lib config rawExample benchmarkClasses clientClasses
             (reporter (suiteEvent (eventCommon s) SUITE START None) s) of
        None \<Rightarrow> None
      | Some (Rejected e s1) \<Rightarrow> Some (Rejected e s1)
      | Some (Resolved u s1) \<Rightarrow>
          Some (Resolved () (reporter (suiteEvent (eventCommon s1) SUITE END None) s1)))"

text \<open>
  Lines 57-87. \<open>_runSuite\<close> runs up to its first \<open>await\<close> before \<open>runSuite\<close> returns the
  promise, so the first moment at which the caller can call \<open>cancel()\<close> is the first
  suspension. The \<open>then\<close> callback that reads \<open>context.canceled\<close> runs one suspension
  after \<open>_runSuite\<close> has settled.
\<close>

definition initialState :: "BenchmarkClass list \<Rightarrow> ClientClass list \<Rightarrow> RawExample \<Rightarrow> state" where
  "initialState benchmarkClasses clientClasses rawExample =
     \<lparr>canceled = False,
      eventCommon = \<lparr>sv_clients = map c_metadata clientClasses,
                     sv_benchmarks = map b_metadata benchmarkClasses,
                     sv_example = rawExample, sv_canceled = False\<rparr>,
      failure = None,
      trace = []\<rparr>"

definition runSuite ::
  "nat \<Rightarrow> Env \<Rightarrow> StatsLib \<Rightarrow> BenchmarkClass list \<Rightarrow> ClientClass list \<Rightarrow> RawExample
     \<Rightarrow> Configuration option \<Rightarrow> bool settled option" where
  "runSuite fuel env lib benchmarkClasses clientClasses rawExample config =
     (case runSuite_inner fuel env lib (case config of None \<Rightarrow> customConfig | Some c \<Rightarrow> c)
             rawExample benchmarkClasses clientClasses
             (initialState benchmarkClasses clientClasses rawExample) of
        None \<Rightarrow> None
      | Some (Rejected e s) \<Rightarrow> Some (Rejected e (await env s))
      | Some (Resolved u s) \<Rightarrow> Some (Resolved (canceled (await env s)) (await env s)))"

subsection \<open>The persistence hook\<close>

text \<open>
  What \<open>JSON.parse\<close> returns. An object is the list of its own properties, in the order
  in which they were created.
\<close>

datatype json =
    JNull
  | JBool bool
  | JNumber real
  | JString string
  | JArray "json list"
  | JObject "(string \<times> json) list"

text \<open>
  The built-ins of the JavaScript runtime the callback relies on, as parameters:
  \<open>JSON.parse\<close> (\<open>None\<close> when it throws), \<open>JSON.stringify(_, null, 2)\<close>,
  \<open>Number.prototype.toFixed(3)\<close>, which property names are array indices, and which
  names every object, or every array, inherits from its prototype.
\<close>

record JS =
  JSON_parse :: "string \<Rightarrow> json option"
  JSON_stringify :: "json \<Rightarrow> string"
  toFixed3 :: "jsnum \<Rightarrow> string"
  arrayIndex :: "string \<Rightarrow> nat option"
  inheritedByObjects :: "string \<Rightarrow> bool"
  inheritedByArrays :: "string \<Rightarrow> bool"

definition typeError :: error where
  "typeError = ''TypeError''"

text \<open>An own property that is assigned to, or whose array is pushed to, keeps its place.\<close>

fun setOwn :: "string \<Rightarrow> json \<Rightarrow> (string \<times> json) list \<Rightarrow> (string \<times> json) list" where
  "setOwn k v [] = []"
| "setOwn k v ((k', x) # kvs) = (if k' = k then (k', v) # kvs else (k', x) # setOwn k v kvs)"

text \<open>
  Lines 396-398: \<open>if (name in updatedData) updatedData[name].push(normalized); else
  updatedData[name] = [normalized];\<close>. The \<open>in\<close> operator throws on a value that is
  not an object, and is true of inherited names too; \<open>push\<close> exists on arrays only; a
  property set on an array under a name that is not an index is not part of what
  \<open>JSON.stringify\<close> prints, and an index beyond the end leaves holes, printed as
  \<open>null\<close>.
\<close>

definition addRecord :: "JS \<Rightarrow> string \<Rightarrow> string \<Rightarrow> json \<Rightarrow> error + json" where
  "addRecord js name normalized updatedData =
     (case updatedData of
        JObject kvs \<Rightarrow>
          (case map_of kvs name of
             Some (JArray xs) \<Rightarrow>
               Inr (JObject (setOwn name (JArray (xs @ [JString normalized])) kvs))
           | Some other \<Rightarrow> Inl typeError
           | None \<Rightarrow>
               if inheritedByObjects js name then Inl typeError
               else Inr (JObject (kvs @ [(name, JArray [JString normalized])])))
      | JArray xs \<Rightarrow>
          (case arrayIndex js name of
             Some i \<Rightarrow>
               if i < length xs then
                 (case xs ! i of
                    JArray ys \<Rightarrow> Inr (JArray (xs[i := JArray (ys @ [JString normalized])]))
                  | other \<Rightarrow> Inl typeError)
               else Inr (JArray (xs @ replicate (i - length xs) JNull
                                    @ [JArray [JString normalized]]))
           | None \<Rightarrow>
               if name = ''length'' \<or> inheritedByArrays js name then Inl typeError
               else Inr (JArray xs))
      | other \<Rightarrow> Inl typeError)"

text \<open>
  Lines 381-405, the callback of \<open>readFile\<close>: what it does with the error or the data it
  is called with. It logs a read error and returns; otherwise it parses the data (taking
  an empty object when that throws), adds the record and asks for the file to be written.
  An error thrown in the callback is caught by nobody.
\<close>

datatype callbackEffect =
    ConsoleError string
  | WriteFile string string
  | Uncaught error

definition onFindingsRead :: "JS \<Rightarrow> string \<Rightarrow> jsnum \<Rightarrow> error option \<Rightarrow> string \<Rightarrow> callbackEffect" where
  "onFindingsRead js name stat err data =
     (case err of
        Some e \<Rightarrow> ConsoleError (''Error while reading file: '' @ e)
      | None \<Rightarrow>
          (let normalized = toFixed3 js stat;
               updatedData = (case JSON_parse js data of None \<Rightarrow> JObject [] | Some j \<Rightarrow> j)
           in case addRecord js name normalized updatedData of
                Inl e \<Rightarrow> Uncaught e
              | Inr j \<Rightarrow> WriteFile ''./findings.json'' (JSON_stringify js j)))"

text \<open>Lines 401-404, the callback of \<open>writeFile\<close>: it logs an error, if any.\<close>

definition onFindingsWritten :: "error option \<Rightarrow> string list" where
  "onFindingsWritten err =
     (case err of Some e \<Rightarrow> [''Error writing file: '' @ e] | None \<Rightarrow> [])"

text \<open>The events the reporter has received, in order.\<close>

definition events :: "state \<Rightarrow> Event list" where
  "events s = concat (map (\<lambda>a. case a of Report ev \<Rightarrow> [ev] | _ \<Rightarrow> []) (trace s))"

subsection \<open>Predicates and sample inputs\<close>

text \<open>A benchmark and a client none of whose steps ever fails.\<close>

definition neverFails :: "BenchmarkClass \<Rightarrow> ClientClass \<Rightarrow> bool" where
  "neverFails B C \<longleftrightarrow>
     (\<forall>n. c_new C n = None \<and> b_new B n = None \<and> b_setup B n = Fulfils \<and> b_run B n = Fulfils
          \<and> b_verify B n = Fulfils \<and> b_teardown B n = Fulfils)"

text \<open>Concrete inputs on which the theorems below are instantiated.\<close>

definition quietEnv :: Env where
  "quietEnv = \<lparr>gc = False, clock = (\<lambda>n. 2000 + real n),
     memoryUsage = (\<lambda>n. \<lparr>heapUsed = 1, heapTotal = 2\<rparr>), cancelCalled = (\<lambda>n. False)\<rparr>"

definition noisyLib :: StatsLib where
  "noisyLib = \<lparr>amean = (\<lambda>xs. Fin 1), moe = (\<lambda>xs. Fin 1), s_range = (\<lambda>xs. (Fin 1, Fin 1)),
     iqr = (\<lambda>xs. xs)\<rparr>"

definition goodBenchmark :: BenchmarkClass where
  "goodBenchmark = \<lparr>b_metadata = ''B'', b_new = (\<lambda>n. None), b_setup = (\<lambda>n. Fulfils),
     b_run = (\<lambda>n. Fulfils), b_verify = (\<lambda>n. Fulfils), b_teardown = (\<lambda>n. Fulfils)\<rparr>"

definition goodClient :: ClientClass where
  "goodClient = \<lparr>c_metadata = ''C'', c_name = ''C'', c_new = (\<lambda>n. None),
     c_transformRawExample = (\<lambda>n r. Inr (body r))\<rparr>"

definition someExample :: RawExample where
  "someExample = RawExample ''t'' ''s'' ''b'' []"

definition startState :: state where
  "startState = initialState [goodBenchmark] [goodClient] someExample"

text \<open>No \<open>cancel()\<close> is ever called.\<close>

definition neverCanceled :: "Env \<Rightarrow> bool" where
  "neverCanceled env \<longleftrightarrow> (\<forall>n. \<not> cancelCalled env n)"

text \<open>
  Every call of the Single-Pass Runner begins with one call of the client constructor, and
  the loops of a phase make no other, so within a phase the constructor calls count the
  calls of the runner.
\<close>

definition runnerCalls :: "Action list \<Rightarrow> nat" where
  "runnerCalls tr = length (filter (\<lambda>a. case a of NewClient c \<Rightarrow> True | _ \<Rightarrow> False) tr)"

text \<open>The number of phase events of a given phase and type among some events.\<close>

definition phaseCount :: "Phase \<Rightarrow> EventType \<Rightarrow> Event list \<Rightarrow> nat" where
  "phaseCount ph ty evs =
     length (filter (\<lambda>e. ev_subject e = CLIENT_BENCHMARK_PHASE \<and> ev_phase e = Some ph
                          \<and> ev_type e = ty) evs)"

text \<open>A trace that holds nothing but calls of \<open>transformRawExample\<close>.\<close>

definition onlyTransforms :: "Action list \<Rightarrow> bool" where
  "onlyTransforms tr \<longleftrightarrow>
     list_all (\<lambda>a. case a of TransformRawExample r \<Rightarrow> True | _ \<Rightarrow> False) tr"

text \<open>A state in which a VERIFY failure is recorded.\<close>

definition failedState :: state where
  "failedState = startState\<lparr>failure := Some \<lparr>f_error = ''boom'', f_phase = VERIFY\<rparr>\<rparr>"

text \<open>A client whose \<open>transformRawExample\<close> always throws.\<close>

definition brokenClient :: ClientClass where
  "brokenClient = \<lparr>c_metadata = ''broken'', c_name = ''Broken'', c_new = (\<lambda>n. None),
     c_transformRawExample = (\<lambda>n r. Inl ''bad example'')\<rparr>"

text \<open>A library that reports a zero margin of error, and a configuration that is content
  with one sample.\<close>

definition steadyLib :: StatsLib where
  "steadyLib = \<lparr>amean = (\<lambda>xs. Fin 1), moe = (\<lambda>xs. Fin 0), s_range = (\<lambda>xs. (Fin 1, Fin 1)),
     iqr = (\<lambda>xs. xs)\<rparr>"

definition oneSampleConfig :: Configuration where
  "oneSampleConfig = \<lparr>verifyPasses = 1, warmups = 0, minSamples = 1,
     maxDurationMs = 1000, targetRelativeMarginOfError = 15\<rparr>"

text \<open>Reading the outcome of a run.\<close>

definition settledState :: "'a settled \<Rightarrow> state" where
  "settledState r = (case r of Resolved v s \<Rightarrow> s | Rejected e s \<Rightarrow> s)"

definition isResolved :: "'a settled option \<Rightarrow> bool" where
  "isResolved r = (case r of Some (Resolved v s) \<Rightarrow> True | _ \<Rightarrow> False)"

definition rejection :: "'a settled option \<Rightarrow> error option" where
  "rejection r = (case r of Some (Rejected e s) \<Rightarrow> Some e | _ \<Rightarrow> None)"

text \<open>The pairing of the good benchmark with the client that cannot transform the example.\<close>

definition brokenPairingRun :: "ClientBenchmarkStats settled option" where
  "brokenPairingRun =
     runClientBenchmark 0 quietEnv noisyLib customConfig someExample goodBenchmark brokenClient
       startState"

text \<open>
  A benchmark whose \<open>run\<close> step works at first and is rejected from the twentieth action
  of the suite on: with the configuration \<open>runSuite\<close> takes by default
  (\<open>customConfig\<close>) its verify pass succeeds and its first measured pass fails.
\<close>

definition flakyBenchmark :: BenchmarkClass where
  "flakyBenchmark = \<lparr>b_metadata = ''flaky'', b_new = (\<lambda>n. None), b_setup = (\<lambda>n. Fulfils),
     b_run = (\<lambda>n. if n < 20 then Fulfils else Rejects ''run failed''),
     b_verify = (\<lambda>n. Fulfils), b_teardown = (\<lambda>n. Fulfils)\<rparr>"

definition flakyRun :: "bool settled option" where
  "flakyRun = runSuite (Suc 0) quietEnv steadyLib [flakyBenchmark] [goodClient] someExample None"

text \<open>What an event is about.\<close>

definition eventKind :: "Event \<Rightarrow> Subject \<times> EventType \<times> Phase option" where
  "eventKind e = (ev_subject e, ev_type e, ev_phase e)"

text \<open>
  The state of a run in which \<open>cancel()\<close> is called at the first suspension: either the
  call has happened, and both flags are set, or no suspension has happened yet. The
  record \<open>c0\<close> is \<open>eventCommon\<close> as \<open>runSuite\<close> built it.
\<close>

definition doomed :: "Env \<Rightarrow> SuiteValues \<Rightarrow> state \<Rightarrow> bool" where
  "doomed env c0 s \<longleftrightarrow>
     (if canceled s then eventCommon s = c0\<lparr>sv_canceled := True\<rparr>
      else eventCommon s = c0 \<and> cancelCalled env 0 \<and> suspensions s = 0)"

definition canceledWith :: "SuiteValues \<Rightarrow> state \<Rightarrow> bool" where
  "canceledWith c0 s \<longleftrightarrow> canceled s \<and> eventCommon s = c0\<lparr>sv_canceled := True\<rparr>"

text \<open>The number of events of a given subject and type.\<close>

definition subjectCount :: "Subject \<Rightarrow> EventType \<Rightarrow> Event list \<Rightarrow> nat" where
  "subjectCount subj ty evs = length (filter (\<lambda>e. ev_subject e = subj \<and> ev_type e = ty) evs)"

text \<open>An environment in which \<open>cancel()\<close> is called right after \<open>runSuite\<close> has returned,
  and a run of one benchmark with two clients in it.\<close>

definition cancelingEnv :: Env where
  "cancelingEnv = \<lparr>gc = False, clock = (\<lambda>n. 2000 + real n),
     memoryUsage = (\<lambda>n. \<lparr>heapUsed = 1, heapTotal = 2\<rparr>), cancelCalled = (\<lambda>n. n = 0)\<rparr>"

definition canceledRun :: "bool settled option" where
  "canceledRun =
     runSuite 0 cancelingEnv steadyLib [goodBenchmark] [goodClient, brokenClient] someExample None"

text \<open>An environment with \<open>global.gc\<close>.\<close>

definition gcEnv :: Env where
  "gcEnv = \<lparr>gc = True, clock = (\<lambda>n. 2000 + real n),
     memoryUsage = (\<lambda>n. \<lparr>heapUsed = 1, heapTotal = 2\<rparr>), cancelCalled = (\<lambda>n. False)\<rparr>"

text \<open>
  A runtime to run the callback on. Its \<open>toFixed(3)\<close> prints the nearest multiple of a
  thousandth, the larger one of two (for values below \<open>10^21\<close>, beyond which JavaScript
  switches to exponents).
\<close>

definition digit :: "nat \<Rightarrow> char" where
  "digit n = ''0123456789'' ! n"

fun decimal :: "nat \<Rightarrow> string" where
  "decimal n = (if n < 10 then [digit n] else decimal (n div 10) @ [digit (n mod 10)])"

declare decimal.simps [simp del]

definition fixed3 :: "jsnum \<Rightarrow> string" where
  "fixed3 x =
     (case x of
        NaN \<Rightarrow> ''NaN''
      | PInf \<Rightarrow> ''Infinity''
      | NInf \<Rightarrow> ''-Infinity''
      | Fin r \<Rightarrow>
          (let n = nat \<lfloor>\<bar>r\<bar> * 1000 + 1 / 2\<rfloor>
           in (if r < 0 then ''-'' else []) @ decimal (n div 1000) @ ''.''
              @ [digit (n div 100 mod 10), digit (n div 10 mod 10), digit (n mod 10)]))"

text \<open>
  Its \<open>JSON.stringify(_, null, 2)\<close>: two more spaces for each level, one element or
  property on a line, the properties whose names are indices first, in ascending order.
  Texts are quoted with the quote and the backslash escaped. Whole numbers are printed in
  full; for the others three decimals stand in for the shortest text that JavaScript
  prints.
\<close>

definition dq :: char where
  "dq = CHR 0x22"

definition nl :: char where
  "nl = CHR 0x0A"

fun escape :: "string \<Rightarrow> string" where
  "escape [] = []"
| "escape (c # cs) = (if c = dq \<or> c = CHR 0x5C then [CHR 0x5C, c] else [c]) @ escape cs"

definition quote :: "string \<Rightarrow> string" where
  "quote s = dq # escape s @ [dq]"

fun joinWith :: "string \<Rightarrow> string list \<Rightarrow> string" where
  "joinWith sep [] = []"
| "joinWith sep [x] = x"
| "joinWith sep (x # y # ys) = x @ sep @ joinWith sep (y # ys)"

definition indexOf :: "string \<Rightarrow> nat option" where
  "indexOf s =
     (if s \<noteq> [] \<and> list_all (\<lambda>c. c \<in> set ''0123456789'') s \<and> (length s = 1 \<or> hd s \<noteq> CHR ''0'')
      then (let n = fold (\<lambda>c a. 10 * a + (of_char c - 48)) s (0 :: nat)
            in if n < 4294967295 then Some n else None)
      else None)"

definition enumerated :: "(string \<times> 'a) list \<Rightarrow> (string \<times> 'a) list" where
  "enumerated kvs =
     sort_key (\<lambda>kv. the (indexOf (fst kv))) (filter (\<lambda>kv. indexOf (fst kv) \<noteq> None) kvs)
     @ filter (\<lambda>kv. indexOf (fst kv) = None) kvs"

definition number :: "real \<Rightarrow> string" where
  "number x =
     (if x = of_int \<lfloor>x\<rfloor> then (if x < 0 then ''-'' else []) @ decimal (nat \<bar>\<lfloor>x\<rfloor>\<bar>)
      else fixed3 (Fin x))"

primrec stringify :: "json \<Rightarrow> string \<Rightarrow> string" where
  "stringify JNull ind = ''null''"
| "stringify (JBool b) ind = (if b then ''true'' else ''false'')"
| "stringify (JNumber x) ind = number x"
| "stringify (JString s) ind = quote s"
| "stringify (JArray xs) ind =
     (if xs = [] then ''[]''
      else ''['' @ [nl] @ ind @ ''  ''
           @ joinWith ('','' @ [nl] @ ind @ ''  '') (map (\<lambda>f. f (ind @ ''  '')) (map stringify xs))
           @ [nl] @ ind @ '']'')"
| "stringify (JObject kvs) ind =
     (if kvs = [] then ''{}''
      else ''{'' @ [nl] @ ind @ ''  ''
           @ joinWith ('','' @ [nl] @ ind @ ''  '')
               (map (\<lambda>kf. quote (fst kf) @ '': '' @ snd kf (ind @ ''  ''))
                  (enumerated (map (map_prod id stringify) kvs)))
           @ [nl] @ ind @ ''}'')"

text \<open>
  A findings file that holds one mean of the client \<open>C\<close>. The \<open>JSON.parse\<close> of the
  runtime reads this file and the empty object and throws on every other text, as it
  does on the empty text of a file that has just been created.
\<close>

definition someFindings :: json where
  "someFindings = JObject [(''C'', JArray [JString ''3.000''])]"

definition nodeJS :: JS where
  "nodeJS =
     \<lparr>JSON_parse = (\<lambda>d. if d = ''{}'' then Some (JObject [])
                        else if d = stringify someFindings [] then Some someFindings
                        else None),
      JSON_stringify = (\<lambda>j. stringify j []),
      toFixed3 = fixed3,
      arrayIndex = indexOf,
      inheritedByObjects = (\<lambda>n. n \<in> set [''constructor'', ''hasOwnProperty'', ''isPrototypeOf'',
         ''propertyIsEnumerable'', ''toLocaleString'', ''toString'', ''valueOf'', ''__proto__'',
         ''__defineGetter__'', ''__defineSetter__'', ''__lookupGetter__'', ''__lookupSetter__'']),
      inheritedByArrays = (\<lambda>n. n \<in> set [''constructor'', ''hasOwnProperty'', ''isPrototypeOf'',
         ''propertyIsEnumerable'', ''toLocaleString'', ''toString'', ''valueOf'', ''__proto__'',
         ''__defineGetter__'', ''__defineSetter__'', ''__lookupGetter__'', ''__lookupSetter__'',
         ''push'', ''pop'', ''shift'', ''unshift'', ''slice'', ''splice'', ''concat'', ''join'',
         ''reverse'', ''sort'', ''indexOf'', ''lastIndexOf'', ''forEach'', ''map'', ''filter'',
         ''reduce'', ''reduceRight'', ''some'', ''every'', ''find'', ''findIndex'', ''includes'',
         ''fill'', ''keys'', ''values'', ''entries'', ''flat'', ''flatMap'', ''at'',
         ''copyWithin''])\<rparr>"

text \<open>
  A statistics library of the usual kind: the mean, 1.96 standard errors as the margin of
  error, the smallest and the largest value, and the values within one and a half
  interquartile ranges of the quartiles. Of no values, the mean and the margin are
  \<open>NaN\<close>.
\<close>

definition quartile :: "nat \<Rightarrow> real list \<Rightarrow> real" where
  "quartile k xs = sort xs ! ((k * (length xs - 1)) div 4)"

definition sampleStats :: StatsLib where
  "sampleStats =
     \<lparr>amean = (\<lambda>xs. if xs = [] then NaN else Fin (sum_list xs / real (length xs))),
      moe = (\<lambda>xs. if xs = [] then NaN
               else Fin (1.96 * sqrt ((real (length xs) * sum_list (map (\<lambda>x. x * x) xs)
                                        - sum_list xs * sum_list xs)
                                      / (real (length xs) * real (length xs)))
                         / sqrt (real (length xs)))),
      s_range = (\<lambda>xs. if xs = [] then (NaN, NaN)
                   else (Fin (fold min xs (hd xs)), Fin (fold max xs (hd xs)))),
      iqr = (\<lambda>xs. if xs = [] then []
               else filter (\<lambda>x. quartile 1 xs - (quartile 3 xs - quartile 1 xs) * 3 / 2 \<le> x
                                \<and> x \<le> quartile 3 xs + (quartile 3 xs - quartile 1 xs) * 3 / 2) xs)\<rparr>"

text \<open>
  The arguments of the calls of \<open>transformRawExample\<close> that lines 166-170 make, in
  order: the raw example, then each of its partials with the schema of the root.
\<close>

definition transformCalls :: "RawExample \<Rightarrow> RawExample list" where
  "transformCalls rawExample =
     rawExample # map (\<lambda>p. with_schema p (schema rawExample)) (partials rawExample)"

text \<open>
  The client, called for these arguments from trace length \<open>t\<close> on, returns for the first
  \<open>k\<close> of them and throws \<open>e\<close> for the next.
\<close>

definition firstThrow :: "ClientClass \<Rightarrow> nat \<Rightarrow> RawExample list \<Rightarrow> nat \<Rightarrow> error \<Rightarrow> bool" where
  "firstThrow C t calls k e \<longleftrightarrow>
     k < length calls
     \<and> (\<forall>j<k. \<exists>x. c_transformRawExample C (t + j) (calls ! j) = Inr x)
     \<and> c_transformRawExample C (t + k) (calls ! k) = Inl e"

text \<open>A client that cannot transform a body \<open>bad\<close>, and an example whose second partial
  has that body.\<close>

definition pickyClient :: ClientClass where
  "pickyClient = \<lparr>c_metadata = ''picky'', c_name = ''Picky'', c_new = (\<lambda>n. None),
     c_transformRawExample = (\<lambda>n r. if body r = ''bad'' then Inl ''bad partial'' else Inr (body r))\<rparr>"

definition partialsExample :: RawExample where
  "partialsExample = RawExample ''t'' ''s'' ''b''
     [RawExample ''p1'' '''' ''ok'' [], RawExample ''p2'' '''' ''bad'' []]"

text \<open>
  The last event the reporter has received is the END event of a phase, and it carries
  the failure that the context holds.
\<close>

definition phaseEnded :: "state \<Rightarrow> bool" where
  "phaseEnded s \<longleftrightarrow>
     events s \<noteq> []
     \<and> ev_subject (last (events s)) = CLIENT_BENCHMARK_PHASE
     \<and> ev_type (last (events s)) = END
     \<and> ev_failure (last (events s)) = failure s"

section \<open>Properties\<close>

subsection \<open>Projections of the primitive steps\<close>

lemma trace_act [simp]: "trace (act a s) = trace s @ [a]"
  by (simp add: act_def)

lemma failure_act [simp]: "failure (act a s) = failure s"
  by (simp add: act_def)

lemma canceled_act [simp]: "canceled (act a s) = canceled s"
  by (simp add: act_def)

lemma eventCommon_act [simp]: "eventCommon (act a s) = eventCommon s"
  by (simp add: act_def)

lemma tick_act [simp]: "tick (act a s) = Suc (tick s)"
  by (simp add: tick_def)

lemma trace_cancel [simp]: "trace (cancel s) = trace s"
  by (simp add: cancel_def)

lemma failure_cancel [simp]: "failure (cancel s) = failure s"
  by (simp add: cancel_def)

lemma canceled_cancel [simp]: "canceled (cancel s) = True"
  by (simp add: cancel_def)

lemma trace_await [simp]: "trace (await env s) = trace s @ [Suspend]"
  by (simp add: await_def)

lemma failure_await [simp]: "failure (await env s) = failure s"
  by (simp add: await_def)

lemma tick_await [simp]: "tick (await env s) = Suc (tick s)"
  by (simp add: tick_def)

lemma canceled_await: "canceled s \<Longrightarrow> canceled (await env s)"
  by (simp add: await_def)

lemma trace_pause [simp]: "trace (pause env ms s) = trace s @ [SetTimeout ms, Suspend]"
  by (simp add: pause_def)

lemma failure_pause [simp]: "failure (pause env ms s) = failure s"
  by (simp add: pause_def)

lemma trace_reporter [simp]: "trace (reporter ev s) = trace s @ [Report ev]"
  by (simp add: reporter_def)

lemma failure_reporter [simp]: "failure (reporter ev s) = failure s"
  by (simp add: reporter_def)

lemma canceled_reporter [simp]: "canceled (reporter ev s) = canceled s"
  by (simp add: reporter_def)

lemma eventCommon_reporter [simp]: "eventCommon (reporter ev s) = eventCommon s"
  by (simp add: reporter_def)

lemma tick_reporter [simp]: "tick (reporter ev s) = Suc (tick s)"
  by (simp add: tick_def)

lemma fst_performanceNow [simp]: "fst (performanceNow env s) = clock env (tick s)"
  by (simp add: performanceNow_def)

lemma snd_performanceNow [simp]:
  "snd (performanceNow env s) = act (ReadClock (clock env (tick s))) s"
  by (simp add: performanceNow_def)

subsection \<open>The single pass\<close>

lemma awaitStep_None:
  "awaitStep env a f s = (None, s') \<Longrightarrow>
     f (tick s) = Fulfils \<and> trace s' = trace s @ [a, Suspend] \<and> failure s' = failure s"
  by (auto simp: awaitStep_def split: outcome.splits)

lemma awaitStep_Fulfils:
  "f (tick s) = Fulfils \<Longrightarrow> awaitStep env a f s = (None, await env (act a s))"
  by (simp add: awaitStep_def)

lemma construct_None:
  "construct B C example s = (None, s') \<Longrightarrow>
     trace s' = trace s @ [NewClient (c_metadata C), NewBenchmark (b_metadata B) (c_metadata C) example]
       \<and> failure s' = failure s"
  by (auto simp: construct_def Let_def split: option.splits)

lemma performanceNow_eq:
  "performanceNow env s = (t, s') \<Longrightarrow> trace s' = trace s @ [ReadClock t] \<and> failure s' = failure s"
  by (auto simp: performanceNow_def)

lemma gcAndRead_eq:
  "gcAndRead env s = (m, s') \<Longrightarrow> trace s' = trace s @ [CallGc, ReadMemory m] \<and> failure s' = failure s"
  by (auto simp: gcAndRead_def Let_def)

lemma passBody_Inr:
  assumes "passBody env B C example verify s = (Inr r, s')"
  shows "\<exists>t0 t1 m. trace s' = trace s
           @ [NewClient (c_metadata C), NewBenchmark (b_metadata B) (c_metadata C) example,
              Setup, Suspend]
           @ (if gc env then [CallGc] else [])
           @ [ReadClock t0, Run, Suspend, ReadClock t1]
           @ (if gc env then [CallGc, ReadMemory m] else [])
           @ (if verify then [Verify, Suspend] else [])
           @ [Teardown, Suspend, SetTimeout 0, Suspend]
         \<and> pr_duration r = t1 - t0
         \<and> pr_memoryUsage r = (if gc env then Some m else None)
         \<and> failure s' = failure s"
  using assms
  unfolding passBody_def andThen_def
  by (auto simp: Let_def split: prod.splits option.splits if_splits
      dest!: awaitStep_None construct_None performanceNow_eq gcAndRead_eq)

lemma passBody_neverFails:
  assumes "neverFails B C"
  shows "\<exists>r s'. passBody env B C example verify s = (Inr r, s')"
  using assms
  unfolding passBody_def andThen_def neverFails_def
  by (simp add: Let_def construct_def awaitStep_def split: prod.splits)

text \<open>
  Claim C5. A pass that returns a result has constructed a client and then a benchmark,
  run setup, read the clock, run the \<open>run\<close> step, read the clock again, run
  \<open>verify\<close> only when the flag is set, and then teardown, in that order. The duration
  is the difference of the two clock readings around \<open>run\<close> alone. The result holds a
  memory reading exactly when \<open>global.gc\<close> exists, and the pass records no failure.
  With or without \<open>global.gc\<close>, a pass none of whose steps fails returns a result.
\<close>

theorem single_pass_lifecycle:
  "(runSingleBenchmarkPass env B C example phase verify s = (Some r, s') \<longrightarrow>
      (\<exists>t0 t1 m. trace s' = trace s
           @ [NewClient (c_metadata C), NewBenchmark (b_metadata B) (c_metadata C) example,
              Setup, Suspend]
           @ (if gc env then [CallGc] else [])
           @ [ReadClock t0, Run, Suspend, ReadClock t1]
           @ (if gc env then [CallGc, ReadMemory m] else [])
           @ (if verify then [Verify, Suspend] else [])
           @ [Teardown, Suspend, SetTimeout 0, Suspend]
         \<and> pr_duration r = t1 - t0
         \<and> pr_memoryUsage r = (if gc env then Some m else None)
         \<and> failure s' = failure s))
   \<and> (neverFails B C \<longrightarrow>
        (\<exists>r s'. runSingleBenchmarkPass env B C example phase verify s = (Some r, s')))"
proof (intro conjI impI)
  assume "runSingleBenchmarkPass env B C example phase verify s = (Some r, s')"
  then have "passBody env B C example verify s = (Inr r, s')"
    by (auto simp: runSingleBenchmarkPass_def split: prod.splits sum.splits)
  then show "\<exists>t0 t1 m. trace s' = trace s
           @ [NewClient (c_metadata C), NewBenchmark (b_metadata B) (c_metadata C) example,
              Setup, Suspend]
           @ (if gc env then [CallGc] else [])
           @ [ReadClock t0, Run, Suspend, ReadClock t1]
           @ (if gc env then [CallGc, ReadMemory m] else [])
           @ (if verify then [Verify, Suspend] else [])
           @ [Teardown, Suspend, SetTimeout 0, Suspend]
         \<and> pr_duration r = t1 - t0
         \<and> pr_memoryUsage r = (if gc env then Some m else None)
         \<and> failure s' = failure s"
    by (rule passBody_Inr)
next
  assume "neverFails B C"
  from passBody_neverFails [OF this]
  show "\<exists>r s'. runSingleBenchmarkPass env B C example phase verify s = (Some r, s')"
    unfolding runSingleBenchmarkPass_def by (metis (mono_tags, lifting) old.prod.case sum.simps(6))
qed


subsection \<open>Convergence\<close>

lemma fst_isFinalIteration:
  "fst (isFinalIteration env lib config runStart stats s) =
     (if length stats < minSamples config then False
      else if clock env (tick s) - runStart > maxDurationMs config then True
      else js_le (percentRelativeMarginOfError lib stats)
             (Fin (targetRelativeMarginOfError config)))"
  by (simp add: isFinalIteration_def performanceNow_def Let_def)

lemma iterationLoop_Suc:
  "iterationLoop (Suc fuel) env lib config B C common example base runStart acc s =
     (if canceled s \<or> failure s \<noteq> None then Some (Resolved acc s)
      else case runSingleBenchmarkPass env B C example ITERATION False
                  (reporter (phaseEvent common B C ITERATION START) s) of
             (None, s2) \<Rightarrow> Some (Rejected destructureError (await env s2))
           | (Some r, s2) \<Rightarrow>
               (if fst (isFinalIteration env lib config runStart (fst (pushSample r acc))
                     (reporter (iterationEnd lib common B C base r (pushSample r acc) (failure s2))
                        (await env s2)))
                then Some (Resolved (pushSample r acc)
                  (snd (isFinalIteration env lib config runStart (fst (pushSample r acc))
                     (reporter (iterationEnd lib common B C base r (pushSample r acc) (failure s2))
                        (await env s2)))))
                else iterationLoop fuel env lib config B C common example base runStart
                  (pushSample r acc)
                  (snd (isFinalIteration env lib config runStart (fst (pushSample r acc))
                     (reporter (iterationEnd lib common B C base r (pushSample r acc) (failure s2))
                        (await env s2))))))"
  by (simp add: Let_def split: prod.splits option.splits)

lemma fst_pushSample [simp]: "fst (pushSample r (stats, hu, ht)) = stats @ [pr_duration r]"
  by (simp add: pushSample_def)




lemma neverFails_good: "neverFails goodBenchmark goodClient"
  by (simp add: neverFails_def goodBenchmark_def goodClient_def)

lemma runSingleBenchmarkPass_neverFails:
  assumes "neverFails B C"
  shows "\<exists>r s'. runSingleBenchmarkPass env B C example phase verify s = (Some r, s')"
  using passBody_neverFails [OF assms, of env example verify s]
  by (auto simp: runSingleBenchmarkPass_def)

theorem single_pass_lifecycle_witness:
  "neverFails goodBenchmark goodClient
   \<and> (\<exists>r s' t0 t1.
        runSingleBenchmarkPass quietEnv goodBenchmark goodClient None WARMUP False startState
          = (Some r, s')
        \<and> trace s' = [NewClient ''C'', NewBenchmark ''B'' ''C'' None, Setup, Suspend,
             ReadClock t0, Run, Suspend, ReadClock t1, Teardown, Suspend, SetTimeout 0, Suspend]
        \<and> pr_duration r = t1 - t0 \<and> pr_memoryUsage r = None)"
proof -
  obtain r s' where eq:
    "runSingleBenchmarkPass quietEnv goodBenchmark goodClient None WARMUP False startState
       = (Some r, s')"
    using single_pass_lifecycle [of quietEnv goodBenchmark goodClient None WARMUP False startState]
      neverFails_good by blast
  from single_pass_lifecycle [of quietEnv goodBenchmark goodClient None WARMUP False startState r s'] eq
  have "\<exists>t0 t1 m. trace s' = trace startState
           @ [NewClient (c_metadata goodClient),
              NewBenchmark (b_metadata goodBenchmark) (c_metadata goodClient) None,
              Setup, Suspend]
           @ (if gc quietEnv then [CallGc] else [])
           @ [ReadClock t0, Run, Suspend, ReadClock t1]
           @ (if gc quietEnv then [CallGc, ReadMemory m] else [])
           @ (if False then [Verify, Suspend] else [])
           @ [Teardown, Suspend, SetTimeout 0, Suspend]
         \<and> pr_duration r = t1 - t0
         \<and> pr_memoryUsage r = (if gc quietEnv then Some m else None)
         \<and> failure s' = failure startState"
    by blast
  then have "\<exists>t0 t1. trace s' = [NewClient ''C'', NewBenchmark ''B'' ''C'' None, Setup, Suspend,
             ReadClock t0, Run, Suspend, ReadClock t1, Teardown, Suspend, SetTimeout 0, Suspend]
        \<and> pr_duration r = t1 - t0 \<and> pr_memoryUsage r = None"
    by (auto simp: quietEnv_def goodBenchmark_def goodClient_def startState_def initialState_def)
  with eq neverFails_good show ?thesis by blast
qed





subsection \<open>Events, suspensions and cancellation of the primitive steps\<close>

lemma events_act [simp]:
  "events (act a s) = events s @ (case a of Report ev \<Rightarrow> [ev] | _ \<Rightarrow> [])"
  by (simp add: events_def act_def)

lemma events_reporter [simp]: "events (reporter ev s) = events s @ [ev]"
  by (simp add: reporter_def events_act)

lemma events_cancel [simp]: "events (cancel s) = events s"
  by (simp add: events_def)

lemma events_await [simp]: "events (await env s) = events s"
  by (simp add: await_def events_act)

lemma events_pause [simp]: "events (pause env ms s) = events s"
  by (simp add: pause_def events_act)

lemma events_failure_update [simp]: "events (s\<lparr>failure := f\<rparr>) = events s"
  by (simp add: events_def)

lemma tick_failure_update [simp]: "tick (s\<lparr>failure := f\<rparr>) = tick s"
  by (simp add: tick_def)

lemma suspensions_failure_update [simp]: "suspensions (s\<lparr>failure := f\<rparr>) = suspensions s"
  by (simp add: suspensions_def)

lemma suspensions_act:
  "suspensions (act a s) = (if a = Suspend then Suc (suspensions s) else suspensions s)"
  by (simp add: suspensions_def)

lemma suspensions_cancel [simp]: "suspensions (cancel s) = suspensions s"
  by (simp add: suspensions_def)

lemma suspensions_await [simp]: "suspensions (await env s) = Suc (suspensions s)"
  by (simp add: await_def suspensions_act)

lemma suspensions_reporter [simp]: "suspensions (reporter ev s) = suspensions s"
  by (simp add: reporter_def suspensions_act)

lemma canceled_await_eq:
  "canceled (await env s) = (canceled s \<or> cancelCalled env (suspensions s))"
  by (simp add: await_def)

lemma canceled_pause_eq:
  "canceled (pause env ms s) = (canceled s \<or> cancelCalled env (suspensions s))"
  by (simp add: pause_def canceled_await_eq suspensions_act)

lemma tick_pause [simp]: "tick (pause env ms s) = Suc (Suc (tick s))"
  by (simp add: pause_def)

lemma suspensions_pause [simp]: "suspensions (pause env ms s) = Suc (suspensions s)"
  by (simp add: pause_def suspensions_act)

lemma runnerCalls_append [simp]: "runnerCalls (xs @ ys) = runnerCalls xs + runnerCalls ys"
  by (simp add: runnerCalls_def)

lemma runnerCalls_Nil [simp]: "runnerCalls [] = 0"
  by (simp add: runnerCalls_def)

lemma runnerCalls_Cons:
  "runnerCalls (a # tr) = (case a of NewClient c \<Rightarrow> Suc (runnerCalls tr) | _ \<Rightarrow> runnerCalls tr)"
  by (simp add: runnerCalls_def split: Action.splits)

lemma phaseCount_append [simp]:
  "phaseCount ph ty (xs @ ys) = phaseCount ph ty xs + phaseCount ph ty ys"
  by (simp add: phaseCount_def)

lemma phaseCount_Nil [simp]: "phaseCount ph ty [] = 0"
  by (simp add: phaseCount_def)

lemma phaseCount_Cons [simp]:
  "phaseCount ph ty (e # es) =
     (if ev_subject e = CLIENT_BENCHMARK_PHASE \<and> ev_phase e = Some ph \<and> ev_type e = ty
      then Suc (phaseCount ph ty es) else phaseCount ph ty es)"
  by (simp add: phaseCount_def)

lemma phaseEvent_fields [simp]:
  "ev_subject (phaseEvent common B C ph ty) = CLIENT_BENCHMARK_PHASE"
  "ev_phase (phaseEvent common B C ph ty) = Some ph"
  "ev_type (phaseEvent common B C ph ty) = ty"
  "ev_common (phaseEvent common B C ph ty) = common"
  by (simp_all add: phaseEvent_def pairingEvent_def)

lemma pairingEvent_fields [simp]:
  "ev_subject (pairingEvent common B C subj ty) = subj"
  "ev_phase (pairingEvent common B C subj ty) = None"
  "ev_type (pairingEvent common B C subj ty) = ty"
  "ev_common (pairingEvent common B C subj ty) = common"
  by (simp_all add: pairingEvent_def)

lemma iterationEnd_fields [simp]:
  "ev_subject (iterationEnd lib common B C base r acc f) = CLIENT_BENCHMARK_PHASE"
  "ev_phase (iterationEnd lib common B C base r acc f) = Some ITERATION"
  "ev_type (iterationEnd lib common B C base r acc f) = END"
  "ev_failure (iterationEnd lib common B C base r acc f) = f"
  by (cases acc; simp add: iterationEnd_def)+

lemma suiteEvent_fields [simp]:
  "ev_subject (suiteEvent common subj ty b) = subj"
  "ev_phase (suiteEvent common subj ty b) = None"
  "ev_type (suiteEvent common subj ty b) = ty"
  "ev_common (suiteEvent common subj ty b) = common"
  by (simp_all add: suiteEvent_def)

subsection \<open>What every pass does, whatever its outcome\<close>

lemmas pass_defs = runSingleBenchmarkPass_def passBody_def andThen_def construct_def
  awaitStep_def gcAndRead_def performanceNow_def pause_def Let_def

text \<open>
  A pass reports nothing and, apart from its actions and suspensions, only sets the
  failure: whatever those steps preserve, the pass preserves.
\<close>

lemma pass_invariant:
  assumes A1: "\<And>a s. P s \<Longrightarrow> a \<noteq> Suspend \<Longrightarrow> (\<forall>ev. a \<noteq> Report ev) \<Longrightarrow> P (act a s)"
    and A2: "\<And>s. P s \<Longrightarrow> P (await env s)"
    and A3: "\<And>s f. P s \<Longrightarrow> P (s\<lparr>failure := f\<rparr>)"
    and "P s"
  shows "P (snd (runSingleBenchmarkPass env B C example phase verify s))"
proof -
  have B1: "\<And>a s. P s \<Longrightarrow> a \<noteq> Suspend \<Longrightarrow> (\<forall>ev. a \<noteq> Report ev) \<Longrightarrow> P (await env (act a s))"
    by (intro A2 A1)
  have step: "\<And>a f s. P s \<Longrightarrow> a \<noteq> Suspend \<Longrightarrow> (\<forall>ev. a \<noteq> Report ev) \<Longrightarrow> P (snd (awaitStep env a f s))"
    by (simp add: awaitStep_def A1 B1 split: outcome.splits)
  have con: "\<And>s. P s \<Longrightarrow> P (snd (construct B C example s))"
    by (simp add: construct_def Let_def A1 split: option.splits)
  have now: "\<And>s. P s \<Longrightarrow> P (snd (performanceNow env s))"
    by (simp add: A1)
  have gcr: "\<And>s. P s \<Longrightarrow> P (snd (gcAndRead env s))"
    by (simp add: gcAndRead_def Let_def A1)
  have pau: "\<And>s. P s \<Longrightarrow> P (pause env 0 s)"
    by (simp add: pause_def A1 A2)
  have thn: "\<And>r k. P (snd r) \<Longrightarrow> (\<And>s. P s \<Longrightarrow> P (snd (k s))) \<Longrightarrow> P (snd (andThen r k))"
    by (auto simp: andThen_def split: prod.splits option.splits)
  have "P (snd (passBody env B C example verify s))"
    unfolding passBody_def Let_def split_beta
    by (intro thn con step \<open>P s\<close>) (auto intro!: step now gcr pau A1)
  then show ?thesis
    by (auto simp: runSingleBenchmarkPass_def intro!: A1 A3 split: prod.splits sum.splits)
qed

lemma events_pass [simp]:
  "events (snd (runSingleBenchmarkPass env B C example phase verify s)) = events s"
  by (rule pass_invariant [where P = "\<lambda>x. events x = events s"])
     (auto simp: events_act split: Action.splits)

lemma canceled_pass:
  "canceled s \<Longrightarrow> canceled (snd (runSingleBenchmarkPass env B C example phase verify s))"
  by (rule pass_invariant [where P = canceled]) (auto simp: canceled_await_eq)

lemma quiet_pass:
  assumes "neverCanceled env"
  shows "eventCommon (snd (runSingleBenchmarkPass env B C example phase verify s)) = eventCommon s
     \<and> canceled (snd (runSingleBenchmarkPass env B C example phase verify s)) = canceled s"
  by (rule pass_invariant [where P = "\<lambda>x. eventCommon x = eventCommon s \<and> canceled x = canceled s"])
     (use assms in \<open>auto simp: await_def neverCanceled_def\<close>)

lemma trace_pass:
  assumes "runSingleBenchmarkPass env B C example phase verify s = (res, s')"
  shows "\<exists>tr. trace s' = trace s @ tr \<and> runnerCalls tr = 1 \<and> (\<not> verify \<longrightarrow> Verify \<notin> set tr)"
  using assms
  by (auto simp: pass_defs runnerCalls_Cons
      split: option.splits outcome.splits prod.splits sum.splits if_splits)

lemma failure_pass:
  assumes "runSingleBenchmarkPass env B C example phase verify s = (res, s')"
  shows "case res of Some r \<Rightarrow> failure s' = failure s
         | None \<Rightarrow> (\<exists>e. failure s' = Some \<lparr>f_error = e, f_phase = phase\<rparr>)"
  using assms
  by (auto simp: pass_defs
      split: option.splits outcome.splits prod.splits sum.splits if_splits)

subsection \<open>Transforming the example\<close>

lemma transformPartials_invariant:
  assumes A1: "\<And>a s. P s \<Longrightarrow> a \<noteq> Suspend \<Longrightarrow> (\<forall>ev. a \<noteq> Report ev) \<Longrightarrow> P (act a s)"
  shows "P s \<Longrightarrow> P (snd (transformPartials C sch ps s))"
proof (induction ps arbitrary: s)
  case Nil
  then show ?case by simp
next
  case (Cons p ps)
  have step: "P (act (TransformRawExample (with_schema p sch)) s)"
    by (rule A1) (use Cons.prems in simp_all)
  have "P (snd (transformPartials C sch ps (act (TransformRawExample (with_schema p sch)) s)))"
    by (rule Cons.IH) (rule step)
  with step show ?case
    by (auto split: sum.splits prod.splits)
qed

lemma transformExample_invariant:
  assumes A1: "\<And>a s. P s \<Longrightarrow> a \<noteq> Suspend \<Longrightarrow> (\<forall>ev. a \<noteq> Report ev) \<Longrightarrow> P (act a s)"
    and "P s"
  shows "P (snd (transformExample C rawExample s))"
proof -
  have step: "P (act (TransformRawExample rawExample) s)"
    by (rule A1) (use \<open>P s\<close> in simp_all)
  have "P (snd (transformPartials C (schema rawExample) (partials rawExample)
          (act (TransformRawExample rawExample) s)))"
    by (rule transformPartials_invariant [where P = P]) (rule A1, assumption+, rule step)
  with step show ?thesis
    by (auto simp: transformExample_def split: sum.splits prod.splits)
qed

lemma transformExample_frame:
  "events (snd (transformExample C rawExample s)) = events s
   \<and> canceled (snd (transformExample C rawExample s)) = canceled s
   \<and> failure (snd (transformExample C rawExample s)) = failure s
   \<and> eventCommon (snd (transformExample C rawExample s)) = eventCommon s
   \<and> suspensions (snd (transformExample C rawExample s)) = suspensions s"
  by (rule transformExample_invariant
        [where P = "\<lambda>x. events x = events s \<and> canceled x = canceled s \<and> failure x = failure s
                        \<and> eventCommon x = eventCommon s \<and> suspensions x = suspensions s"])
     (auto simp: events_act suspensions_act split: Action.splits)

lemma onlyTransforms_simps [simp]:
  "onlyTransforms []"
  "onlyTransforms (TransformRawExample r # tr) = onlyTransforms tr"
  "onlyTransforms (xs @ ys) = (onlyTransforms xs \<and> onlyTransforms ys)"
  by (simp_all add: onlyTransforms_def)

lemma transformPartials_trace:
  "\<exists>tr. trace (snd (transformPartials C sch ps s)) = trace s @ tr \<and> onlyTransforms tr"
proof (induction ps arbitrary: s)
  case Nil
  show ?case by simp
next
  case (Cons p ps)
  from Cons.IH [of "act (TransformRawExample (with_schema p sch)) s"]
  obtain tr where
    "trace (snd (transformPartials C sch ps (act (TransformRawExample (with_schema p sch)) s)))
       = trace s @ TransformRawExample (with_schema p sch) # tr"
    "onlyTransforms tr"
    by auto
  then show ?case
    by (cases "c_transformRawExample C (tick s) (with_schema p sch)")
       (auto split: prod.splits sum.splits
          intro: exI [of _ "[TransformRawExample (with_schema p sch)]"]
                 exI [of _ "TransformRawExample (with_schema p sch) # tr"])
qed

lemma transformExample_trace:
  "\<exists>tr. trace (snd (transformExample C rawExample s)) = trace s @ tr \<and> onlyTransforms tr"
proof -
  from transformPartials_trace
    [of C "schema rawExample" "partials rawExample" "act (TransformRawExample rawExample) s"]
  obtain tr where
    "trace (snd (transformPartials C (schema rawExample) (partials rawExample)
        (act (TransformRawExample rawExample) s)))
       = trace s @ TransformRawExample rawExample # tr"
    "onlyTransforms tr"
    by auto
  then show ?thesis
    by (cases "c_transformRawExample C (tick s) rawExample")
       (auto simp: transformExample_def split: prod.splits sum.splits
          intro: exI [of _ "[TransformRawExample rawExample]"]
                 exI [of _ "TransformRawExample rawExample # tr"])
qed

subsection \<open>The counted loops\<close>

lemma passes_stopped:
  "canceled s \<or> failure s \<noteq> None \<Longrightarrow> passes env B C example phase verify n s = s"
  by (cases n) auto

lemma passes_invariant:
  assumes A1: "\<And>a s. P s \<Longrightarrow> a \<noteq> Suspend \<Longrightarrow> (\<forall>ev. a \<noteq> Report ev) \<Longrightarrow> P (act a s)"
    and A2: "\<And>s. P s \<Longrightarrow> P (await env s)"
    and A3: "\<And>s f. P s \<Longrightarrow> P (s\<lparr>failure := f\<rparr>)"
  shows "P s \<Longrightarrow> P (passes env B C example phase verify n s)"
proof (induction n arbitrary: s)
  case 0
  then show ?case by simp
next
  case (Suc n)
  have "P (snd (runSingleBenchmarkPass env B C example phase verify s))"
    by (rule pass_invariant [where P = P])
       (rule A1, assumption+, rule A2, assumption, rule A3, assumption, rule Suc.prems)
  then have "P (await env (snd (runSingleBenchmarkPass env B C example phase verify s)))"
    by (rule A2)
  then have "P (passes env B C example phase verify n
                 (await env (snd (runSingleBenchmarkPass env B C example phase verify s))))"
    by (rule Suc.IH)
  with Suc.prems show ?case by simp
qed

lemma events_passes [simp]:
  "events (passes env B C example phase verify n s) = events s"
  by (rule passes_invariant [where P = "\<lambda>x. events x = events s"])
     (auto simp: events_act split: Action.splits)

lemma canceled_passes:
  "canceled s \<Longrightarrow> canceled (passes env B C example phase verify n s)"
  by (simp add: passes_stopped)

lemma failure_pass_sticky:
  "failure s \<noteq> None \<Longrightarrow>
     failure (snd (runSingleBenchmarkPass env B C example phase verify s)) \<noteq> None"
  using failure_pass [of env B C example phase verify s
      "fst (runSingleBenchmarkPass env B C example phase verify s)"
      "snd (runSingleBenchmarkPass env B C example phase verify s)"]
  by (auto split: option.splits)

text \<open>A loop that ends neither canceled nor failed has run all its passes.\<close>

lemma passes_clean_count:
  assumes "\<not> canceled (passes env B C example phase verify n s)"
    and "failure (passes env B C example phase verify n s) = None"
  shows "\<exists>tr. trace (passes env B C example phase verify n s) = trace s @ tr
           \<and> runnerCalls tr = n \<and> (\<not> verify \<longrightarrow> Verify \<notin> set tr)"
  using assms
proof (induction n arbitrary: s)
  case 0
  then show ?case by simp
next
  case (Suc n)
  have clean: "\<not> canceled s \<and> failure s = None"
  proof (rule ccontr)
    assume "\<not> (\<not> canceled s \<and> failure s = None)"
    then have st: "canceled s \<or> failure s \<noteq> None" by auto
    have "passes env B C example phase verify (Suc n) s = s"
      by (rule passes_stopped [OF st])
    with Suc.prems st show False by (auto simp del: passes.simps)
  qed
  obtain res s1 where eq: "runSingleBenchmarkPass env B C example phase verify s = (res, s1)"
    by (cases "runSingleBenchmarkPass env B C example phase verify s")
  from trace_pass [OF eq] obtain tp where tp:
    "trace s1 = trace s @ tp" "runnerCalls tp = 1" "\<not> verify \<longrightarrow> Verify \<notin> set tp"
    by blast
  have step: "passes env B C example phase verify (Suc n) s
                = passes env B C example phase verify n (await env s1)"
    using clean eq by simp
  from Suc.IH [of "await env s1"] Suc.prems step
  obtain tr where tr:
    "trace (passes env B C example phase verify n (await env s1)) = trace (await env s1) @ tr"
    "runnerCalls tr = n" "\<not> verify \<longrightarrow> Verify \<notin> set tr"
    by auto
  show ?case
    unfolding step
    by (rule exI [of _ "tp @ [Suspend] @ tr"]) (use tp tr in \<open>simp add: runnerCalls_Cons\<close>)
qed

lemma passes_neverFails:
  assumes "neverFails B C" "neverCanceled env"
  shows "canceled (passes env B C example phase verify n s) = canceled s
         \<and> failure (passes env B C example phase verify n s) = failure s"
proof (induction n arbitrary: s)
  case 0
  then show ?case by simp
next
  case (Suc n)
  obtain r s1 where eq: "runSingleBenchmarkPass env B C example phase verify s = (Some r, s1)"
    using runSingleBenchmarkPass_neverFails [OF assms(1)] by blast
  from failure_pass [OF eq] have f: "failure s1 = failure s" by simp
  from quiet_pass [OF assms(2), of B C example phase verify s] eq
  have c: "canceled s1 = canceled s" by simp
  have "canceled (await env s1) = canceled s \<and> failure (await env s1) = failure s"
    using f c assms(2) by (simp add: canceled_await_eq neverCanceled_def)
  with Suc.IH [of "await env s1"] eq show ?case by simp
qed

subsection \<open>The verify and warmup phases\<close>

lemma events_verifyPhase:
  assumes "verifyPhase env config rawExample B C common s = (example, s')"
  shows "events s' = events s @ [phaseEvent common B C VERIFY START,
           (phaseEvent common B C VERIFY END)
             \<lparr>ev_duration := ev_duration (last (events s')), ev_failure := failure s'\<rparr>]"
  using assms
  by (auto simp: verifyPhase_def Let_def split_beta transformExample_frame split: sum.splits)

lemma events_warmupPhase:
  assumes "warmupPhase env config B C common example s = s'"
  shows "events s' =
     (if \<not> canceled s \<and> failure s = None
      then events s @ [phaseEvent common B C WARMUP START,
           (phaseEvent common B C WARMUP END)
             \<lparr>ev_duration := ev_duration (last (events s')), ev_failure := failure s'\<rparr>]
      else events s)"
  using assms
  by (auto simp: warmupPhase_def Let_def split_beta)

lemma warmupPhase_skipped:
  "canceled s \<or> failure s \<noteq> None \<Longrightarrow> warmupPhase env config B C common example s = s"
  by (auto simp: warmupPhase_def)

lemma warmupPhase_clean_count:
  assumes "\<not> canceled (warmupPhase env config B C common example s)"
    and "failure (warmupPhase env config B C common example s) = None"
  shows "\<exists>tr. trace (warmupPhase env config B C common example s) = trace s @ tr
           \<and> runnerCalls tr = warmups config \<and> Verify \<notin> set tr"
proof -
  have clean: "\<not> canceled s \<and> failure s = None"
  proof (rule ccontr)
    assume "\<not> (\<not> canceled s \<and> failure s = None)"
    then have st: "canceled s \<or> failure s \<noteq> None" by auto
    have "warmupPhase env config B C common example s = s"
      by (rule warmupPhase_skipped [OF st])
    with assms st show False by auto
  qed
  define s2 where "s2 = snd (performanceNow env (reporter (phaseEvent common B C WARMUP START) s))"
  define s3 where "s3 = passes env B C example WARMUP False (warmups config) s2"
  have w: "warmupPhase env config B C common example s =
             reporter ((phaseEvent common B C WARMUP END)
               \<lparr>ev_duration := Some (clock env (tick s3) - clock env (Suc (tick s))),
                ev_failure := failure s3\<rparr>) (snd (performanceNow env s3))"
    using clean by (simp add: warmupPhase_def Let_def split_beta s2_def s3_def)
  have "\<not> canceled s3 \<and> failure s3 = None"
    using assms unfolding w by simp
  from passes_clean_count [of env B C example WARMUP False "warmups config" s2] this
  obtain tr where tr: "trace s3 = trace s2 @ tr" "runnerCalls tr = warmups config" "Verify \<notin> set tr"
    unfolding s3_def by auto
  show ?thesis
    unfolding w
    by (rule exI [of _ "[Report (phaseEvent common B C WARMUP START),
          ReadClock (clock env (Suc (tick s)))] @ tr @
          [ReadClock (clock env (tick s3)), Report ((phaseEvent common B C WARMUP END)
               \<lparr>ev_duration := Some (clock env (tick s3) - clock env (Suc (tick s))),
                ev_failure := failure s3\<rparr>)]"])
       (use tr in \<open>simp add: s2_def runnerCalls_Cons\<close>)
qed

lemma warmupPhase_neverFails:
  assumes "neverFails B C" "neverCanceled env"
  shows "canceled (warmupPhase env config B C common example s) = canceled s
         \<and> failure (warmupPhase env config B C common example s) = failure s"
  using passes_neverFails [OF assms]
  by (simp add: warmupPhase_def Let_def split_beta)

text \<open>
  Claim C4. A warmup phase that ends neither failed nor canceled has called the
  Single-Pass Runner exactly \<open>warmups\<close> times, never with the verify step; a warmup phase
  reached with a failure recorded or the run canceled calls it zero times (it does
  nothing at all).
\<close>

theorem warmup_pass_count:
  "(\<not> canceled (warmupPhase env config B C common example s)
      \<and> failure (warmupPhase env config B C common example s) = None
    \<longrightarrow> (\<exists>tr. trace (warmupPhase env config B C common example s) = trace s @ tr
            \<and> runnerCalls tr = warmups config \<and> Verify \<notin> set tr))
   \<and> (canceled s \<or> failure s \<noteq> None
    \<longrightarrow> warmupPhase env config B C common example s = s
        \<and> runnerCalls (drop (length (trace s))
             (trace (warmupPhase env config B C common example s))) = 0)"
  using warmupPhase_clean_count [of env config B C common example s]
    warmupPhase_skipped [of s env config B C common example]
  by auto

theorem warmup_pass_count_witness:
  "\<not> canceled (warmupPhase quietEnv DEFAULT_CONFIG goodBenchmark goodClient
        (eventCommon startState) None startState)
   \<and> failure (warmupPhase quietEnv DEFAULT_CONFIG goodBenchmark goodClient
        (eventCommon startState) None startState) = None
   \<and> (\<exists>tr. trace (warmupPhase quietEnv DEFAULT_CONFIG goodBenchmark goodClient
        (eventCommon startState) None startState) = trace startState @ tr
         \<and> runnerCalls tr = 10 \<and> Verify \<notin> set tr)
   \<and> failure failedState \<noteq> None
   \<and> warmupPhase quietEnv DEFAULT_CONFIG goodBenchmark goodClient
        (eventCommon startState) None failedState = failedState"
proof -
  have nc: "neverCanceled quietEnv"
    by (simp add: neverCanceled_def quietEnv_def)
  have clean: "\<not> canceled (warmupPhase quietEnv DEFAULT_CONFIG goodBenchmark goodClient
        (eventCommon startState) None startState)
   \<and> failure (warmupPhase quietEnv DEFAULT_CONFIG goodBenchmark goodClient
        (eventCommon startState) None startState) = None"
    using warmupPhase_neverFails [OF neverFails_good nc]
    by (simp add: startState_def initialState_def)
  have failed: "failure failedState \<noteq> None"
    by (simp add: failedState_def)
  from clean failed
    warmup_pass_count [of quietEnv DEFAULT_CONFIG goodBenchmark goodClient
      "eventCommon startState" None startState]
    warmup_pass_count [of quietEnv DEFAULT_CONFIG goodBenchmark goodClient
      "eventCommon startState" None failedState]
  show ?thesis
    by (simp add: DEFAULT_CONFIG_def)
qed

subsection \<open>The iteration phase\<close>

lemma snd_isFinalIteration:
  "snd (isFinalIteration env lib config runStart stats s) =
     (if length stats < minSamples config then s else act (ReadClock (clock env (tick s))) s)"
  by (simp add: isFinalIteration_def performanceNow_def Let_def)

lemma events_isFinalIteration [simp]:
  "events (snd (isFinalIteration env lib config runStart stats s)) = events s"
  by (simp add: snd_isFinalIteration)

lemma length_pushSample: "length (fst (pushSample r acc)) = Suc (length (fst acc))"
  by (cases acc) (simp add: pushSample_def)

text \<open>
  Invariants of the whole engine: what every action other than a suspension, every
  suspension and every change of the failure preserve.
\<close>

lemma iterationLoop_invariant:
  assumes A1: "\<And>a s. P s \<Longrightarrow> a \<noteq> Suspend \<Longrightarrow> P (act a s)"
    and A2: "\<And>s. P s \<Longrightarrow> P (await env s)"
    and A3: "\<And>s f. P s \<Longrightarrow> P (s\<lparr>failure := f\<rparr>)"
  shows "P s \<Longrightarrow>
     iterationLoop fuel env lib config B C common example base runStart acc s = Some r \<Longrightarrow>
     (case r of Resolved acc' s' \<Rightarrow> P s' | Rejected e s' \<Rightarrow> P s')"
proof (induction fuel arbitrary: acc s)
  case 0
  then show ?case by simp
next
  case (Suc fuel)
  note step = Suc.prems(2) [unfolded iterationLoop_Suc]
  show ?case
  proof (cases "canceled s \<or> failure s \<noteq> None")
    case True
    with step Suc.prems(1) show ?thesis by auto
  next
    case False
    define s1 where "s1 = reporter (phaseEvent common B C ITERATION START) s"
    obtain res s2 where eq: "runSingleBenchmarkPass env B C example ITERATION False s1 = (res, s2)"
      by (cases "runSingleBenchmarkPass env B C example ITERATION False s1")
    have "P s1"
      unfolding s1_def reporter_def by (rule A1) (use Suc.prems in simp_all)
    have "P (snd (runSingleBenchmarkPass env B C example ITERATION False s1))"
      by (rule pass_invariant [where P = P])
         (rule A1, assumption+, rule A2, assumption, rule A3, assumption, rule \<open>P s1\<close>)
    then have "P s2" using eq by simp
    then have P3: "P (await env s2)" by (rule A2)
    show ?thesis
    proof (cases res)
      case None
      with step False eq P3 show ?thesis
        by (auto simp: s1_def)
    next
      case (Some r0)
      define s5 where "s5 = snd (isFinalIteration env lib config runStart (fst (pushSample r0 acc))
          (reporter (iterationEnd lib common B C base r0 (pushSample r0 acc) (failure s2))
             (await env s2)))"
      have P5: "P s5"
        unfolding s5_def snd_isFinalIteration reporter_def using P3 by (simp add: A1)
      from step False eq Some
      have "Some r = Some (Resolved (pushSample r0 acc) s5)
            \<or> iterationLoop fuel env lib config B C common example base runStart
                 (pushSample r0 acc) s5 = Some r"
        by (auto simp: s1_def s5_def split: if_splits)
      then show ?thesis
      proof
        assume "Some r = Some (Resolved (pushSample r0 acc) s5)"
        with P5 show ?thesis by auto
      next
        assume "iterationLoop fuel env lib config B C common example base runStart
                 (pushSample r0 acc) s5 = Some r"
        from Suc.IH [OF P5 this] show ?thesis .
      qed
    qed
  qed
qed

text \<open>
  The events of the loop: one START and one END for every pass that returned a result;
  a loop that is rejected has emitted one START more than END.
\<close>

lemma iterationLoop_events:
  "iterationLoop fuel env lib config B C common example base runStart acc s = Some r \<Longrightarrow>
     (\<exists>evs. events (case r of Resolved acc' s' \<Rightarrow> s' | Rejected e s' \<Rightarrow> s') = events s @ evs
        \<and> (\<forall>ph ty. ph \<noteq> ITERATION \<longrightarrow> phaseCount ph ty evs = 0)
        \<and> (case r of
              Resolved acc' s' \<Rightarrow>
                length (fst acc') = length (fst acc) + phaseCount ITERATION START evs
                \<and> phaseCount ITERATION END evs = phaseCount ITERATION START evs
            | Rejected e s' \<Rightarrow>
                e = destructureError
                \<and> phaseCount ITERATION START evs = Suc (phaseCount ITERATION END evs)
                \<and> evs \<noteq> [] \<and> last evs = phaseEvent common B C ITERATION START))"
proof (induction fuel arbitrary: acc s)
  case 0
  then show ?case by simp
next
  case (Suc fuel)
  note step = Suc.prems [unfolded iterationLoop_Suc]
  show ?case
  proof (cases "canceled s \<or> failure s \<noteq> None")
    case True
    with step show ?thesis by auto
  next
    case False
    define s1 where "s1 = reporter (phaseEvent common B C ITERATION START) s"
    obtain res s2 where eq: "runSingleBenchmarkPass env B C example ITERATION False s1 = (res, s2)"
      by (cases "runSingleBenchmarkPass env B C example ITERATION False s1")
    have "events (snd (runSingleBenchmarkPass env B C example ITERATION False s1)) = events s1"
      by simp
    then have ev2: "events s2 = events s @ [phaseEvent common B C ITERATION START]"
      unfolding eq by (simp add: s1_def)
    show ?thesis
    proof (cases res)
      case None
      with step False eq have "r = Rejected destructureError (await env s2)"
        by (auto simp: s1_def)
      with ev2 show ?thesis by simp
    next
      case (Some r0)
      define s5 where "s5 = snd (isFinalIteration env lib config runStart (fst (pushSample r0 acc))
          (reporter (iterationEnd lib common B C base r0 (pushSample r0 acc) (failure s2))
             (await env s2)))"
      have ev5: "events s5 = events s @ [phaseEvent common B C ITERATION START,
                   iterationEnd lib common B C base r0 (pushSample r0 acc) (failure s2)]"
        by (simp add: s5_def ev2)
      from step False eq Some
      have "r = Resolved (pushSample r0 acc) s5
            \<or> iterationLoop fuel env lib config B C common example base runStart
                 (pushSample r0 acc) s5 = Some r"
        by (auto simp: s1_def s5_def split: if_splits)
      then show ?thesis
      proof
        assume "r = Resolved (pushSample r0 acc) s5"
        with ev5 show ?thesis by (simp add: length_pushSample)
      next
        assume "iterationLoop fuel env lib config B C common example base runStart
                 (pushSample r0 acc) s5 = Some r"
        from Suc.IH [OF this] obtain evs where evs:
          "events (case r of Resolved acc' s' \<Rightarrow> s' | Rejected e s' \<Rightarrow> s') = events s5 @ evs"
          "\<forall>ph ty. ph \<noteq> ITERATION \<longrightarrow> phaseCount ph ty evs = 0"
          "case r of
              Resolved acc' s' \<Rightarrow>
                length (fst acc') = length (fst (pushSample r0 acc)) + phaseCount ITERATION START evs
                \<and> phaseCount ITERATION END evs = phaseCount ITERATION START evs
            | Rejected e s' \<Rightarrow>
                e = destructureError
                \<and> phaseCount ITERATION START evs = Suc (phaseCount ITERATION END evs)
                \<and> evs \<noteq> [] \<and> last evs = phaseEvent common B C ITERATION START"
          by blast
        show ?thesis
          by (rule exI [of _ "[phaseEvent common B C ITERATION START,
                   iterationEnd lib common B C base r0 (pushSample r0 acc) (failure s2)] @ evs"])
             (use evs ev5 in \<open>auto simp: length_pushSample split: settled.splits\<close>)
      qed
    qed
  qed
qed

lemma iterationPhase_skipped:
  "canceled s \<or> failure s \<noteq> None \<Longrightarrow>
     iterationPhase fuel env lib config B C common example base s
       = Some (Resolved ([], [], []) (act (ReadClock (clock env (tick s))) s))"
  by (auto simp: iterationPhase_def Let_def performanceNow_def)

lemma iterationPhase_events:
  assumes "iterationPhase fuel env lib config B C common example base s = Some r"
  shows "\<exists>evs. events (case r of Resolved acc' s' \<Rightarrow> s' | Rejected e s' \<Rightarrow> s') = events s @ evs
        \<and> (\<forall>ph ty. ph \<noteq> ITERATION \<longrightarrow> phaseCount ph ty evs = 0)
        \<and> (canceled s \<or> failure s \<noteq> None \<longrightarrow> evs = [])
        \<and> (case r of
              Resolved acc' s' \<Rightarrow>
                length (fst acc') = phaseCount ITERATION START evs
                \<and> phaseCount ITERATION END evs = phaseCount ITERATION START evs
            | Rejected e s' \<Rightarrow>
                e = destructureError
                \<and> phaseCount ITERATION START evs = Suc (phaseCount ITERATION END evs)
                \<and> evs \<noteq> [] \<and> last evs = phaseEvent common B C ITERATION START)"
proof (cases "canceled s \<or> failure s \<noteq> None")
  case True
  from iterationPhase_skipped [OF this] assms show ?thesis by auto
next
  case False
  with assms have "iterationLoop fuel env lib config B C common example base (clock env (tick s))
      ([], [], []) (act (ReadClock (clock env (tick s))) s) = Some r"
    by (simp add: iterationPhase_def Let_def performanceNow_def)
  from iterationLoop_events [OF this] False show ?thesis
    by (auto split: settled.splits)
qed

lemma iterationPhase_invariant:
  assumes A1: "\<And>a s. P s \<Longrightarrow> a \<noteq> Suspend \<Longrightarrow> P (act a s)"
    and A2: "\<And>s. P s \<Longrightarrow> P (await env s)"
    and A3: "\<And>s f. P s \<Longrightarrow> P (s\<lparr>failure := f\<rparr>)"
    and "P s"
    and "iterationPhase fuel env lib config B C common example base s = Some r"
  shows "case r of Resolved acc' s' \<Rightarrow> P s' | Rejected e s' \<Rightarrow> P s'"
proof -
  have P1: "P (act (ReadClock (clock env (tick s))) s)"
    by (rule A1) (use \<open>P s\<close> in simp_all)
  show ?thesis
  proof (cases "canceled s \<or> failure s \<noteq> None")
    case True
    from iterationPhase_skipped [OF this] assms(5) P1 show ?thesis by auto
  next
    case False
    with assms(5) have "iterationLoop fuel env lib config B C common example base
        (clock env (tick s)) ([], [], []) (act (ReadClock (clock env (tick s))) s) = Some r"
      by (simp add: iterationPhase_def Let_def performanceNow_def)
    from iterationLoop_invariant [where P = P, OF _ _ _ P1 this] A1 A2 A3
    show ?thesis by blast
  qed
qed

subsection \<open>The end of a pairing\<close>

lemma saveData_frame [simp]:
  "failure (saveData env name stat s) = failure s"
  "canceled (saveData env name stat s) = canceled s"
  "eventCommon (saveData env name stat s) = eventCommon s"
  "events (saveData env name stat s) = events s"
  "suspensions (saveData env name stat s) = suspensions s"
  by (simp_all add: saveData_def suspensions_act)

lemma trace_saveData:
  "trace (saveData env name stat s) =
     trace s @ (if gc env then [ReadFile ''./findings.json'' name stat] else [])"
  by (simp add: saveData_def)

lemma finishPairing_failure [simp]:
  "failure (snd (finishPairing env lib B C common base acc s)) = None"
  by (cases acc) (simp add: finishPairing_def Let_def)

lemma finishPairing_events:
  "events (snd (finishPairing env lib B C common base acc s)) =
     events s @ [(pairingEvent common B C CLIENT_BENCHMARK END)
       \<lparr>ev_stats := Some (fst (finishPairing env lib B C common base acc s)),
        ev_failure := failure s\<rparr>]"
  by (cases acc) (simp add: finishPairing_def Let_def)

lemma finishPairing_trace:
  "trace (snd (finishPairing env lib B C common base acc s)) =
     trace s @ [SetTimeout 10, Suspend,
       Report ((pairingEvent common B C CLIENT_BENCHMARK END)
         \<lparr>ev_stats := Some (fst (finishPairing env lib B C common base acc s)),
          ev_failure := failure s\<rparr>)]
     @ (if gc env then [ReadFile ''./findings.json'' (c_name C) (amean lib (fst acc))] else [])"
  by (cases acc) (simp add: finishPairing_def Let_def trace_saveData)

lemma finishPairing_invariant:
  assumes A1: "\<And>a s. P s \<Longrightarrow> a \<noteq> Suspend \<Longrightarrow> P (act a s)"
    and A2: "\<And>s. P s \<Longrightarrow> P (await env s)"
    and A3: "\<And>s f. P s \<Longrightarrow> P (s\<lparr>failure := f\<rparr>)"
    and "P s"
  shows "P (snd (finishPairing env lib B C common base acc s))"
proof -
  have "P (pause env 10 s)"
    unfolding pause_def by (intro A1 A2 \<open>P s\<close>) simp
  then show ?thesis
    by (cases acc) (simp add: finishPairing_def Let_def saveData_def reporter_def A1 A3)
qed

subsection \<open>The whole pairing\<close>

lemma runClientBenchmark_cases:
  assumes "runClientBenchmark fuel env lib config rawExample B C s = Some r"
  obtains
    (constructor) e s1 where
      "beginPairing env B C s = (Inl e, s1)" "r = Rejected e s1"
  | (rejected) base s1 example s2 e s5 where
      "beginPairing env B C s = (Inr base, s1)"
      "verifyPhase env config rawExample B C (eventCommon s) s1 = (example, s2)"
      "iterationPhase fuel env lib config B C (eventCommon s) example base
         (pause env 50 (warmupPhase env config B C (eventCommon s) example (pause env 50 s2)))
         = Some (Rejected e s5)"
      "r = Rejected e s5"
  | (resolved) base s1 example s2 acc s5 where
      "beginPairing env B C s = (Inr base, s1)"
      "verifyPhase env config rawExample B C (eventCommon s) s1 = (example, s2)"
      "iterationPhase fuel env lib config B C (eventCommon s) example base
         (pause env 50 (warmupPhase env config B C (eventCommon s) example (pause env 50 s2)))
         = Some (Resolved acc s5)"
      "r = Resolved (fst (finishPairing env lib B C (eventCommon s) base acc s5))
             (snd (finishPairing env lib B C (eventCommon s) base acc s5))"
  using assms
  by (auto simp: runClientBenchmark_def Let_def
      split: prod.splits sum.splits option.splits settled.splits)

lemma beginPairing_events:
  "events (snd (beginPairing env B C s)) =
     events s @ [pairingEvent (eventCommon s) B C CLIENT_BENCHMARK START]"
  by (simp add: beginPairing_def Let_def gcAndRead_def split: option.splits)

lemma runClientBenchmark_cleared:
  assumes "runClientBenchmark fuel env lib config rawExample B C s = Some (Resolved finalStats s')"
  shows "failure s' = None
    \<and> (\<exists>evs f. events s' = events s @ evs @
          [(pairingEvent (eventCommon s) B C CLIENT_BENCHMARK END)
             \<lparr>ev_stats := Some finalStats, ev_failure := f\<rparr>])"
  using assms
proof (cases rule: runClientBenchmark_cases)
  case (resolved base s1 example s2 acc s5)
  define s4 where
    "s4 = pause env 50 (warmupPhase env config B C (eventCommon s) example (pause env 50 s2))"
  have e1: "events s1 = events s @ [pairingEvent (eventCommon s) B C CLIENT_BENCHMARK START]"
    using beginPairing_events [of env B C s] resolved(1) by simp
  from events_verifyPhase [OF resolved(2)] obtain ev2 where e2: "events s2 = events s1 @ ev2"
    by blast
  from events_warmupPhase [OF refl, of env config B C "eventCommon s" example "pause env 50 s2"]
  obtain ev3 where e3: "events s4 = events s2 @ ev3"
    unfolding s4_def by (auto split: if_splits)
  from iterationPhase_events [OF resolved(3) [folded s4_def]]
  obtain ev4 where e4: "events s5 = events s4 @ ev4"
    by auto
  have "events s' = events s @
      (pairingEvent (eventCommon s) B C CLIENT_BENCHMARK START # ev2 @ ev3 @ ev4) @
          [(pairingEvent (eventCommon s) B C CLIENT_BENCHMARK END)
             \<lparr>ev_stats := Some finalStats, ev_failure := failure s5\<rparr>]"
    using resolved(4) finishPairing_events [of env lib B C "eventCommon s" base acc s5] e1 e2 e3 e4
    by simp
  moreover have "failure s' = None"
    using resolved(4) by simp
  ultimately show ?thesis by blast
qed simp_all

subsection \<open>A pairing whose example cannot be transformed\<close>

lemma events_trace_append:
  "trace s' = trace s @ tr \<Longrightarrow>
     events s' = events s @ concat (map (\<lambda>a. case a of Report ev \<Rightarrow> [ev] | _ \<Rightarrow> []) tr)"
  by (simp add: events_def)

lemma onlyTransforms_no_events:
  "onlyTransforms tr \<Longrightarrow> concat (map (\<lambda>a. case a of Report ev \<Rightarrow> [ev] | _ \<Rightarrow> []) tr) = []"
  by (induction tr) (auto simp: onlyTransforms_def split: Action.splits)

lemma onlyTransforms_no_calls:
  "onlyTransforms tr \<Longrightarrow> runnerCalls tr = 0"
  by (induction tr) (auto simp: onlyTransforms_def runnerCalls_Cons split: Action.splits)

lemma verifyPhase_transform_failure:
  assumes "transformExample C rawExample
             (snd (performanceNow env (reporter (phaseEvent common B C VERIFY START) s)))
           = (Inl e, s2)"
  shows "verifyPhase env config rawExample B C common s =
     (None, reporter ((phaseEvent common B C VERIFY END)
               \<lparr>ev_duration := Some (clock env (tick s2) - clock env (Suc (tick s))),
                ev_failure := Some \<lparr>f_error = e, f_phase = VERIFY\<rparr>\<rparr>)
              (act (ReadClock (clock env (tick s2)))
                 (s2\<lparr>failure := Some \<lparr>f_error = e, f_phase = VERIFY\<rparr>\<rparr>)))"
  using assms
  by (simp add: verifyPhase_def Let_def split_beta passes_stopped performanceNow_def)

lemma pairing_transform_failure:
  assumes bp: "beginPairing env B C s = (Inr base, s1)"
    and transform: "transformExample C rawExample
             (snd (performanceNow env (reporter (phaseEvent (eventCommon s) B C VERIFY START) s1)))
           = (Inl e, s2)"
  shows "\<exists>finalStats s' tr t0 t1 t2 d.
      runClientBenchmark fuel env lib config rawExample B C s = Some (Resolved finalStats s')
      \<and> onlyTransforms tr
      \<and> trace s' = trace s1
          @ [Report (phaseEvent (eventCommon s) B C VERIFY START), ReadClock t0] @ tr
          @ [ReadClock t1,
             Report ((phaseEvent (eventCommon s) B C VERIFY END)
               \<lparr>ev_duration := Some d, ev_failure := Some \<lparr>f_error = e, f_phase = VERIFY\<rparr>\<rparr>),
             SetTimeout 50, Suspend, SetTimeout 50, Suspend, ReadClock t2, SetTimeout 10, Suspend,
             Report ((pairingEvent (eventCommon s) B C CLIENT_BENCHMARK END)
               \<lparr>ev_stats := Some finalStats,
                ev_failure := Some \<lparr>f_error = e, f_phase = VERIFY\<rparr>\<rparr>)]
          @ (if gc env then [ReadFile ''./findings.json'' (c_name C) (amean lib [])] else [])
      \<and> failure s' = None
      \<and> trace s2 = trace s1
          @ [Report (phaseEvent (eventCommon s) B C VERIFY START), ReadClock t0] @ tr"
proof -
  define common where "common = eventCommon s"
  define fl where "fl = \<lparr>f_error = e, f_phase = VERIFY\<rparr>"
  define t0 where "t0 = clock env (Suc (tick s1))"
  define t1 where "t1 = clock env (tick s2)"
  define s3 where "s3 = reporter ((phaseEvent common B C VERIFY END)
               \<lparr>ev_duration := Some (t1 - t0), ev_failure := Some fl\<rparr>)
              (act (ReadClock t1) (s2\<lparr>failure := Some fl\<rparr>))"
  define s4 where "s4 = pause env 50 (pause env 50 s3)"
  define t2 where "t2 = clock env (tick s4)"
  define s5 where "s5 = act (ReadClock t2) s4"
  define fin where "fin = finishPairing env lib B C common base ([], [], []) s5"
  from transformExample_trace [of C rawExample
      "snd (performanceNow env (reporter (phaseEvent common B C VERIFY START) s1))"] transform
  obtain tr where tr: "onlyTransforms tr"
    "trace s2 = trace s1 @ [Report (phaseEvent common B C VERIFY START), ReadClock t0] @ tr"
    by (auto simp: common_def t0_def)
  have v: "verifyPhase env config rawExample B C common s1 = (None, s3)"
    using verifyPhase_transform_failure [OF transform [folded common_def], of config]
    by (simp add: s3_def fl_def t0_def t1_def)
  have f3: "failure s3 = Some fl"
    by (simp add: s3_def)
  have w: "warmupPhase env config B C common None (pause env 50 s3) = pause env 50 s3"
    by (rule warmupPhase_skipped) (simp add: f3)
  have i: "iterationPhase fuel env lib config B C common None base s4
             = Some (Resolved ([], [], []) s5)"
    unfolding s5_def t2_def by (rule iterationPhase_skipped) (simp add: s4_def f3)
  have run: "runClientBenchmark fuel env lib config rawExample B C s
               = Some (Resolved (fst fin) (snd fin))"
    by (simp add: runClientBenchmark_def Let_def bp v [unfolded common_def]
          w [unfolded common_def] i [unfolded common_def s4_def] fin_def common_def split_beta)
  have f5: "failure s5 = Some fl"
    by (simp add: s5_def s4_def f3)
  have "trace (snd fin) = trace s1
          @ [Report (phaseEvent common B C VERIFY START), ReadClock t0] @ tr
          @ [ReadClock t1,
             Report ((phaseEvent common B C VERIFY END)
               \<lparr>ev_duration := Some (t1 - t0), ev_failure := Some fl\<rparr>),
             SetTimeout 50, Suspend, SetTimeout 50, Suspend, ReadClock t2, SetTimeout 10, Suspend,
             Report ((pairingEvent common B C CLIENT_BENCHMARK END)
               \<lparr>ev_stats := Some (fst fin), ev_failure := Some fl\<rparr>)]
          @ (if gc env then [ReadFile ''./findings.json'' (c_name C) (amean lib [])] else [])"
    unfolding fin_def finishPairing_trace f5
    by (simp add: s5_def s4_def s3_def tr(2))
  moreover have "failure (snd fin) = None"
    by (simp add: fin_def)
  ultimately show ?thesis
    using run tr unfolding common_def fl_def by blast
qed

lemma transformPartials_throw:
  assumes "k < length ps"
    and "\<forall>j<k. \<exists>x. c_transformRawExample C (tick s + j) (with_schema (ps ! j) sch) = Inr x"
    and "c_transformRawExample C (tick s + k) (with_schema (ps ! k) sch) = Inl e"
  shows "\<exists>s2. transformPartials C sch ps s = (Inl e, s2)
     \<and> trace s2 = trace s @ map (\<lambda>p. TransformRawExample (with_schema p sch)) (take (Suc k) ps)"
  using assms
proof (induction ps arbitrary: s k)
  case Nil
  then show ?case by simp
next
  case (Cons p ps)
  show ?case
  proof (cases k)
    case 0
    with Cons.prems(3) show ?thesis by simp
  next
    case (Suc k')
    from Cons.prems(2) Suc obtain x where
      x: "c_transformRawExample C (tick s) (with_schema p sch) = Inr x"
      by force
    have 1: "k' < length ps"
      using Cons.prems(1) Suc by simp
    have 2: "\<forall>j<k'. \<exists>x. c_transformRawExample C
                (tick (act (TransformRawExample (with_schema p sch)) s) + j)
                (with_schema (ps ! j) sch) = Inr x"
    proof (intro allI impI)
      fix j assume "j < k'"
      then have "Suc j < k" using Suc by simp
      with Cons.prems(2) show "\<exists>x. c_transformRawExample C
                (tick (act (TransformRawExample (with_schema p sch)) s) + j)
                (with_schema (ps ! j) sch) = Inr x"
        by (fastforce simp: tick_def act_def)
    qed
    have 3: "c_transformRawExample C
                (tick (act (TransformRawExample (with_schema p sch)) s) + k')
                (with_schema (ps ! k') sch) = Inl e"
      using Cons.prems(3) Suc by (simp add: tick_def act_def)
    from Cons.IH [OF 1 2 3] obtain s2 where
      "transformPartials C sch ps (act (TransformRawExample (with_schema p sch)) s) = (Inl e, s2)"
      "trace s2 = trace (act (TransformRawExample (with_schema p sch)) s)
         @ map (\<lambda>p. TransformRawExample (with_schema p sch)) (take (Suc k') ps)"
      by blast
    with x Suc show ?thesis
      by (simp add: act_def)
  qed
qed

lemma transformExample_throw:
  assumes "firstThrow C (tick s) (transformCalls rawExample) k e"
  shows "\<exists>s2. transformExample C rawExample s = (Inl e, s2)
     \<and> trace s2 = trace s @ map TransformRawExample (take (Suc k) (transformCalls rawExample))"
proof (cases k)
  case 0
  with assms show ?thesis
    by (simp add: firstThrow_def transformCalls_def transformExample_def act_def)
next
  case (Suc k')
  from assms Suc obtain x where
    x: "c_transformRawExample C (tick s) rawExample = Inr x"
    by (fastforce simp: firstThrow_def transformCalls_def)
  have 1: "k' < length (partials rawExample)"
    using assms Suc by (simp add: firstThrow_def transformCalls_def)
  have 2: "\<forall>j<k'. \<exists>x. c_transformRawExample C
                (tick (act (TransformRawExample rawExample) s) + j)
                (with_schema (partials rawExample ! j) (schema rawExample)) = Inr x"
  proof (intro allI impI)
    fix j assume j: "j < k'"
    then have "Suc j < k" using Suc by simp
    with assms have "\<exists>x. c_transformRawExample C (tick s + Suc j)
        (transformCalls rawExample ! Suc j) = Inr x"
      unfolding firstThrow_def by blast
    with j 1 show "\<exists>x. c_transformRawExample C
                (tick (act (TransformRawExample rawExample) s) + j)
                (with_schema (partials rawExample ! j) (schema rawExample)) = Inr x"
      by (simp add: transformCalls_def tick_def act_def)
  qed
  have 3: "c_transformRawExample C (tick (act (TransformRawExample rawExample) s) + k')
                (with_schema (partials rawExample ! k') (schema rawExample)) = Inl e"
    using assms Suc 1 by (simp add: firstThrow_def transformCalls_def tick_def act_def)
  from transformPartials_throw [OF 1 2 3] obtain s2 where
    "transformPartials C (schema rawExample) (partials rawExample)
        (act (TransformRawExample rawExample) s) = (Inl e, s2)"
    "trace s2 = trace (act (TransformRawExample rawExample) s)
       @ map (\<lambda>p. TransformRawExample (with_schema p (schema rawExample)))
           (take (Suc k') (partials rawExample))"
    by blast
  with x Suc show ?thesis
    by (simp add: transformExample_def transformCalls_def act_def take_map)
qed

lemma beginPairing_trace:
  assumes "c_new C (tick s + (if gc env then 3 else 1)) = None"
  shows "\<exists>base s1 m. beginPairing env B C s = (Inr base, s1)
     \<and> trace s1 = trace s @ [Report (pairingEvent (eventCommon s) B C CLIENT_BENCHMARK START)]
         @ (if gc env then [CallGc, ReadMemory m] else []) @ [NewClient (c_metadata C)]"
  using assms
  by (auto simp: beginPairing_def Let_def gcAndRead_def reporter_def act_def tick_def
      eval_nat_numeral split: if_splits)

lemma pairing_transform_throw:
  assumes "c_new C (tick s + (if gc env then 3 else 1)) = None"
    and "firstThrow C (tick s + (if gc env then 6 else 4)) (transformCalls rawExample) k e"
  shows "\<exists>finalStats s' m t0 t1 t2 d.
      runClientBenchmark fuel env lib config rawExample B C s = Some (Resolved finalStats s')
      \<and> trace s' = trace s
          @ [Report (pairingEvent (eventCommon s) B C CLIENT_BENCHMARK START)]
          @ (if gc env then [CallGc, ReadMemory m] else [])
          @ [NewClient (c_metadata C),
             Report (phaseEvent (eventCommon s) B C VERIFY START), ReadClock t0]
          @ map TransformRawExample (take (Suc k) (transformCalls rawExample))
          @ [ReadClock t1,
             Report ((phaseEvent (eventCommon s) B C VERIFY END)
               \<lparr>ev_duration := Some d, ev_failure := Some \<lparr>f_error = e, f_phase = VERIFY\<rparr>\<rparr>),
             SetTimeout 50, Suspend, SetTimeout 50, Suspend, ReadClock t2, SetTimeout 10, Suspend,
             Report ((pairingEvent (eventCommon s) B C CLIENT_BENCHMARK END)
               \<lparr>ev_stats := Some finalStats,
                ev_failure := Some \<lparr>f_error = e, f_phase = VERIFY\<rparr>\<rparr>)]
          @ (if gc env then [ReadFile ''./findings.json'' (c_name C) (amean lib [])] else [])
      \<and> runnerCalls (drop (length (trace s) + (if gc env then 4 else 2)) (trace s')) = 0
      \<and> failure s' = None"
proof -
  from beginPairing_trace [OF assms(1), of B] obtain base s1 m where
    bp: "beginPairing env B C s = (Inr base, s1)"
    and tr1: "trace s1 = trace s
         @ [Report (pairingEvent (eventCommon s) B C CLIENT_BENCHMARK START)]
         @ (if gc env then [CallGc, ReadMemory m] else []) @ [NewClient (c_metadata C)]"
    by blast
  define sv where "sv = snd (performanceNow env
      (reporter (phaseEvent (eventCommon s) B C VERIFY START) s1))"
  have tv: "tick sv = tick s + (if gc env then 6 else 4)"
    using tr1 by (simp add: sv_def tick_def performanceNow_def reporter_def act_def)
  from transformExample_throw [of C sv rawExample k e] assms(2) tv obtain s2 where
    te: "transformExample C rawExample sv = (Inl e, s2)"
    and tr2: "trace s2 = trace sv
        @ map TransformRawExample (take (Suc k) (transformCalls rawExample))"
    by auto
  from pairing_transform_failure [OF bp te [unfolded sv_def], of fuel lib config]
  obtain finalStats s' tr t0 t1 t2 d where r:
    "runClientBenchmark fuel env lib config rawExample B C s = Some (Resolved finalStats s')"
    "trace s' = trace s1
          @ [Report (phaseEvent (eventCommon s) B C VERIFY START), ReadClock t0] @ tr
          @ [ReadClock t1,
             Report ((phaseEvent (eventCommon s) B C VERIFY END)
               \<lparr>ev_duration := Some d, ev_failure := Some \<lparr>f_error = e, f_phase = VERIFY\<rparr>\<rparr>),
             SetTimeout 50, Suspend, SetTimeout 50, Suspend, ReadClock t2, SetTimeout 10, Suspend,
             Report ((pairingEvent (eventCommon s) B C CLIENT_BENCHMARK END)
               \<lparr>ev_stats := Some finalStats,
                ev_failure := Some \<lparr>f_error = e, f_phase = VERIFY\<rparr>\<rparr>)]
          @ (if gc env then [ReadFile ''./findings.json'' (c_name C) (amean lib [])] else [])"
    "failure s' = None"
    "trace s2 = trace s1
          @ [Report (phaseEvent (eventCommon s) B C VERIFY START), ReadClock t0] @ tr"
    by blast
  have "trace sv = trace s1
      @ [Report (phaseEvent (eventCommon s) B C VERIFY START),
         ReadClock (clock env (Suc (tick s1)))]"
    by (simp add: sv_def performanceNow_def reporter_def act_def tick_def)
  with tr2 r(4) have tr: "tr = map TransformRawExample (take (Suc k) (transformCalls rawExample))"
    by simp
  have full: "trace s' = trace s
          @ [Report (pairingEvent (eventCommon s) B C CLIENT_BENCHMARK START)]
          @ (if gc env then [CallGc, ReadMemory m] else [])
          @ [NewClient (c_metadata C),
             Report (phaseEvent (eventCommon s) B C VERIFY START), ReadClock t0]
          @ map TransformRawExample (take (Suc k) (transformCalls rawExample))
          @ [ReadClock t1,
             Report ((phaseEvent (eventCommon s) B C VERIFY END)
               \<lparr>ev_duration := Some d, ev_failure := Some \<lparr>f_error = e, f_phase = VERIFY\<rparr>\<rparr>),
             SetTimeout 50, Suspend, SetTimeout 50, Suspend, ReadClock t2, SetTimeout 10, Suspend,
             Report ((pairingEvent (eventCommon s) B C CLIENT_BENCHMARK END)
               \<lparr>ev_stats := Some finalStats,
                ev_failure := Some \<lparr>f_error = e, f_phase = VERIFY\<rparr>\<rparr>)]
          @ (if gc env then [ReadFile ''./findings.json'' (c_name C) (amean lib [])] else [])"
    unfolding r(2) tr1 tr by simp
  have calls: "runnerCalls (map TransformRawExample xs) = 0" for xs
    by (induction xs) (simp_all add: runnerCalls_def)
  have "runnerCalls (drop (length (trace s) + (if gc env then 4 else 2)) (trace s')) = 0"
    unfolding full by (simp add: runnerCalls_Cons runnerCalls_append calls runnerCalls_def)
  with r(1,3) full show ?thesis by blast
qed

text \<open>
  Claim C7. When \<open>transformRawExample\<close> throws for the raw example or for one of its
  partials, the error it throws is recorded with the VERIFY phase and the pairing runs to
  its end without a single pass. The whole trace of the pairing is: the CLIENT_BENCHMARK
  START event, the memory baseline when \<open>global.gc\<close> exists, the client of line 150, the
  VERIFY START event, the calls of \<open>transformRawExample\<close> up to the one that throws,
  the VERIFY END event carrying the failure, the three pauses, and the CLIENT_BENCHMARK END
  event carrying the failure. No client or benchmark is built after the first client, so
  no verify, warmup or iteration pass is run. The failure is cleared afterwards.
\<close>

theorem transform_failure_skips_passes:
  assumes "c_new C (tick s + (if gc env then 3 else 1)) = None"
    and "firstThrow C (tick s + (if gc env then 6 else 4)) (transformCalls rawExample) k e"
  shows "\<exists>finalStats s' m t0 t1 t2 d.
      runClientBenchmark fuel env lib config rawExample B C s = Some (Resolved finalStats s')
      \<and> trace s' = trace s
          @ [Report (pairingEvent (eventCommon s) B C CLIENT_BENCHMARK START)]
          @ (if gc env then [CallGc, ReadMemory m] else [])
          @ [NewClient (c_metadata C),
             Report (phaseEvent (eventCommon s) B C VERIFY START), ReadClock t0]
          @ map TransformRawExample (take (Suc k) (transformCalls rawExample))
          @ [ReadClock t1,
             Report ((phaseEvent (eventCommon s) B C VERIFY END)
               \<lparr>ev_duration := Some d, ev_failure := Some \<lparr>f_error = e, f_phase = VERIFY\<rparr>\<rparr>),
             SetTimeout 50, Suspend, SetTimeout 50, Suspend, ReadClock t2, SetTimeout 10, Suspend,
             Report ((pairingEvent (eventCommon s) B C CLIENT_BENCHMARK END)
               \<lparr>ev_stats := Some finalStats,
                ev_failure := Some \<lparr>f_error = e, f_phase = VERIFY\<rparr>\<rparr>)]
          @ (if gc env then [ReadFile ''./findings.json'' (c_name C) (amean lib [])] else [])
      \<and> runnerCalls (drop (length (trace s) + (if gc env then 4 else 2)) (trace s')) = 0
      \<and> failure s' = None"
  using assms by (rule pairing_transform_throw)

lemma picky_throws:
  "firstThrow pickyClient t (transformCalls partialsExample) 2 ''bad partial''"
  by (auto simp: firstThrow_def transformCalls_def partialsExample_def pickyClient_def
      with_schema_def less_Suc_eq eval_nat_numeral)

theorem transform_failure_skips_passes_witness:
  "c_new pickyClient (tick startState + (if gc quietEnv then 3 else 1)) = None
   \<and> firstThrow pickyClient (tick startState + (if gc quietEnv then 6 else 4))
        (transformCalls partialsExample) 2 ''bad partial''
   \<and> (\<exists>finalStats s'.
        runClientBenchmark 0 quietEnv sampleStats customConfig partialsExample goodBenchmark
          pickyClient startState = Some (Resolved finalStats s')
        \<and> concat (map (\<lambda>a. case a of TransformRawExample r \<Rightarrow> [title r] | _ \<Rightarrow> []) (trace s'))
            = [''t'', ''p1'', ''p2'']
        \<and> map ev_failure (events s')
            = [None, None, Some \<lparr>f_error = ''bad partial'', f_phase = VERIFY\<rparr>,
               Some \<lparr>f_error = ''bad partial'', f_phase = VERIFY\<rparr>]
        \<and> runnerCalls (drop 2 (trace s')) = 0
        \<and> failure s' = None)"
proof -
  have h1: "c_new pickyClient (tick startState + (if gc quietEnv then 3 else 1)) = None"
    by (simp add: pickyClient_def)
  note h2 = picky_throws [of "tick startState + (if gc quietEnv then 6 else 4)"]
  from transform_failure_skips_passes [OF h1 h2, of 0 sampleStats customConfig goodBenchmark]
  obtain finalStats s' m t0 t1 t2 d where r:
    "runClientBenchmark 0 quietEnv sampleStats customConfig partialsExample goodBenchmark
          pickyClient startState = Some (Resolved finalStats s')"
    "trace s' = trace startState
          @ [Report (pairingEvent (eventCommon startState) goodBenchmark pickyClient
               CLIENT_BENCHMARK START)]
          @ (if gc quietEnv then [CallGc, ReadMemory m] else [])
          @ [NewClient (c_metadata pickyClient),
             Report (phaseEvent (eventCommon startState) goodBenchmark pickyClient VERIFY START),
             ReadClock t0]
          @ map TransformRawExample (take (Suc 2) (transformCalls partialsExample))
          @ [ReadClock t1,
             Report ((phaseEvent (eventCommon startState) goodBenchmark pickyClient VERIFY END)
               \<lparr>ev_duration := Some d,
                ev_failure := Some \<lparr>f_error = ''bad partial'', f_phase = VERIFY\<rparr>\<rparr>),
             SetTimeout 50, Suspend, SetTimeout 50, Suspend, ReadClock t2, SetTimeout 10, Suspend,
             Report ((pairingEvent (eventCommon startState) goodBenchmark pickyClient
                 CLIENT_BENCHMARK END)
               \<lparr>ev_stats := Some finalStats,
                ev_failure := Some \<lparr>f_error = ''bad partial'', f_phase = VERIFY\<rparr>\<rparr>)]
          @ (if gc quietEnv
             then [ReadFile ''./findings.json'' (c_name pickyClient) (amean sampleStats [])]
             else [])"
    "runnerCalls (drop (length (trace startState) + (if gc quietEnv then 4 else 2)) (trace s')) = 0"
    "failure s' = None"
    by blast
  have q: "\<not> gc quietEnv" "trace startState = []"
    by (simp_all add: quietEnv_def startState_def initialState_def)
  have tr: "trace s' =
       [Report (pairingEvent (eventCommon startState) goodBenchmark pickyClient
               CLIENT_BENCHMARK START),
        NewClient (c_metadata pickyClient),
        Report (phaseEvent (eventCommon startState) goodBenchmark pickyClient VERIFY START),
        ReadClock t0,
        TransformRawExample partialsExample,
        TransformRawExample (RawExample ''p1'' ''s'' ''ok'' []),
        TransformRawExample (RawExample ''p2'' ''s'' ''bad'' []),
        ReadClock t1,
        Report ((phaseEvent (eventCommon startState) goodBenchmark pickyClient VERIFY END)
               \<lparr>ev_duration := Some d,
                ev_failure := Some \<lparr>f_error = ''bad partial'', f_phase = VERIFY\<rparr>\<rparr>),
        SetTimeout 50, Suspend, SetTimeout 50, Suspend, ReadClock t2, SetTimeout 10, Suspend,
        Report ((pairingEvent (eventCommon startState) goodBenchmark pickyClient
                 CLIENT_BENCHMARK END)
               \<lparr>ev_stats := Some finalStats,
                ev_failure := Some \<lparr>f_error = ''bad partial'', f_phase = VERIFY\<rparr>\<rparr>)]"
    unfolding r(2) by (simp add: q transformCalls_def partialsExample_def with_schema_def)
  have 1: "concat (map (\<lambda>a. case a of TransformRawExample r \<Rightarrow> [title r] | _ \<Rightarrow> []) (trace s'))
            = [''t'', ''p1'', ''p2'']"
    unfolding tr by (simp add: partialsExample_def)
  have 2: "map ev_failure (events s')
            = [None, None, Some \<lparr>f_error = ''bad partial'', f_phase = VERIFY\<rparr>,
               Some \<lparr>f_error = ''bad partial'', f_phase = VERIFY\<rparr>]"
    unfolding events_def tr by (simp add: pairingEvent_def phaseEvent_def)
  have 3: "runnerCalls (drop 2 (trace s')) = 0"
    using r(3) by (simp add: q numeral_2_eq_2)
  have ex: "\<exists>finalStats s'.
        runClientBenchmark 0 quietEnv sampleStats customConfig partialsExample goodBenchmark
          pickyClient startState = Some (Resolved finalStats s')
        \<and> concat (map (\<lambda>a. case a of TransformRawExample r \<Rightarrow> [title r] | _ \<Rightarrow> []) (trace s'))
            = [''t'', ''p1'', ''p2'']
        \<and> map ev_failure (events s')
            = [None, None, Some \<lparr>f_error = ''bad partial'', f_phase = VERIFY\<rparr>,
               Some \<lparr>f_error = ''bad partial'', f_phase = VERIFY\<rparr>]
        \<and> runnerCalls (drop 2 (trace s')) = 0
        \<and> failure s' = None"
    by (intro exI conjI) (rule r(1), rule 1, rule 2, rule 3, rule r(4))
  show ?thesis
    by (rule conjI [OF h1 conjI [OF h2 ex]])
qed

lemma beginPairing_startState:
  "beginPairing quietEnv goodBenchmark brokenClient startState =
     (Inr None, act (NewClient ''broken'')
        (reporter (pairingEvent (eventCommon startState) goodBenchmark brokenClient
           CLIENT_BENCHMARK START) startState))"
  by (simp add: beginPairing_def quietEnv_def brokenClient_def Let_def)

lemma transformExample_broken:
  "fst (transformExample brokenClient someExample s) = Inl ''bad example''"
  by (simp add: transformExample_def brokenClient_def)

lemma broken_throws: "firstThrow brokenClient t (transformCalls someExample) 0 ''bad example''"
  by (simp add: firstThrow_def transformCalls_def brokenClient_def)

subsection \<open>Phase events\<close>

text \<open>
  Claim C2, as amended. The VERIFY phase emits exactly one START and one END event,
  whatever the state in which it is reached. The WARMUP phase emits exactly one START
  and one END event when it is reached neither failed nor canceled, and none otherwise.
  The ITERATION phase, when it ends without being rejected, has emitted one START and one
  END event for every pass (as many as it has samples), and none when it is reached
  failed or canceled.
\<close>

theorem phase_event_counts:
  "(\<exists>evs. events (snd (verifyPhase env config rawExample B C common s)) = events s @ evs
        \<and> phaseCount VERIFY START evs = 1 \<and> phaseCount VERIFY END evs = 1)
   \<and> (\<exists>evs. events (warmupPhase env config B C common example s) = events s @ evs
        \<and> phaseCount WARMUP START evs = (if canceled s \<or> failure s \<noteq> None then 0 else 1)
        \<and> phaseCount WARMUP END evs = (if canceled s \<or> failure s \<noteq> None then 0 else 1))
   \<and> (iterationPhase fuel env lib config B C common example base s = Some (Resolved acc s')
      \<longrightarrow> (\<exists>evs. events s' = events s @ evs
             \<and> phaseCount ITERATION START evs = length (fst acc)
             \<and> phaseCount ITERATION END evs = length (fst acc)
             \<and> (canceled s \<or> failure s \<noteq> None \<longrightarrow> evs = [])))"
proof (intro conjI impI)
  obtain ex s2 where v: "verifyPhase env config rawExample B C common s = (ex, s2)"
    by (cases "verifyPhase env config rawExample B C common s")
  from events_verifyPhase [OF v]
  show "\<exists>evs. events (snd (verifyPhase env config rawExample B C common s)) = events s @ evs
        \<and> phaseCount VERIFY START evs = 1 \<and> phaseCount VERIFY END evs = 1"
    unfolding v by (intro exI [of _ "[phaseEvent common B C VERIFY START,
           (phaseEvent common B C VERIFY END)
             \<lparr>ev_duration := ev_duration (last (events s2)), ev_failure := failure s2\<rparr>]"]) simp
next
  show "\<exists>evs. events (warmupPhase env config B C common example s) = events s @ evs
        \<and> phaseCount WARMUP START evs = (if canceled s \<or> failure s \<noteq> None then 0 else 1)
        \<and> phaseCount WARMUP END evs = (if canceled s \<or> failure s \<noteq> None then 0 else 1)"
  proof (cases "canceled s \<or> failure s \<noteq> None")
    case True
    from warmupPhase_skipped [OF this] True show ?thesis
      by (intro exI [of _ "[]"]) simp
  next
    case False
    with events_warmupPhase [OF refl, of env config B C common example s] show ?thesis
      by (intro exI [of _ "[phaseEvent common B C WARMUP START,
           (phaseEvent common B C WARMUP END)
             \<lparr>ev_duration := ev_duration (last (events (warmupPhase env config B C common example s))),
              ev_failure := failure (warmupPhase env config B C common example s)\<rparr>]"]) simp
  qed
next
  assume "iterationPhase fuel env lib config B C common example base s = Some (Resolved acc s')"
  from iterationPhase_events [OF this]
  show "\<exists>evs. events s' = events s @ evs
             \<and> phaseCount ITERATION START evs = length (fst acc)
             \<and> phaseCount ITERATION END evs = length (fst acc)
             \<and> (canceled s \<or> failure s \<noteq> None \<longrightarrow> evs = [])"
    by auto
qed

lemma iterationPhase_one_pass:
  "\<exists>acc s'. iterationPhase (Suc 0) quietEnv steadyLib oneSampleConfig goodBenchmark goodClient
      (eventCommon startState) None None startState = Some (Resolved acc s')
    \<and> length (fst acc) = 1"
proof -
  define s1 where "s1 = reporter (phaseEvent (eventCommon startState) goodBenchmark goodClient
      ITERATION START) (act (ReadClock (clock quietEnv (tick startState))) startState)"
  obtain r s2 where eq:
    "runSingleBenchmarkPass quietEnv goodBenchmark goodClient None ITERATION False s1 = (Some r, s2)"
    using runSingleBenchmarkPass_neverFails [OF neverFails_good] by blast
  have "js_le (percentRelativeMarginOfError steadyLib [pr_duration r])
          (Fin (targetRelativeMarginOfError oneSampleConfig))"
    by (simp add: percentRelativeMarginOfError_def steadyLib_def oneSampleConfig_def)
  then have "fst (isFinalIteration quietEnv steadyLib oneSampleConfig
       (clock quietEnv (tick startState)) [pr_duration r] st)" for st
    by (simp add: fst_isFinalIteration oneSampleConfig_def)
  then show ?thesis
    using eq
    by (simp add: iterationPhase_def Let_def performanceNow_def iterationLoop_Suc s1_def
          startState_def initialState_def del: iterationLoop.simps)
qed

theorem phase_event_counts_witness:
  "(\<exists>acc s' evs.
      iterationPhase (Suc 0) quietEnv steadyLib oneSampleConfig goodBenchmark goodClient
        (eventCommon startState) None None startState = Some (Resolved acc s')
      \<and> events s' = events startState @ evs
      \<and> phaseCount ITERATION START evs = 1 \<and> phaseCount ITERATION END evs = 1)
   \<and> failure failedState \<noteq> None
   \<and> (\<exists>evs. events (warmupPhase quietEnv customConfig goodBenchmark goodClient
                (eventCommon startState) None failedState) = events failedState @ evs
          \<and> phaseCount WARMUP START evs = 0 \<and> phaseCount WARMUP END evs = 0)"
proof -
  obtain acc s' where run:
    "iterationPhase (Suc 0) quietEnv steadyLib oneSampleConfig goodBenchmark goodClient
        (eventCommon startState) None None startState = Some (Resolved acc s')"
    "length (fst acc) = 1"
    using iterationPhase_one_pass by blast
  have failed: "failure failedState \<noteq> None"
    by (simp add: failedState_def)
  note T1 = phase_event_counts [where env = quietEnv and lib = steadyLib
      and config = oneSampleConfig and rawExample = someExample
      and B = goodBenchmark and C = goodClient and common = "eventCommon startState"
      and example = None and base = None and s = startState and fuel = "Suc 0"
      and acc = acc and s' = s', THEN conjunct2, THEN conjunct2, THEN mp, OF run(1)]
  have 1: "\<exists>acc s' evs.
      iterationPhase (Suc 0) quietEnv steadyLib oneSampleConfig goodBenchmark goodClient
        (eventCommon startState) None None startState = Some (Resolved acc s')
      \<and> events s' = events startState @ evs
      \<and> phaseCount ITERATION START evs = 1 \<and> phaseCount ITERATION END evs = 1"
  proof -
    from T1 obtain evs where "events s' = events startState @ evs"
      "phaseCount ITERATION START evs = length (fst acc)"
      "phaseCount ITERATION END evs = length (fst acc)"
      by blast
    with run show ?thesis
      by (intro exI [of _ acc] exI [of _ s'] exI [of _ evs]) simp
  qed
  note T2 = phase_event_counts [where env = quietEnv and config = customConfig
      and rawExample = someExample and lib = steadyLib and fuel = 0 and base = None
      and acc = "([], [], [])" and s' = failedState
      and B = goodBenchmark and C = goodClient and common = "eventCommon startState"
      and example = None and s = failedState, THEN conjunct2, THEN conjunct1]
  have 2: "\<exists>evs. events (warmupPhase quietEnv customConfig goodBenchmark goodClient
                (eventCommon startState) None failedState) = events failedState @ evs
          \<and> phaseCount WARMUP START evs = 0 \<and> phaseCount WARMUP END evs = 0"
    using T2 failed by auto
  from 1 2 failed show ?thesis by blast
qed

text \<open>
  Against claim C2 as stated: in a pairing whose example cannot be transformed, the
  WARMUP phase is reached with the failure recorded and emits neither a START nor an END
  event, and so does the ITERATION phase.
\<close>

theorem phase_event_counts_counterexample:
  "isResolved brokenPairingRun
   \<and> phaseCount VERIFY START (events (settledState (the brokenPairingRun))) = 1
   \<and> phaseCount VERIFY END (events (settledState (the brokenPairingRun))) = 1
   \<and> phaseCount WARMUP START (events (settledState (the brokenPairingRun))) = 0
   \<and> phaseCount WARMUP END (events (settledState (the brokenPairingRun))) = 0
   \<and> phaseCount ITERATION START (events (settledState (the brokenPairingRun))) = 0
   \<and> phaseCount ITERATION END (events (settledState (the brokenPairingRun))) = 0"
proof -
  define s1 where "s1 = act (NewClient ''broken'')
        (reporter (pairingEvent (eventCommon startState) goodBenchmark brokenClient
           CLIENT_BENCHMARK START) startState)"
  define s2 where "s2 = snd (transformExample brokenClient someExample
          (snd (performanceNow quietEnv (reporter (phaseEvent (eventCommon startState)
             goodBenchmark brokenClient VERIFY START) s1))))"
  have b: "beginPairing quietEnv goodBenchmark brokenClient startState = (Inr None, s1)"
    by (simp add: beginPairing_startState s1_def)
  have t: "transformExample brokenClient someExample
          (snd (performanceNow quietEnv (reporter (phaseEvent (eventCommon startState)
             goodBenchmark brokenClient VERIFY START) s1))) = (Inl ''bad example'', s2)"
    unfolding s2_def
    using transformExample_broken [of "snd (performanceNow quietEnv (reporter (phaseEvent
      (eventCommon startState) goodBenchmark brokenClient VERIFY START) s1))"]
    by (metis prod.collapse)
  have e1: "events s1 = [pairingEvent (eventCommon startState) goodBenchmark brokenClient
           CLIENT_BENCHMARK START]"
    by (simp add: s1_def) (simp add: events_def startState_def initialState_def)
  from pairing_transform_failure [OF b t, of 0 noisyLib customConfig]
  obtain finalStats s' tr t0 t1 t2 d where r:
    "runClientBenchmark 0 quietEnv noisyLib customConfig someExample goodBenchmark brokenClient
       startState = Some (Resolved finalStats s')"
    "onlyTransforms tr"
    "trace s' = trace s1
          @ ([Report (phaseEvent (eventCommon startState) goodBenchmark brokenClient VERIFY START),
              ReadClock t0] @ tr
          @ [ReadClock t1,
             Report ((phaseEvent (eventCommon startState) goodBenchmark brokenClient VERIFY END)
               \<lparr>ev_duration := Some d,
                ev_failure := Some \<lparr>f_error = ''bad example'', f_phase = VERIFY\<rparr>\<rparr>),
             SetTimeout 50, Suspend, SetTimeout 50, Suspend, ReadClock t2, SetTimeout 10, Suspend,
             Report ((pairingEvent (eventCommon startState) goodBenchmark brokenClient
                 CLIENT_BENCHMARK END)
               \<lparr>ev_stats := Some finalStats,
                ev_failure := Some \<lparr>f_error = ''bad example'', f_phase = VERIFY\<rparr>\<rparr>)]
          @ (if gc quietEnv
             then [ReadFile ''./findings.json'' (c_name brokenClient) (amean noisyLib [])]
             else []))"
    by auto
  have "events s' =
     [pairingEvent (eventCommon startState) goodBenchmark brokenClient CLIENT_BENCHMARK START,
      phaseEvent (eventCommon startState) goodBenchmark brokenClient VERIFY START,
      (phaseEvent (eventCommon startState) goodBenchmark brokenClient VERIFY END)
               \<lparr>ev_duration := Some d,
                ev_failure := Some \<lparr>f_error = ''bad example'', f_phase = VERIFY\<rparr>\<rparr>,
      (pairingEvent (eventCommon startState) goodBenchmark brokenClient CLIENT_BENCHMARK END)
               \<lparr>ev_stats := Some finalStats,
                ev_failure := Some \<lparr>f_error = ''bad example'', f_phase = VERIFY\<rparr>\<rparr>]"
    unfolding events_trace_append [OF r(3)] e1
    by (simp add: onlyTransforms_no_events [OF r(2)] quietEnv_def)
  with r(1) show ?thesis
    by (simp add: brokenPairingRun_def isResolved_def settledState_def)
qed

subsection \<open>A pass that fails in the iteration phase\<close>

lemma await_quiet: "await quietEnv s = act Suspend s"
  by (simp add: await_def quietEnv_def)

lemma flaky_pass_result:
  "fst (runSingleBenchmarkPass quietEnv flakyBenchmark goodClient example phase verify s) =
     (if tick s < 15 then Some \<lparr>pr_duration = 3, pr_memoryUsage = None\<rparr> else None)"
  by (simp add: pass_defs await_quiet flakyBenchmark_def goodClient_def)
     (simp add: quietEnv_def)

lemma flaky_pass_failure:
  "failure (snd (runSingleBenchmarkPass quietEnv flakyBenchmark goodClient example phase verify s)) =
     (if tick s < 15 then failure s else Some \<lparr>f_error = ''run failed'', f_phase = phase\<rparr>)"
  by (simp add: pass_defs await_quiet flakyBenchmark_def goodClient_def)
     (simp add: quietEnv_def)

lemma flaky_pass_tick:
  "tick (snd (runSingleBenchmarkPass quietEnv flakyBenchmark goodClient example phase verify s)) =
     (if tick s < 15 then tick s + (if verify then 14 else 12) else tick s + 8)"
  by (simp add: pass_defs await_quiet flakyBenchmark_def goodClient_def)
     (simp add: quietEnv_def)

lemma quiet_canceled_pass:
  "canceled (snd (runSingleBenchmarkPass quietEnv B C example phase verify s)) = canceled s"
  using quiet_pass [of quietEnv B C example phase verify s]
  by (simp add: neverCanceled_def quietEnv_def)

lemma transformExample_good:
  "transformExample goodClient someExample s =
     (Inr \<lparr>ex_root = ''b'', ex_title = ''t'', ex_partials = []\<rparr>,
      act (TransformRawExample someExample) s)"
  by (simp add: transformExample_def goodClient_def someExample_def)

lemma clientsLoop_rejected:
  "\<not> canceled s \<Longrightarrow>
   runClientBenchmark fuel env lib config rawExample B C s = Some (Rejected e s') \<Longrightarrow>
   clientsLoop fuel env lib config rawExample B (C # cs) s = Some (Rejected e (await env s'))"
  by simp

lemma runClientBenchmark_rejected:
  assumes "beginPairing env B C s = (Inr base, s1)"
    and "verifyPhase env config rawExample B C (eventCommon s) s1 = (example, s2)"
    and "iterationPhase fuel env lib config B C (eventCommon s) example base
         (pause env 50 (warmupPhase env config B C (eventCommon s) example (pause env 50 s2)))
         = Some (Rejected e s5)"
  shows "runClientBenchmark fuel env lib config rawExample B C s = Some (Rejected e s5)"
  using assms by (simp add: runClientBenchmark_def Let_def)

lemma iterationPhase_rejected:
  assumes "\<not> canceled s" "failure s = None"
    and "fst (runSingleBenchmarkPass env B C example ITERATION False
           (reporter (phaseEvent common B C ITERATION START)
              (act (ReadClock (clock env (tick s))) s))) = None"
  shows "iterationPhase (Suc fuel) env lib config B C common example base s =
     Some (Rejected destructureError
       (await env (snd (runSingleBenchmarkPass env B C example ITERATION False
           (reporter (phaseEvent common B C ITERATION START)
              (act (ReadClock (clock env (tick s))) s))))))"
  using assms
  by (simp add: iterationPhase_def Let_def performanceNow_def iterationLoop_Suc split_beta
      del: iterationLoop.simps)

lemma flaky_pairing:
  fixes s :: state
  assumes "tick s = 2" "\<not> canceled s" "failure s = None"
  shows "\<exists>s'. runClientBenchmark (Suc 0) quietEnv steadyLib customConfig someExample
             flakyBenchmark goodClient s = Some (Rejected destructureError s')
          \<and> map eventKind (events s') = map eventKind (events s) @
               [(CLIENT_BENCHMARK, START, None),
                (CLIENT_BENCHMARK_PHASE, START, Some VERIFY),
                (CLIENT_BENCHMARK_PHASE, END, Some VERIFY),
                (CLIENT_BENCHMARK_PHASE, START, Some WARMUP),
                (CLIENT_BENCHMARK_PHASE, END, Some WARMUP),
                (CLIENT_BENCHMARK_PHASE, START, Some ITERATION)]
          \<and> failure s' = Some \<lparr>f_error = ''run failed'', f_phase = ITERATION\<rparr>"
proof -
  define common where "common = eventCommon s"
  define s1 where "s1 = act (NewClient ''C'')
      (reporter (pairingEvent common flakyBenchmark goodClient CLIENT_BENCHMARK START) s)"
  define v where "v = verifyPhase quietEnv customConfig someExample flakyBenchmark goodClient
      common s1"
  define s3 where "s3 = pause quietEnv 50 (snd v)"
  define s4 where "s4 = pause quietEnv 50
      (warmupPhase quietEnv customConfig flakyBenchmark goodClient common (fst v) s3)"
  define s5 where "s5 = reporter (phaseEvent common flakyBenchmark goodClient ITERATION START)
      (act (ReadClock (clock quietEnv (tick s4))) s4)"
  define p where "p = runSingleBenchmarkPass quietEnv flakyBenchmark goodClient (fst v)
      ITERATION False s5"
  have b: "beginPairing quietEnv flakyBenchmark goodClient s = (Inr None, s1)"
    by (simp add: beginPairing_def Let_def s1_def common_def) (simp add: quietEnv_def goodClient_def)
  have s1: "tick s1 = 4" "\<not> canceled s1" "failure s1 = None"
    "events s1 = events s @ [pairingEvent common flakyBenchmark goodClient CLIENT_BENCHMARK START]"
    using assms by (simp_all add: s1_def)
  have v2: "tick (snd v) = 24 \<and> \<not> canceled (snd v) \<and> failure (snd v) = None
      \<and> map eventKind (events (snd v)) = map eventKind (events s1) @
           [(CLIENT_BENCHMARK_PHASE, START, Some VERIFY),
            (CLIENT_BENCHMARK_PHASE, END, Some VERIFY)]"
    using s1(1-3)
    by (simp add: v_def verifyPhase_def Let_def split_beta transformExample_good customConfig_def
          flaky_pass_tick flaky_pass_failure quiet_canceled_pass await_quiet eventKind_def
          canceled_await_eq)
  have s3: "tick s3 = 26" "\<not> canceled s3" "failure s3 = None" "events s3 = events (snd v)"
    using v2 by (simp_all add: s3_def pause_def await_quiet)
  have s4: "tick s4 = 32 \<and> \<not> canceled s4 \<and> failure s4 = None
      \<and> map eventKind (events s4) = map eventKind (events s3) @
           [(CLIENT_BENCHMARK_PHASE, START, Some WARMUP),
            (CLIENT_BENCHMARK_PHASE, END, Some WARMUP)]"
    using s3(1-3)
    by (simp add: s4_def warmupPhase_def Let_def split_beta customConfig_def pause_def
          await_quiet eventKind_def)
  have s5: "tick s5 = 34"
    "map eventKind (events s5) = map eventKind (events s4) @
       [(CLIENT_BENCHMARK_PHASE, START, Some ITERATION)]"
    using s4 by (simp_all add: s5_def eventKind_def)
  have p1: "fst p = None"
    by (simp add: p_def flaky_pass_result s5(1))
  have p2: "failure (snd p) = Some \<lparr>f_error = ''run failed'', f_phase = ITERATION\<rparr>"
    by (simp add: p_def flaky_pass_failure s5(1))
  have p3: "events (snd p) = events s5"
    by (simp add: p_def)
  have i: "iterationPhase (Suc 0) quietEnv steadyLib customConfig flakyBenchmark goodClient common
             (fst v) None s4 = Some (Rejected destructureError (await quietEnv (snd p)))"
    unfolding p_def s5_def
    by (rule iterationPhase_rejected) (use s4 p1 in \<open>simp_all add: p_def s5_def\<close>)
  have run: "runClientBenchmark (Suc 0) quietEnv steadyLib customConfig someExample
             flakyBenchmark goodClient s = Some (Rejected destructureError (await quietEnv (snd p)))"
    by (rule runClientBenchmark_rejected [OF b, folded common_def, of customConfig someExample
          "fst v" "snd v"])
       (simp add: v_def, rule i [unfolded s4_def s3_def])
  show ?thesis
    by (rule exI [of _ "await quietEnv (snd p)"])
       (use run p2 p3 s5(2) s4 s3(4) v2 s1(4) in \<open>simp add: eventKind_def\<close>)
qed

text \<open>
  Claim C1 fails on the code. With the configuration \<open>runSuite\<close> takes by default, a
  benchmark whose first measured pass fails has its failure recorded in the context with the ITERATION phase, but
  destructuring the missing result of that pass throws: the suite promise is rejected, and
  the iteration, the pairing, the benchmark and the suite have received a START event and
  never receive their END event.
\<close>

theorem iteration_failure_rejects_suite:
  "rejection flakyRun = Some destructureError
   \<and> map eventKind (events (settledState (the flakyRun))) =
       [(SUITE, START, None), (BENCHMARK, START, None), (CLIENT_BENCHMARK, START, None),
        (CLIENT_BENCHMARK_PHASE, START, Some VERIFY), (CLIENT_BENCHMARK_PHASE, END, Some VERIFY),
        (CLIENT_BENCHMARK_PHASE, START, Some WARMUP), (CLIENT_BENCHMARK_PHASE, END, Some WARMUP),
        (CLIENT_BENCHMARK_PHASE, START, Some ITERATION)]
   \<and> failure (settledState (the flakyRun))
       = Some \<lparr>f_error = ''run failed'', f_phase = ITERATION\<rparr>"
proof -
  define s0 where "s0 = initialState [flakyBenchmark] [goodClient] someExample"
  define sA where "sA = reporter (suiteEvent (eventCommon s0) BENCHMARK START (Some ''flaky''))
      (reporter (suiteEvent (eventCommon s0) SUITE START None) s0)"
  have sA: "tick sA = 2" "\<not> canceled sA" "failure sA = None"
    "map eventKind (events sA) = [(SUITE, START, None), (BENCHMARK, START, None)]"
    by (simp_all add: sA_def s0_def eventKind_def initialState_def tick_def events_def
          reporter_def act_def)
  from flaky_pairing [OF sA(1-3)] obtain s' where r:
    "runClientBenchmark (Suc 0) quietEnv steadyLib customConfig someExample
             flakyBenchmark goodClient sA = Some (Rejected destructureError s')"
    "map eventKind (events s') = map eventKind (events sA) @
               [(CLIENT_BENCHMARK, START, None),
                (CLIENT_BENCHMARK_PHASE, START, Some VERIFY),
                (CLIENT_BENCHMARK_PHASE, END, Some VERIFY),
                (CLIENT_BENCHMARK_PHASE, START, Some WARMUP),
                (CLIENT_BENCHMARK_PHASE, END, Some WARMUP),
                (CLIENT_BENCHMARK_PHASE, START, Some ITERATION)]"
    "failure s' = Some \<lparr>f_error = ''run failed'', f_phase = ITERATION\<rparr>"
    by blast
  have fr: "flakyRun = Some (Rejected destructureError (await quietEnv (await quietEnv s')))"
    using r(1) sA(2)
    by (simp add: flakyRun_def runSuite_def runSuite_inner_def sA_def s0_def flakyBenchmark_def)
  from r(2,3) sA(4) show ?thesis
    unfolding fr by (simp add: rejection_def settledState_def)
qed

subsection \<open>Cancelling right after the start\<close>

lemma beginPairing_invariant:
  assumes A1: "\<And>a s. P s \<Longrightarrow> a \<noteq> Suspend \<Longrightarrow> P (act a s)"
    and "P s"
  shows "P (snd (beginPairing env B C s))"
  using \<open>P s\<close>
  by (simp add: beginPairing_def Let_def gcAndRead_def reporter_def A1 split: option.splits)

lemma verifyPhase_invariant:
  assumes A1: "\<And>a s. P s \<Longrightarrow> a \<noteq> Suspend \<Longrightarrow> P (act a s)"
    and A2: "\<And>s. P s \<Longrightarrow> P (await env s)"
    and A3: "\<And>s f. P s \<Longrightarrow> P (s\<lparr>failure := f\<rparr>)"
    and "P s"
  shows "P (snd (verifyPhase env config rawExample B C common s))"
proof -
  define s1 where "s1 = snd (performanceNow env (reporter (phaseEvent common B C VERIFY START) s))"
  define t where "t = transformExample C rawExample s1"
  define s2 where "s2 = (case fst t of Inr ex \<Rightarrow> snd t
      | Inl e \<Rightarrow> (snd t)\<lparr>failure := Some \<lparr>f_error = e, f_phase = VERIFY\<rparr>\<rparr>)"
  define ex where "ex = (case fst t of Inr ex \<Rightarrow> Some ex | Inl e \<Rightarrow> None)"
  define s3 where "s3 = passes env B C ex VERIFY True (verifyPasses config) s2"
  have P1: "P s1"
    unfolding s1_def by (simp add: reporter_def A1 \<open>P s\<close>)
  have "P (snd t)"
    unfolding t_def by (rule transformExample_invariant [where P = P]) (rule A1, assumption+, rule P1)
  then have P2: "P s2"
    unfolding s2_def by (simp add: A3 split: sum.splits)
  have P3: "P s3"
    unfolding s3_def
    by (rule passes_invariant [where P = P])
       (rule A1, assumption+, rule A2, assumption, rule A3, assumption, rule P2)
  have "snd (verifyPhase env config rawExample B C common s) =
      reporter ((phaseEvent common B C VERIFY END)
         \<lparr>ev_duration := Some (clock env (tick s3) - clock env (Suc (tick s))),
          ev_failure := failure s3\<rparr>) (act (ReadClock (clock env (tick s3))) s3)"
    by (simp add: verifyPhase_def Let_def split_beta s3_def s2_def ex_def t_def s1_def
        split: sum.splits)
  then show ?thesis
    by (simp add: reporter_def A1 P3)
qed

lemma verifyPhase_duration:
  "\<exists>d. ev_duration (last (events (snd (verifyPhase env config rawExample B C common s)))) = Some d"
  by (simp add: verifyPhase_def Let_def split_beta split: sum.splits)

lemma doomed_act: "doomed env c0 s \<Longrightarrow> a \<noteq> Suspend \<Longrightarrow> doomed env c0 (act a s)"
  by (simp add: doomed_def suspensions_act)

lemma doomed_await: "doomed env c0 s \<Longrightarrow> doomed env c0 (await env s)"
  by (cases "canceled s")
     (auto simp: doomed_def await_def cancel_def act_def suspensions_def split: if_splits)

lemma doomed_failure: "doomed env c0 s \<Longrightarrow> doomed env c0 (s\<lparr>failure := f\<rparr>)"
  by (simp add: doomed_def)

lemma doomed_await_canceled: "doomed env c0 s \<Longrightarrow> canceledWith c0 (await env s)"
  by (cases "canceled s")
     (auto simp: doomed_def canceledWith_def await_def cancel_def act_def suspensions_def
        split: if_splits)

lemma beginPairing_constructed:
  assumes "c_new C (tick s + (if gc env then 3 else 1)) = None"
  shows "\<exists>base s1. beginPairing env B C s = (Inr base, s1)"
proof (cases "gc env")
  case True
  with assms show ?thesis
    by (simp add: beginPairing_def Let_def gcAndRead_def numeral_3_eq_3)
next
  case False
  with assms show ?thesis
    by (simp add: beginPairing_def Let_def)
qed

lemma canceledWith_act: "canceledWith c0 s \<Longrightarrow> canceledWith c0 (act a s)"
  by (simp add: canceledWith_def)

lemma canceledWith_await: "canceledWith c0 s \<Longrightarrow> canceledWith c0 (await env s)"
  by (auto simp: canceledWith_def await_def cancel_def act_def)

lemma canceledWith_failure: "canceledWith c0 s \<Longrightarrow> canceledWith c0 (s\<lparr>failure := f\<rparr>)"
  by (simp add: canceledWith_def)

lemma clientsLoop_canceled:
  "canceled s \<Longrightarrow> clientsLoop fuel env lib config rawExample B cs s = Some (Resolved () s)"
  by (cases cs) simp_all

lemma benchmarksLoop_canceled:
  "canceled s \<Longrightarrow> benchmarksLoop fuel env lib config rawExample bs cs s = Some (Resolved () s)"
  by (cases bs) simp_all

text \<open>A pairing begun in a run that is canceled at the first suspension.\<close>

lemma doomed_pairing:
  assumes d: "doomed env c0 s" and nc: "\<not> canceled s"
    and ctor: "c_new C (tick s + (if gc env then 3 else 1)) = None"
  shows "\<exists>finalStats s' d f.
      runClientBenchmark fuel env lib config rawExample B C s = Some (Resolved finalStats s')
      \<and> canceledWith c0 s'
      \<and> events s' = events s @
           [pairingEvent c0 B C CLIENT_BENCHMARK START,
            phaseEvent c0 B C VERIFY START,
            (phaseEvent c0 B C VERIFY END)\<lparr>ev_duration := Some d, ev_failure := f\<rparr>,
            (pairingEvent c0 B C CLIENT_BENCHMARK END)
              \<lparr>ev_stats := Some finalStats, ev_failure := f\<rparr>]"
proof -
  have c0: "eventCommon s = c0"
    using d nc by (simp add: doomed_def)
  obtain base s1 where b: "beginPairing env B C s = (Inr base, s1)"
    using beginPairing_constructed [OF ctor] by blast
  define v where "v = verifyPhase env config rawExample B C c0 s1"
  define s3 where "s3 = pause env 50 (snd v)"
  define s4 where "s4 = pause env 50 s3"
  define s5 where "s5 = act (ReadClock (clock env (tick s4))) s4"
  define fin where "fin = finishPairing env lib B C c0 base ([], [], []) s5"
  have "doomed env c0 (snd (beginPairing env B C s))"
    by (rule beginPairing_invariant [where P = "doomed env c0"])
      (rule doomed_act, assumption+, rule d)
  then have d1: "doomed env c0 s1"
    by (simp add: b)
  have e1: "events s1 = events s @ [pairingEvent c0 B C CLIENT_BENCHMARK START]"
    using beginPairing_events [of env B C s] by (simp add: b c0)
  have d2: "doomed env c0 (snd v)"
    unfolding v_def by (rule verifyPhase_invariant [where P = "doomed env c0"])
      (rule doomed_act, assumption+, rule doomed_await, assumption, rule doomed_failure,
       assumption, rule d1)
  obtain dur where dur: "ev_duration (last (events (snd v))) = Some dur"
    using verifyPhase_duration [of env config rawExample B C c0 s1] by (auto simp: v_def)
  have e2: "events (snd v) = events s1 @ [phaseEvent c0 B C VERIFY START,
           (phaseEvent c0 B C VERIFY END)\<lparr>ev_duration := Some dur, ev_failure := failure (snd v)\<rparr>]"
    using events_verifyPhase [of env config rawExample B C c0 s1 "fst v" "snd v"] dur
    by (simp add: v_def)
  have c3: "canceledWith c0 s3"
    unfolding s3_def pause_def by (intro doomed_await_canceled doomed_act d2) simp
  have c4: "canceledWith c0 s4"
    unfolding s4_def pause_def by (intro canceledWith_await canceledWith_act c3)
  have w: "warmupPhase env config B C c0 (fst v) s3 = s3"
    by (rule warmupPhase_skipped) (use c3 in \<open>simp add: canceledWith_def\<close>)
  have i: "iterationPhase fuel env lib config B C c0 (fst v) base s4
             = Some (Resolved ([], [], []) s5)"
    unfolding s5_def by (rule iterationPhase_skipped) (use c4 in \<open>simp add: canceledWith_def\<close>)
  have run: "runClientBenchmark fuel env lib config rawExample B C s
               = Some (Resolved (fst fin) (snd fin))"
    by (simp add: runClientBenchmark_def Let_def split_beta b c0
          w [unfolded s3_def v_def] i [unfolded s4_def s3_def v_def]
          fin_def s5_def s4_def s3_def v_def)
  have f5: "failure s5 = failure (snd v)"
    by (simp add: s5_def s4_def s3_def)
  have c6: "canceledWith c0 (snd fin)"
    unfolding fin_def by (rule finishPairing_invariant [where P = "canceledWith c0"])
      (auto intro: canceledWith_act canceledWith_await canceledWith_failure c4 simp: s5_def)
  have "events (snd fin) = events s @
           [pairingEvent c0 B C CLIENT_BENCHMARK START,
            phaseEvent c0 B C VERIFY START,
            (phaseEvent c0 B C VERIFY END)\<lparr>ev_duration := Some dur, ev_failure := failure (snd v)\<rparr>,
            (pairingEvent c0 B C CLIENT_BENCHMARK END)
              \<lparr>ev_stats := Some (fst fin), ev_failure := failure (snd v)\<rparr>]"
    unfolding fin_def finishPairing_events f5
    by (simp add: s5_def s4_def s3_def e2 e1)
  with run c6 show ?thesis by blast
qed

lemma cancel_at_start:
  assumes cc: "cancelCalled env 0"
    and ctor: "c_new C (if gc env then 5 else 3) = None"
  shows "\<exists>s' d f st.
      runSuite fuel env lib (B # bs) (C # cs) rawExample config = Some (Resolved True s')
      \<and> events s' =
          [suiteEvent (eventCommon (initialState (B # bs) (C # cs) rawExample)) SUITE START None,
           suiteEvent (eventCommon (initialState (B # bs) (C # cs) rawExample)) BENCHMARK START
             (Some (b_metadata B)),
           pairingEvent (eventCommon (initialState (B # bs) (C # cs) rawExample)) B C
             CLIENT_BENCHMARK START,
           phaseEvent (eventCommon (initialState (B # bs) (C # cs) rawExample)) B C VERIFY START,
           (phaseEvent (eventCommon (initialState (B # bs) (C # cs) rawExample)) B C VERIFY END)
             \<lparr>ev_duration := Some d, ev_failure := f\<rparr>,
           (pairingEvent (eventCommon (initialState (B # bs) (C # cs) rawExample)) B C
              CLIENT_BENCHMARK END)\<lparr>ev_stats := Some st, ev_failure := f\<rparr>,
           suiteEvent ((eventCommon (initialState (B # bs) (C # cs) rawExample))
              \<lparr>sv_canceled := True\<rparr>) BENCHMARK END (Some (b_metadata B)),
           suiteEvent ((eventCommon (initialState (B # bs) (C # cs) rawExample))
              \<lparr>sv_canceled := True\<rparr>) SUITE END None]"
proof -
  define s0 where "s0 = initialState (B # bs) (C # cs) rawExample"
  define c0 where "c0 = eventCommon s0"
  define cfg where "cfg = (case config of None \<Rightarrow> customConfig | Some c \<Rightarrow> c)"
  define sS where "sS = reporter (suiteEvent c0 SUITE START None) s0"
  define sA where "sA = reporter (suiteEvent c0 BENCHMARK START (Some (b_metadata B))) sS"
  have s0: "\<not> canceled s0" "trace s0 = []"
    by (simp_all add: s0_def initialState_def)
  have sS: "\<not> canceled sS" "eventCommon sS = c0"
    using s0 by (simp_all add: sS_def c0_def)
  have sA: "\<not> canceled sA" "tick sA = 2" "doomed env c0 sA"
    "events sA = [suiteEvent c0 SUITE START None,
                  suiteEvent c0 BENCHMARK START (Some (b_metadata B))]"
    using s0 cc
    by (simp_all add: sA_def sS_def doomed_def c0_def tick_def suspensions_def events_def
          reporter_def act_def)
  have "c_new C (tick sA + (if gc env then 3 else 1)) = None"
    using ctor by (auto simp: sA(2) eval_nat_numeral split: if_splits)
  from doomed_pairing [OF sA(3) sA(1) this, of fuel lib cfg rawExample B]
  obtain st s6 d f where p:
    "runClientBenchmark fuel env lib cfg rawExample B C sA = Some (Resolved st s6)"
    "canceledWith c0 s6"
    "events s6 = events sA @
           [pairingEvent c0 B C CLIENT_BENCHMARK START,
            phaseEvent c0 B C VERIFY START,
            (phaseEvent c0 B C VERIFY END)\<lparr>ev_duration := Some d, ev_failure := f\<rparr>,
            (pairingEvent c0 B C CLIENT_BENCHMARK END)\<lparr>ev_stats := Some st, ev_failure := f\<rparr>]"
    by blast
  define s7 where "s7 = await env s6"
  define s8 where "s8 = reporter (suiteEvent (c0\<lparr>sv_canceled := True\<rparr>) BENCHMARK END
      (Some (b_metadata B))) s7"
  define s9 where "s9 = reporter (suiteEvent (c0\<lparr>sv_canceled := True\<rparr>) SUITE END None) s8"
  have s7: "canceled s7" "eventCommon s7 = c0\<lparr>sv_canceled := True\<rparr>"
    using canceledWith_await [OF p(2), of env] by (simp_all add: s7_def canceledWith_def)
  have cl: "clientsLoop fuel env lib cfg rawExample B (C # cs) sA = Some (Resolved () s7)"
    using sA(1) p(1) s7(1) by (simp add: clientsLoop_canceled s7_def)
  have s8: "canceled s8" "eventCommon s8 = c0\<lparr>sv_canceled := True\<rparr>"
    using s7 by (simp_all add: s8_def)
  have bl: "benchmarksLoop fuel env lib cfg rawExample (B # bs) (C # cs) sS = Some (Resolved () s8)"
    using sS cl s7 s8(1)
    by (simp add: sA_def [symmetric] benchmarksLoop_canceled s8_def [symmetric])
  have inner: "runSuite_inner fuel env lib cfg rawExample (B # bs) (C # cs) s0
                 = Some (Resolved () s9)"
    using bl s8(2)
    by (simp add: runSuite_inner_def c0_def [symmetric] sS_def [symmetric] s9_def)
  have run: "runSuite fuel env lib (B # bs) (C # cs) rawExample config
               = Some (Resolved True (await env s9))"
    using inner s8(1)
    by (simp add: runSuite_def cfg_def [symmetric] s0_def [symmetric] canceled_await_eq s9_def)
  have "events (await env s9) = events sA @
           [pairingEvent c0 B C CLIENT_BENCHMARK START,
            phaseEvent c0 B C VERIFY START,
            (phaseEvent c0 B C VERIFY END)\<lparr>ev_duration := Some d, ev_failure := f\<rparr>,
            (pairingEvent c0 B C CLIENT_BENCHMARK END)\<lparr>ev_stats := Some st, ev_failure := f\<rparr>,
            suiteEvent (c0\<lparr>sv_canceled := True\<rparr>) BENCHMARK END (Some (b_metadata B)),
            suiteEvent (c0\<lparr>sv_canceled := True\<rparr>) SUITE END None]"
    by (simp add: s9_def s8_def s7_def p(3))
  with run sA(4) show ?thesis
    unfolding c0_def s0_def by auto
qed

text \<open>
  Claim C6, as amended. \<open>_runSuite\<close> runs up to its first \<open>await\<close> before \<open>runSuite\<close>
  returns, so when there is a benchmark and a client, a \<open>cancel()\<close> right after the
  start comes after the first pairing has begun. The run then emits exactly: SUITE START and
  BENCHMARK START (not yet canceled), the first client's CLIENT_BENCHMARK START, VERIFY
  START, VERIFY END and CLIENT_BENCHMARK END, then BENCHMARK END and SUITE END carrying
  \<open>canceled: true\<close>. No other client receives a CLIENT_BENCHMARK START, and the promise
  resolves to true.
\<close>

theorem cancel_right_after_start:
  assumes "cancelCalled env 0"
    and "c_new C (if gc env then 5 else 3) = None"
  shows "\<exists>s' d f st.
      runSuite fuel env lib (B # bs) (C # cs) rawExample config = Some (Resolved True s')
      \<and> events s' =
          [suiteEvent (eventCommon (initialState (B # bs) (C # cs) rawExample)) SUITE START None,
           suiteEvent (eventCommon (initialState (B # bs) (C # cs) rawExample)) BENCHMARK START
             (Some (b_metadata B)),
           pairingEvent (eventCommon (initialState (B # bs) (C # cs) rawExample)) B C
             CLIENT_BENCHMARK START,
           phaseEvent (eventCommon (initialState (B # bs) (C # cs) rawExample)) B C VERIFY START,
           (phaseEvent (eventCommon (initialState (B # bs) (C # cs) rawExample)) B C VERIFY END)
             \<lparr>ev_duration := Some d, ev_failure := f\<rparr>,
           (pairingEvent (eventCommon (initialState (B # bs) (C # cs) rawExample)) B C
              CLIENT_BENCHMARK END)\<lparr>ev_stats := Some st, ev_failure := f\<rparr>,
           suiteEvent ((eventCommon (initialState (B # bs) (C # cs) rawExample))
              \<lparr>sv_canceled := True\<rparr>) BENCHMARK END (Some (b_metadata B)),
           suiteEvent ((eventCommon (initialState (B # bs) (C # cs) rawExample))
              \<lparr>sv_canceled := True\<rparr>) SUITE END None]
      \<and> subjectCount CLIENT_BENCHMARK START (events s') = 1
      \<and> sv_canceled (ev_common (last (events s')))
      \<and> \<not> sv_canceled (ev_common (hd (events s')))"
proof -
  from cancel_at_start [OF assms, of fuel lib B bs cs rawExample config]
  obtain s' d f st where r:
    "runSuite fuel env lib (B # bs) (C # cs) rawExample config = Some (Resolved True s')"
    "events s' =
          [suiteEvent (eventCommon (initialState (B # bs) (C # cs) rawExample)) SUITE START None,
           suiteEvent (eventCommon (initialState (B # bs) (C # cs) rawExample)) BENCHMARK START
             (Some (b_metadata B)),
           pairingEvent (eventCommon (initialState (B # bs) (C # cs) rawExample)) B C
             CLIENT_BENCHMARK START,
           phaseEvent (eventCommon (initialState (B # bs) (C # cs) rawExample)) B C VERIFY START,
           (phaseEvent (eventCommon (initialState (B # bs) (C # cs) rawExample)) B C VERIFY END)
             \<lparr>ev_duration := Some d, ev_failure := f\<rparr>,
           (pairingEvent (eventCommon (initialState (B # bs) (C # cs) rawExample)) B C
              CLIENT_BENCHMARK END)\<lparr>ev_stats := Some st, ev_failure := f\<rparr>,
           suiteEvent ((eventCommon (initialState (B # bs) (C # cs) rawExample))
              \<lparr>sv_canceled := True\<rparr>) BENCHMARK END (Some (b_metadata B)),
           suiteEvent ((eventCommon (initialState (B # bs) (C # cs) rawExample))
              \<lparr>sv_canceled := True\<rparr>) SUITE END None]"
    by blast
  have "subjectCount CLIENT_BENCHMARK START (events s') = 1
      \<and> sv_canceled (ev_common (last (events s')))
      \<and> \<not> sv_canceled (ev_common (hd (events s')))"
    unfolding r(2) by (simp add: subjectCount_def initialState_def)
  with r show ?thesis by blast
qed

lemma canceling_hypotheses:
  "cancelCalled cancelingEnv 0 \<and> c_new goodClient (if gc cancelingEnv then 5 else 3) = None"
  by (simp add: cancelingEnv_def goodClient_def)

theorem cancel_right_after_start_witness:
  "cancelCalled cancelingEnv 0
   \<and> c_new goodClient (if gc cancelingEnv then 5 else 3) = None
   \<and> (\<exists>s'. canceledRun = Some (Resolved True s')
         \<and> subjectCount CLIENT_BENCHMARK START (events s') = 1
         \<and> sv_canceled (ev_common (last (events s')))
         \<and> \<not> sv_canceled (ev_common (hd (events s'))))"
proof -
  have h: "cancelCalled cancelingEnv 0" "c_new goodClient (if gc cancelingEnv then 5 else 3) = None"
    using canceling_hypotheses by simp_all
  from cancel_right_after_start [OF h, of 0 steadyLib goodBenchmark "[]" "[brokenClient]"
      someExample None]
  have "\<exists>s'. canceledRun = Some (Resolved True s')
         \<and> subjectCount CLIENT_BENCHMARK START (events s') = 1
         \<and> sv_canceled (ev_common (last (events s')))
         \<and> \<not> sv_canceled (ev_common (hd (events s')))"
    unfolding canceledRun_def by blast
  with h show ?thesis by blast
qed

text \<open>
  Against claim C6 as stated: with one benchmark and two clients and \<open>cancel()\<close> called
  right after the start, the first client has received its CLIENT_BENCHMARK START event.
\<close>

theorem cancel_right_after_start_counterexample:
  "isResolved canceledRun
   \<and> subjectCount CLIENT_BENCHMARK START (events (settledState (the canceledRun))) = 1
   \<and> subjectCount SUITE START (events (settledState (the canceledRun))) = 1
   \<and> subjectCount SUITE END (events (settledState (the canceledRun))) = 1"
proof -
  have h: "cancelCalled cancelingEnv 0" "c_new goodClient (if gc cancelingEnv then 5 else 3) = None"
    using canceling_hypotheses by simp_all
  from cancel_at_start [OF h, of 0 steadyLib goodBenchmark "[]" "[brokenClient]" someExample None]
  obtain s' d f st where r:
    "canceledRun = Some (Resolved True s')"
    "events s' =
          [suiteEvent (eventCommon (initialState [goodBenchmark] [goodClient, brokenClient]
             someExample)) SUITE START None,
           suiteEvent (eventCommon (initialState [goodBenchmark] [goodClient, brokenClient]
             someExample)) BENCHMARK START (Some (b_metadata goodBenchmark)),
           pairingEvent (eventCommon (initialState [goodBenchmark] [goodClient, brokenClient]
             someExample)) goodBenchmark goodClient CLIENT_BENCHMARK START,
           phaseEvent (eventCommon (initialState [goodBenchmark] [goodClient, brokenClient]
             someExample)) goodBenchmark goodClient VERIFY START,
           (phaseEvent (eventCommon (initialState [goodBenchmark] [goodClient, brokenClient]
             someExample)) goodBenchmark goodClient VERIFY END)
             \<lparr>ev_duration := Some d, ev_failure := f\<rparr>,
           (pairingEvent (eventCommon (initialState [goodBenchmark] [goodClient, brokenClient]
             someExample)) goodBenchmark goodClient CLIENT_BENCHMARK END)
             \<lparr>ev_stats := Some st, ev_failure := f\<rparr>,
           suiteEvent ((eventCommon (initialState [goodBenchmark] [goodClient, brokenClient]
             someExample))\<lparr>sv_canceled := True\<rparr>) BENCHMARK END
             (Some (b_metadata goodBenchmark)),
           suiteEvent ((eventCommon (initialState [goodBenchmark] [goodClient, brokenClient]
             someExample))\<lparr>sv_canceled := True\<rparr>) SUITE END None]"
    unfolding canceledRun_def by blast
  show ?thesis
    unfolding r(1) by (simp add: isResolved_def settledState_def r(2) subjectCount_def)
qed

subsection \<open>The persistence hook\<close>

lemma runClientBenchmark_saves:
  assumes "runClientBenchmark fuel env lib config rawExample B C s = Some (Resolved finalStats s')"
  shows "\<exists>stats hu ht (base :: MemoryUsage option) f tr.
      finalStats = statsSummary lib (iqr lib stats) (iqr lib hu) (iqr lib ht)
                     (map_option heapUsed base) (map_option heapTotal base)
      \<and> trace s' = tr @ [Report ((pairingEvent (eventCommon s) B C CLIENT_BENCHMARK END)
                            \<lparr>ev_stats := Some finalStats, ev_failure := f\<rparr>)]
                       @ (if gc env then [ReadFile ''./findings.json'' (c_name C) (amean lib stats)]
                          else [])"
  using assms
proof (cases rule: runClientBenchmark_cases)
  case (resolved base s1 example s2 acc s5)
  obtain stats hu ht where acc: "acc = (stats, hu, ht)"
    by (cases acc) auto
  have 1: "finalStats = statsSummary lib (iqr lib stats) (iqr lib hu) (iqr lib ht)
                     (map_option heapUsed base) (map_option heapTotal base)"
    using resolved(4) by (simp add: acc finishPairing_def Let_def)
  have 2: "trace s' = (trace s5 @ [SetTimeout 10, Suspend])
      @ [Report ((pairingEvent (eventCommon s) B C CLIENT_BENCHMARK END)
                            \<lparr>ev_stats := Some finalStats, ev_failure := failure s5\<rparr>)]
      @ (if gc env then [ReadFile ''./findings.json'' (c_name C) (amean lib stats)] else [])"
    using resolved(4) finishPairing_trace [of env lib B C "eventCommon s" base acc s5]
    by (simp add: acc)
  show ?thesis
    by (intro exI conjI) (rule 1, rule 2)
qed simp_all

lemma addRecord_existing:
  "map_of kvs name = Some (JArray xs) \<Longrightarrow>
     addRecord js name normalized (JObject kvs)
       = Inr (JObject (setOwn name (JArray (xs @ [JString normalized])) kvs))"
  by (simp add: addRecord_def)

lemma addRecord_new:
  "map_of kvs name = None \<Longrightarrow> \<not> inheritedByObjects js name \<Longrightarrow>
     addRecord js name normalized (JObject kvs)
       = Inr (JObject (kvs @ [(name, JArray [JString normalized])]))"
  by (simp add: addRecord_def)

text \<open>
  Claim C10, as amended. A pairing that runs to its end calls \<open>saveData\<close> right after
  its CLIENT_BENCHMARK END event, with the name of the client's constructor and the mean
  of the samples. Without \<open>global.gc\<close>, \<open>saveData\<close> changes nothing: no file is read or
  written. With it, \<open>saveData\<close> asks for \<open>./findings.json\<close> to be read and does nothing
  else. When the read fails, the callback logs the error and writes nothing. When the read
  succeeds and the file holds an object whose entry under the name is an array, the
  callback writes the object back with \<open>toFixed(3)\<close> of the mean, a string, appended to
  that array; when the file holds an object without the name, or no valid JSON, and the
  name is not one that every object inherits, it writes the object back (the empty object
  in the second case) with a new array under the name that holds that one string.
\<close>

theorem saveData_effects:
  "(runClientBenchmark fuel env lib config rawExample B C s = Some (Resolved finalStats s')
      \<longrightarrow> (\<exists>stats hu ht (base :: MemoryUsage option) f tr.
             finalStats = statsSummary lib (iqr lib stats) (iqr lib hu) (iqr lib ht)
                            (map_option heapUsed base) (map_option heapTotal base)
             \<and> trace s' = tr @ [Report ((pairingEvent (eventCommon s) B C CLIENT_BENCHMARK END)
                                   \<lparr>ev_stats := Some finalStats, ev_failure := f\<rparr>)]
                   @ (if gc env
                      then [ReadFile ''./findings.json'' (c_name C) (amean lib stats)] else [])))
   \<and> (\<not> gc env \<longrightarrow> saveData env name stat s = s)
   \<and> (gc env \<longrightarrow> saveData env name stat s = act (ReadFile ''./findings.json'' name stat) s)
   \<and> onFindingsRead js name stat (Some e) data = ConsoleError (''Error while reading file: '' @ e)
   \<and> (JSON_parse js data = Some (JObject kvs) \<and> map_of kvs name = Some (JArray xs)
      \<longrightarrow> onFindingsRead js name stat None data
            = WriteFile ''./findings.json''
                (JSON_stringify js
                   (JObject (setOwn name (JArray (xs @ [JString (toFixed3 js stat)])) kvs))))
   \<and> (JSON_parse js data = Some (JObject kvs) \<and> map_of kvs name = None
        \<and> \<not> inheritedByObjects js name
      \<longrightarrow> onFindingsRead js name stat None data
            = WriteFile ''./findings.json''
                (JSON_stringify js (JObject (kvs @ [(name, JArray [JString (toFixed3 js stat)])]))))
   \<and> (JSON_parse js data = None \<and> \<not> inheritedByObjects js name
      \<longrightarrow> onFindingsRead js name stat None data
            = WriteFile ''./findings.json''
                (JSON_stringify js (JObject [(name, JArray [JString (toFixed3 js stat)])])))"
proof (intro conjI impI)
  assume "runClientBenchmark fuel env lib config rawExample B C s = Some (Resolved finalStats s')"
  then show "\<exists>stats hu ht (base :: MemoryUsage option) f tr.
             finalStats = statsSummary lib (iqr lib stats) (iqr lib hu) (iqr lib ht)
                            (map_option heapUsed base) (map_option heapTotal base)
             \<and> trace s' = tr @ [Report ((pairingEvent (eventCommon s) B C CLIENT_BENCHMARK END)
                                   \<lparr>ev_stats := Some finalStats, ev_failure := f\<rparr>)]
                   @ (if gc env
                      then [ReadFile ''./findings.json'' (c_name C) (amean lib stats)] else [])"
    by (rule runClientBenchmark_saves)
qed (simp_all add: saveData_def onFindingsRead_def addRecord_existing addRecord_new Let_def)

lemma broken_pairing_saves:
  "\<exists>finalStats s' tr.
      runClientBenchmark 0 gcEnv sampleStats customConfig someExample goodBenchmark brokenClient
        startState = Some (Resolved finalStats s')
      \<and> trace s' = tr @ [Report ((pairingEvent (eventCommon startState) goodBenchmark brokenClient
                                   CLIENT_BENCHMARK END)
                                   \<lparr>ev_stats := Some finalStats,
                                    ev_failure := Some \<lparr>f_error = ''bad example'', f_phase = VERIFY\<rparr>\<rparr>)]
                   @ [ReadFile ''./findings.json'' ''Broken'' NaN]"
proof -
  have h1: "c_new brokenClient (tick startState + (if gc gcEnv then 3 else 1)) = None"
    by (simp add: brokenClient_def)
  from pairing_transform_throw [OF h1 broken_throws, of 0 sampleStats customConfig goodBenchmark]
  obtain finalStats s' m t0 t1 t2 d where r:
    "runClientBenchmark 0 gcEnv sampleStats customConfig someExample goodBenchmark brokenClient
       startState = Some (Resolved finalStats s')"
    "trace s' = trace startState
          @ [Report (pairingEvent (eventCommon startState) goodBenchmark brokenClient
               CLIENT_BENCHMARK START)]
          @ (if gc gcEnv then [CallGc, ReadMemory m] else [])
          @ [NewClient (c_metadata brokenClient),
             Report (phaseEvent (eventCommon startState) goodBenchmark brokenClient VERIFY START),
             ReadClock t0]
          @ map TransformRawExample (take (Suc 0) (transformCalls someExample))
          @ [ReadClock t1,
             Report ((phaseEvent (eventCommon startState) goodBenchmark brokenClient VERIFY END)
               \<lparr>ev_duration := Some d,
                ev_failure := Some \<lparr>f_error = ''bad example'', f_phase = VERIFY\<rparr>\<rparr>),
             SetTimeout 50, Suspend, SetTimeout 50, Suspend, ReadClock t2, SetTimeout 10, Suspend,
             Report ((pairingEvent (eventCommon startState) goodBenchmark brokenClient
                 CLIENT_BENCHMARK END)
               \<lparr>ev_stats := Some finalStats,
                ev_failure := Some \<lparr>f_error = ''bad example'', f_phase = VERIFY\<rparr>\<rparr>)]
          @ (if gc gcEnv
             then [ReadFile ''./findings.json'' (c_name brokenClient) (amean sampleStats [])]
             else [])"
    by blast
  define tr where "tr = trace startState
          @ [Report (pairingEvent (eventCommon startState) goodBenchmark brokenClient
               CLIENT_BENCHMARK START), CallGc, ReadMemory m,
             NewClient (c_metadata brokenClient),
             Report (phaseEvent (eventCommon startState) goodBenchmark brokenClient VERIFY START),
             ReadClock t0]
          @ map TransformRawExample (take (Suc 0) (transformCalls someExample))
          @ [ReadClock t1,
             Report ((phaseEvent (eventCommon startState) goodBenchmark brokenClient VERIFY END)
               \<lparr>ev_duration := Some d,
                ev_failure := Some \<lparr>f_error = ''bad example'', f_phase = VERIFY\<rparr>\<rparr>),
             SetTimeout 50, Suspend, SetTimeout 50, Suspend, ReadClock t2, SetTimeout 10, Suspend]"
  have "trace s' = tr @ [Report ((pairingEvent (eventCommon startState) goodBenchmark brokenClient
                                   CLIENT_BENCHMARK END)
                                   \<lparr>ev_stats := Some finalStats,
                                    ev_failure := Some \<lparr>f_error = ''bad example'', f_phase = VERIFY\<rparr>\<rparr>)]
                   @ [ReadFile ''./findings.json'' ''Broken'' NaN]"
    unfolding r(2) tr_def by (simp add: gcEnv_def brokenClient_def sampleStats_def)
  with r(1) show ?thesis by blast
qed

lemma someFindings_text:
  "stringify someFindings [] =
     ''{'' @ [nl] @ ''  '' @ [dq] @ ''C'' @ [dq] @ '': ['' @ [nl]
       @ ''    '' @ [dq] @ ''3.000'' @ [dq] @ [nl]
       @ ''  ]'' @ [nl] @ ''}''"
  by (simp add: someFindings_def enumerated_def indexOf_def quote_def dq_def nl_def)

theorem saveData_effects_witness:
  "(\<exists>finalStats s' tr f.
      runClientBenchmark 0 gcEnv sampleStats customConfig someExample goodBenchmark brokenClient
        startState = Some (Resolved finalStats s')
      \<and> trace s' = tr @ [Report ((pairingEvent (eventCommon startState) goodBenchmark brokenClient
                                   CLIENT_BENCHMARK END)
                                   \<lparr>ev_stats := Some finalStats, ev_failure := f\<rparr>)]
                   @ [ReadFile ''./findings.json'' ''Broken'' NaN])
   \<and> \<not> gc quietEnv \<and> saveData quietEnv ''Broken'' NaN startState = startState
   \<and> gc gcEnv
   \<and> saveData gcEnv ''Broken'' NaN startState
        = act (ReadFile ''./findings.json'' ''Broken'' NaN) startState
   \<and> onFindingsRead nodeJS ''Broken'' NaN (Some ''EACCES'') []
        = ConsoleError ''Error while reading file: EACCES''
   \<and> JSON_parse nodeJS (stringify someFindings [])
        = Some (JObject [(''C'', JArray [JString ''3.000''])])
   \<and> map_of [(''C'', JArray [JString ''3.000''])] ''C'' = Some (JArray [JString ''3.000''])
   \<and> onFindingsRead nodeJS ''C'' (Fin (5 / 2)) None (stringify someFindings [])
        = WriteFile ''./findings.json''
            (''{'' @ [nl] @ ''  '' @ [dq] @ ''C'' @ [dq] @ '': ['' @ [nl]
               @ ''    '' @ [dq] @ ''3.000'' @ [dq] @ '','' @ [nl]
               @ ''    '' @ [dq] @ ''2.500'' @ [dq] @ [nl]
               @ ''  ]'' @ [nl] @ ''}'')
   \<and> map_of [(''C'', JArray [JString ''3.000''])] ''Broken'' = None
   \<and> \<not> inheritedByObjects nodeJS ''Broken''
   \<and> onFindingsRead nodeJS ''Broken'' NaN None (stringify someFindings [])
        = WriteFile ''./findings.json''
            (''{'' @ [nl] @ ''  '' @ [dq] @ ''C'' @ [dq] @ '': ['' @ [nl]
               @ ''    '' @ [dq] @ ''3.000'' @ [dq] @ [nl]
               @ ''  ],'' @ [nl]
               @ ''  '' @ [dq] @ ''Broken'' @ [dq] @ '': ['' @ [nl]
               @ ''    '' @ [dq] @ ''NaN'' @ [dq] @ [nl]
               @ ''  ]'' @ [nl] @ ''}'')
   \<and> JSON_parse nodeJS [] = None
   \<and> onFindingsRead nodeJS ''Broken'' NaN None []
        = WriteFile ''./findings.json''
            (''{'' @ [nl] @ ''  '' @ [dq] @ ''Broken'' @ [dq] @ '': ['' @ [nl]
               @ ''    '' @ [dq] @ ''NaN'' @ [dq] @ [nl]
               @ ''  ]'' @ [nl] @ ''}'')"
proof -
  from broken_pairing_saves obtain finalStats s' where r:
    "runClientBenchmark 0 gcEnv sampleStats customConfig someExample goodBenchmark brokenClient
        startState = Some (Resolved finalStats s')"
    by blast
  note T = saveData_effects [where fuel = 0 and lib = sampleStats and config = customConfig
      and rawExample = someExample and B = goodBenchmark and C = brokenClient
      and finalStats = finalStats and s' = s' and s = startState
      and js = nodeJS and e = "''EACCES''" and xs = "[JString ''3.000'']"
      and kvs = "[(''C'', JArray [JString ''3.000''])]"]
  from T [where env = gcEnv, THEN conjunct1, THEN mp, OF r]
  obtain stats tr f where "trace s' = tr @ [Report ((pairingEvent (eventCommon startState)
        goodBenchmark brokenClient CLIENT_BENCHMARK END)
          \<lparr>ev_stats := Some finalStats, ev_failure := f\<rparr>)]
        @ [ReadFile ''./findings.json'' ''Broken'' (amean sampleStats stats)]"
    by (auto simp: gcEnv_def brokenClient_def)
  moreover from broken_pairing_saves r obtain tr' where
    "trace s' = tr' @ [Report ((pairingEvent (eventCommon startState) goodBenchmark brokenClient
                                   CLIENT_BENCHMARK END)
                                   \<lparr>ev_stats := Some finalStats,
                                    ev_failure := Some \<lparr>f_error = ''bad example'', f_phase = VERIFY\<rparr>\<rparr>)]
                   @ [ReadFile ''./findings.json'' ''Broken'' NaN]"
    by auto
  ultimately have "trace s' = tr @ [Report ((pairingEvent (eventCommon startState)
        goodBenchmark brokenClient CLIENT_BENCHMARK END)
          \<lparr>ev_stats := Some finalStats, ev_failure := f\<rparr>)]
        @ [ReadFile ''./findings.json'' ''Broken'' NaN]"
    by simp
  with r have 1: "\<exists>finalStats s' tr f.
      runClientBenchmark 0 gcEnv sampleStats customConfig someExample goodBenchmark brokenClient
        startState = Some (Resolved finalStats s')
      \<and> trace s' = tr @ [Report ((pairingEvent (eventCommon startState) goodBenchmark brokenClient
                                   CLIENT_BENCHMARK END)
                                   \<lparr>ev_stats := Some finalStats, ev_failure := f\<rparr>)]
                   @ [ReadFile ''./findings.json'' ''Broken'' NaN]"
    by blast
  have g: "\<not> gc quietEnv" "gc gcEnv"
    by (simp_all add: quietEnv_def gcEnv_def)
  have 2: "saveData quietEnv ''Broken'' NaN startState = startState"
    using T [where env = quietEnv and name = "''Broken''" and stat = NaN,
        THEN conjunct2, THEN conjunct1] g by blast
  have 3: "saveData gcEnv ''Broken'' NaN startState
             = act (ReadFile ''./findings.json'' ''Broken'' NaN) startState"
    using T [where env = gcEnv and name = "''Broken''" and stat = NaN,
        THEN conjunct2, THEN conjunct2, THEN conjunct1] g
    by blast
  have 4: "onFindingsRead nodeJS ''Broken'' NaN (Some ''EACCES'') []
        = ConsoleError ''Error while reading file: EACCES''"
    using T [where env = gcEnv and name = "''Broken''" and stat = NaN and data = "[]",
        THEN conjunct2, THEN conjunct2, THEN conjunct2, THEN conjunct1]
    by simp
  have p1: "JSON_parse nodeJS (stringify someFindings [])
        = Some (JObject [(''C'', JArray [JString ''3.000''])])"
    by (simp add: nodeJS_def someFindings_text) (simp add: someFindings_def)
  have p2: "map_of [(''C'', JArray [JString ''3.000''])] ''C'' = Some (JArray [JString ''3.000''])"
    "map_of [(''C'', JArray [JString ''3.000''])] ''Broken'' = None"
    "\<not> inheritedByObjects nodeJS ''Broken''"
    "JSON_parse nodeJS [] = None"
    by (simp_all add: nodeJS_def someFindings_text)
  have f: "toFixed3 nodeJS (Fin (5 / 2)) = ''2.500''" "toFixed3 nodeJS NaN = ''NaN''"
    by (simp_all add: nodeJS_def fixed3_def decimal.simps digit_def)
  have pr: "JSON_stringify nodeJS j = stringify j []" for j
    by (simp add: nodeJS_def)
  have 5: "onFindingsRead nodeJS ''C'' (Fin (5 / 2)) None (stringify someFindings [])
        = WriteFile ''./findings.json''
            (''{'' @ [nl] @ ''  '' @ [dq] @ ''C'' @ [dq] @ '': ['' @ [nl]
               @ ''    '' @ [dq] @ ''3.000'' @ [dq] @ '','' @ [nl]
               @ ''    '' @ [dq] @ ''2.500'' @ [dq] @ [nl]
               @ ''  ]'' @ [nl] @ ''}'')"
    using T [where env = gcEnv and name = "''C''" and stat = "Fin (5 / 2)"
        and data = "stringify someFindings []",
        THEN conjunct2, THEN conjunct2, THEN conjunct2, THEN conjunct2, THEN conjunct1,
        THEN mp, OF conjI [OF p1 p2(1)]]
    by (simp add: f pr enumerated_def indexOf_def quote_def dq_def nl_def)
  have 6: "onFindingsRead nodeJS ''Broken'' NaN None (stringify someFindings [])
        = WriteFile ''./findings.json''
            (''{'' @ [nl] @ ''  '' @ [dq] @ ''C'' @ [dq] @ '': ['' @ [nl]
               @ ''    '' @ [dq] @ ''3.000'' @ [dq] @ [nl]
               @ ''  ],'' @ [nl]
               @ ''  '' @ [dq] @ ''Broken'' @ [dq] @ '': ['' @ [nl]
               @ ''    '' @ [dq] @ ''NaN'' @ [dq] @ [nl]
               @ ''  ]'' @ [nl] @ ''}'')"
    using T [where env = gcEnv and name = "''Broken''" and stat = NaN
        and data = "stringify someFindings []",
        THEN conjunct2, THEN conjunct2, THEN conjunct2, THEN conjunct2, THEN conjunct2,
        THEN conjunct1, THEN mp, OF conjI [OF p1 conjI [OF p2(2) p2(3)]]]
    by (simp add: f pr enumerated_def indexOf_def quote_def dq_def nl_def)
  have 7: "onFindingsRead nodeJS ''Broken'' NaN None []
        = WriteFile ''./findings.json''
            (''{'' @ [nl] @ ''  '' @ [dq] @ ''Broken'' @ [dq] @ '': ['' @ [nl]
               @ ''    '' @ [dq] @ ''NaN'' @ [dq] @ [nl]
               @ ''  ]'' @ [nl] @ ''}'')"
    using T [where env = gcEnv and name = "''Broken''" and stat = NaN and data = "[]",
        THEN conjunct2, THEN conjunct2, THEN conjunct2, THEN conjunct2, THEN conjunct2,
        THEN conjunct2, THEN mp, OF conjI [OF p2(4) p2(3)]]
    by (simp add: f pr enumerated_def indexOf_def quote_def dq_def nl_def)
  show ?thesis
    by (intro conjI) (rule 1 g 2 3 4 p1 p2 5 6 7)+
qed

text \<open>
  Against claim C10 as stated: with \<open>global.gc\<close> present, a read of \<open>findings.json\<close> that
  fails makes the callback log the error; it asks for no write, so nothing is appended.
\<close>

theorem saveData_effects_counterexample:
  "gc gcEnv
   \<and> saveData gcEnv ''C'' (Fin 3) startState
       = act (ReadFile ''./findings.json'' ''C'' (Fin 3)) startState
   \<and> onFindingsRead nodeJS ''C'' (Fin 3) (Some ''EACCES'') []
       = ConsoleError ''Error while reading file: EACCES''"
  by (simp add: gcEnv_def saveData_def onFindingsRead_def)

subsection \<open>The failure does not outlive its pairing\<close>

lemma warmupPhase_invariant:
  assumes A1: "\<And>a s. P s \<Longrightarrow> a \<noteq> Suspend \<Longrightarrow> P (act a s)"
    and A2: "\<And>s. P s \<Longrightarrow> P (await env s)"
    and A3: "\<And>s f. P s \<Longrightarrow> P (s\<lparr>failure := f\<rparr>)"
    and "P s"
  shows "P (warmupPhase env config B C common example s)"
proof (cases "\<not> canceled s \<and> failure s = None")
  case False
  then have "warmupPhase env config B C common example s = s"
    by (intro warmupPhase_skipped) auto
  with \<open>P s\<close> show ?thesis by simp
next
  case True
  define s1 where "s1 = snd (performanceNow env (reporter (phaseEvent common B C WARMUP START) s))"
  define s3 where "s3 = passes env B C example WARMUP False (warmups config) s1"
  have P1: "P s1"
    unfolding s1_def by (simp add: reporter_def A1 \<open>P s\<close>)
  have P3: "P s3"
    unfolding s3_def
    by (rule passes_invariant [where P = P])
       (rule A1, assumption+, rule A2, assumption, rule A3, assumption, rule P1)
  have "warmupPhase env config B C common example s =
      reporter ((phaseEvent common B C WARMUP END)
         \<lparr>ev_duration := Some (clock env (tick s3) - clock env (Suc (tick s))),
          ev_failure := failure s3\<rparr>) (act (ReadClock (clock env (tick s3))) s3)"
    using True by (simp add: warmupPhase_def Let_def split_beta s3_def s1_def)
  then show ?thesis
    by (simp add: reporter_def A1 P3)
qed

lemma runClientBenchmark_invariant:
  assumes A1: "\<And>a s. P s \<Longrightarrow> a \<noteq> Suspend \<Longrightarrow> P (act a s)"
    and A2: "\<And>s. P s \<Longrightarrow> P (await env s)"
    and A3: "\<And>s f. P s \<Longrightarrow> P (s\<lparr>failure := f\<rparr>)"
    and "P s"
    and run: "runClientBenchmark fuel env lib config rawExample B C s = Some (Resolved finalStats s')"
  shows "P s'"
  using run
proof (cases rule: runClientBenchmark_cases)
  case (resolved base s1 example s2 acc s5)
  have "P (snd (beginPairing env B C s))"
    by (rule beginPairing_invariant [where P = P]) (rule A1, assumption+, rule \<open>P s\<close>)
  then have P1: "P s1"
    by (simp add: resolved(1))
  have "P (snd (verifyPhase env config rawExample B C (eventCommon s) s1))"
    by (rule verifyPhase_invariant [where P = P])
       (rule A1, assumption+, rule A2, assumption, rule A3, assumption, rule P1)
  then have P2: "P s2"
    by (simp add: resolved(2))
  have pause: "P (pause env ms x)" if "P x" for ms x
    unfolding pause_def by (rule A2, rule A1, rule that) simp
  have P3: "P (warmupPhase env config B C (eventCommon s) example (pause env 50 s2))"
    by (rule warmupPhase_invariant [where P = P])
       (rule A1, assumption+, rule A2, assumption, rule A3, assumption, rule pause, rule P2)
  from iterationPhase_invariant [where P = P, OF _ _ _ pause [OF P3] resolved(3)] A1 A2 A3
  have P5: "P s5"
    by simp
  have "P (snd (finishPairing env lib B C (eventCommon s) base acc s5))"
    by (rule finishPairing_invariant [where P = P])
       (rule A1, assumption+, rule A2, assumption, rule A3, assumption, rule P5)
  with resolved(4) show ?thesis
    by simp
qed simp_all

lemma runClientBenchmark_neverCanceled:
  assumes "neverCanceled env" and "\<not> canceled s"
    and "runClientBenchmark fuel env lib config rawExample B C s = Some (Resolved finalStats s')"
  shows "\<not> canceled s'"
  by (rule runClientBenchmark_invariant [where P = "\<lambda>s. \<not> canceled s", OF _ _ _ assms(2,3)])
     (use assms(1) in \<open>simp_all add: await_def neverCanceled_def\<close>)

text \<open>
  When a phase hands over to the next, the last event is the END of a phase and carries
  the failure of the context; the pauses and the phases that are skipped change neither.
\<close>

lemma phaseEnded_verifyPhase:
  "phaseEnded (snd (verifyPhase env config rawExample B C common s))"
proof -
  define s' where "s' = snd (verifyPhase env config rawExample B C common s)"
  define b where "b = (phaseEvent common B C VERIFY END)
             \<lparr>ev_duration := ev_duration (last (events s')), ev_failure := failure s'\<rparr>"
  have v: "verifyPhase env config rawExample B C common s
            = (fst (verifyPhase env config rawExample B C common s), s')"
    by (simp add: s'_def)
  have "events s' = events s @ [phaseEvent common B C VERIFY START, b]"
    unfolding b_def by (rule events_verifyPhase [OF v])
  then have l: "last (events s') = b" "events s' \<noteq> []"
    by simp_all
  have "ev_subject b = CLIENT_BENCHMARK_PHASE" "ev_type b = END" "ev_failure b = failure s'"
    by (simp_all add: b_def)
  then have "phaseEnded s'"
    by (simp add: phaseEnded_def l)
  then show ?thesis
    by (simp add: s'_def)
qed

lemma phaseEnded_pause: "phaseEnded s \<Longrightarrow> phaseEnded (pause env ms s)"
  by (simp add: phaseEnded_def)

lemma phaseEnded_warmupPhase:
  assumes "phaseEnded s"
  shows "phaseEnded (warmupPhase env config B C common example s)"
proof (cases "\<not> canceled s \<and> failure s = None")
  case False
  then have "warmupPhase env config B C common example s = s"
    by (intro warmupPhase_skipped) auto
  with assms show ?thesis by simp
next
  case True
  define s' where "s' = warmupPhase env config B C common example s"
  define b where "b = (phaseEvent common B C WARMUP END)
             \<lparr>ev_duration := ev_duration (last (events s')), ev_failure := failure s'\<rparr>"
  have "events s' = events s @ [phaseEvent common B C WARMUP START, b]"
    unfolding b_def
    using events_warmupPhase [of env config B C common example s s'] True
    by (simp only: s'_def if_True simp_thms)
  then have l: "last (events s') = b" "events s' \<noteq> []"
    by simp_all
  have "ev_subject b = CLIENT_BENCHMARK_PHASE" "ev_type b = END" "ev_failure b = failure s'"
    by (simp_all add: b_def)
  then have "phaseEnded s'"
    by (simp add: phaseEnded_def l)
  then show ?thesis
    by (simp add: s'_def)
qed

lemma failure_isFinalIteration [simp]:
  "failure (snd (isFinalIteration env lib config runStart stats s)) = failure s"
  by (simp add: snd_isFinalIteration)

lemma phaseEnded_iterationLoop:
  "phaseEnded s \<Longrightarrow>
   iterationLoop fuel env lib config B C common example base runStart acc s
     = Some (Resolved acc' s') \<Longrightarrow>
   phaseEnded s'"
proof (induction fuel arbitrary: acc s)
  case 0
  then show ?case by simp
next
  case (Suc fuel)
  note step = Suc.prems(2) [unfolded iterationLoop_Suc]
  show ?case
  proof (cases "canceled s \<or> failure s \<noteq> None")
    case True
    with step Suc.prems(1) show ?thesis by auto
  next
    case False
    obtain res s2 where eq: "runSingleBenchmarkPass env B C example ITERATION False
        (reporter (phaseEvent common B C ITERATION START) s) = (res, s2)"
      by (cases "runSingleBenchmarkPass env B C example ITERATION False
        (reporter (phaseEvent common B C ITERATION START) s)")
    show ?thesis
    proof (cases res)
      case None
      with step False eq show ?thesis by simp
    next
      case (Some r0)
      define s5 where "s5 = snd (isFinalIteration env lib config runStart (fst (pushSample r0 acc))
          (reporter (iterationEnd lib common B C base r0 (pushSample r0 acc) (failure s2))
             (await env s2)))"
      have e5: "phaseEnded s5"
        by (simp add: s5_def phaseEnded_def)
      show ?thesis
      proof (cases "fst (isFinalIteration env lib config runStart (fst (pushSample r0 acc))
          (reporter (iterationEnd lib common B C base r0 (pushSample r0 acc) (failure s2))
             (await env s2)))")
        case True
        with step False eq Some have "s' = s5"
          by (auto simp: s5_def split: if_splits)
        with e5 show ?thesis by simp
      next
        case final: False
        with step False eq Some have
          "iterationLoop fuel env lib config B C common example base runStart
             (pushSample r0 acc) s5 = Some (Resolved acc' s')"
          by (auto simp: s5_def split: if_splits)
        from Suc.IH [OF e5 this] show ?thesis .
      qed
    qed
  qed
qed

lemma phaseEnded_iterationPhase:
  assumes "phaseEnded s"
    and "iterationPhase fuel env lib config B C common example base s = Some (Resolved acc s')"
  shows "phaseEnded s'"
proof (cases "canceled s \<or> failure s \<noteq> None")
  case True
  from iterationPhase_skipped [OF this] assms show ?thesis
    by (auto simp: phaseEnded_def)
next
  case False
  have "phaseEnded (act (ReadClock (clock env (tick s))) s)"
    using assms(1) by (simp add: phaseEnded_def)
  moreover from False assms(2) have
    "iterationLoop fuel env lib config B C common example base (clock env (tick s)) ([], [], [])
       (act (ReadClock (clock env (tick s))) s) = Some (Resolved acc s')"
    by (simp add: iterationPhase_def Let_def performanceNow_def)
  ultimately show ?thesis
    by (rule phaseEnded_iterationLoop)
qed

lemma runClientBenchmark_reported:
  assumes "runClientBenchmark fuel env lib config rawExample B C s = Some (Resolved finalStats s')"
  shows "failure s' = None
    \<and> (\<exists>evs pe. events s' = events s @ evs @
          [pe, (pairingEvent (eventCommon s) B C CLIENT_BENCHMARK END)
                 \<lparr>ev_stats := Some finalStats, ev_failure := ev_failure pe\<rparr>]
          \<and> ev_subject pe = CLIENT_BENCHMARK_PHASE \<and> ev_type pe = END)
    \<and> (\<exists>base acc s5. (finalStats, s') = finishPairing env lib B C (eventCommon s) base acc s5)"
  using assms
proof (cases rule: runClientBenchmark_cases)
  case (resolved base s1 example s2 acc s5)
  define s4 where
    "s4 = pause env 50 (warmupPhase env config B C (eventCommon s) example (pause env 50 s2))"
  have e1: "events s1 = events s @ [pairingEvent (eventCommon s) B C CLIENT_BENCHMARK START]"
    using beginPairing_events [of env B C s] resolved(1) by simp
  from events_verifyPhase [OF resolved(2)] obtain ev2 where e2: "events s2 = events s1 @ ev2"
    by blast
  from events_warmupPhase [OF refl, of env config B C "eventCommon s" example "pause env 50 s2"]
  obtain ev3 where e3: "events s4 = events s2 @ ev3"
    unfolding s4_def by (auto split: if_splits)
  from iterationPhase_events [OF resolved(3) [folded s4_def]]
  obtain ev4 where e4: "events s5 = events s4 @ ev4"
    by auto
  define X where "X = pairingEvent (eventCommon s) B C CLIENT_BENCHMARK START # ev2 @ ev3 @ ev4"
  have e5: "events s5 = events s @ X"
    by (simp add: X_def e1 e2 e3 e4)
  have "phaseEnded s2"
    using phaseEnded_verifyPhase [of env config rawExample B C "eventCommon s" s1]
    by (simp add: resolved(2))
  then have "phaseEnded s4"
    unfolding s4_def by (intro phaseEnded_pause phaseEnded_warmupPhase)
  from phaseEnded_iterationPhase [OF this resolved(3) [folded s4_def]]
  have pe: "phaseEnded s5" .
  have "X \<noteq> []"
    by (simp add: X_def)
  then have X: "X = butlast X @ [last X]" and l: "last (events s5) = last X"
    by (simp_all add: e5)
  from pe l have p: "ev_subject (last X) = CLIENT_BENCHMARK_PHASE" "ev_type (last X) = END"
    "ev_failure (last X) = failure s5"
    by (simp_all add: phaseEnded_def)
  have "events s' = events s5 @ [(pairingEvent (eventCommon s) B C CLIENT_BENCHMARK END)
             \<lparr>ev_stats := Some finalStats, ev_failure := failure s5\<rparr>]"
    using resolved(4) finishPairing_events [of env lib B C "eventCommon s" base acc s5]
    by simp
  then have "events s' = events s @ butlast X @
          [last X, (pairingEvent (eventCommon s) B C CLIENT_BENCHMARK END)
                 \<lparr>ev_stats := Some finalStats, ev_failure := ev_failure (last X)\<rparr>]"
    using X by (simp add: e5 p(3))
  with p have 2: "\<exists>evs pe. events s' = events s @ evs @
          [pe, (pairingEvent (eventCommon s) B C CLIENT_BENCHMARK END)
                 \<lparr>ev_stats := Some finalStats, ev_failure := ev_failure pe\<rparr>]
          \<and> ev_subject pe = CLIENT_BENCHMARK_PHASE \<and> ev_type pe = END"
    by blast
  have 1: "failure s' = None"
    using resolved(4) by simp
  have 3: "\<exists>base acc s5. (finalStats, s') = finishPairing env lib B C (eventCommon s) base acc s5"
    using resolved(4) by (metis prod.collapse settled.inject(1))
  from 1 2 3 show ?thesis by blast
qed simp_all

lemma clientsLoop_failure:
  "failure s = None \<Longrightarrow>
   clientsLoop fuel env lib config rawExample B cs s = Some (Resolved u s') \<Longrightarrow>
   failure s' = None"
proof (induction cs arbitrary: s)
  case Nil
  then show ?case by simp
next
  case (Cons C cs)
  show ?case
  proof (cases "canceled s")
    case True
    with Cons.prems show ?thesis by simp
  next
    case False
    with Cons.prems(2) obtain st s1 where
      run: "runClientBenchmark fuel env lib config rawExample B C s = Some (Resolved st s1)"
      and rest: "clientsLoop fuel env lib config rawExample B cs (await env s1) = Some (Resolved u s')"
      by (auto split: option.splits settled.splits)
    from runClientBenchmark_reported [OF run] have "failure (await env s1) = None"
      by simp
    from Cons.IH [OF this rest] show ?thesis .
  qed
qed

lemma benchmarksLoop_failure:
  "failure s = None \<Longrightarrow>
   benchmarksLoop fuel env lib config rawExample bs cs s = Some (Resolved u s') \<Longrightarrow>
   failure s' = None"
proof (induction bs arbitrary: s)
  case Nil
  then show ?case by simp
next
  case (Cons B bs)
  show ?case
  proof (cases "canceled s")
    case True
    with Cons.prems show ?thesis by simp
  next
    case False
    with Cons.prems(2) obtain u1 s1 where
      inner: "clientsLoop fuel env lib config rawExample B cs
                (reporter (suiteEvent (eventCommon s) BENCHMARK START (Some (b_metadata B))) s)
              = Some (Resolved u1 s1)"
      and rest: "benchmarksLoop fuel env lib config rawExample bs cs
                (reporter (suiteEvent (eventCommon s1) BENCHMARK END (Some (b_metadata B))) s1)
              = Some (Resolved u s')"
      by (auto split: option.splits settled.splits)
    have "failure s1 = None"
      by (rule clientsLoop_failure [OF _ inner]) (simp add: Cons.prems(1))
    then have "failure (reporter (suiteEvent (eventCommon s1) BENCHMARK END (Some (b_metadata B))) s1)
               = None"
      by simp
    from Cons.IH [OF this rest] show ?thesis .
  qed
qed

text \<open>
  Claim C8. The end of a pairing (lines 279-288) reports CLIENT_BENCHMARK END with the
  failure the context holds at that moment and only then clears it. In a pairing that
  runs to its end, the event before CLIENT_BENCHMARK END is the END of a phase, and
  CLIENT_BENCHMARK END carries the failure that this event reported; afterwards no
  failure is recorded, so the next pairing of the client loop starts from a state
  without failure; and the client loop and the benchmark loop, started without failure,
  end without failure.
\<close>

theorem failure_cleared_after_pairing:
  "(events (snd (finishPairing env lib B C common base acc s5)) =
      events s5 @ [(pairingEvent common B C CLIENT_BENCHMARK END)
        \<lparr>ev_stats := Some (fst (finishPairing env lib B C common base acc s5)),
         ev_failure := failure s5\<rparr>]
    \<and> failure (snd (finishPairing env lib B C common base acc s5)) = None)
   \<and> (runClientBenchmark fuel env lib config rawExample B C s = Some (Resolved finalStats s')
      \<longrightarrow> failure s' = None
          \<and> (\<exists>evs pe. events s' = events s @ evs @
                [pe, (pairingEvent (eventCommon s) B C CLIENT_BENCHMARK END)
                       \<lparr>ev_stats := Some finalStats, ev_failure := ev_failure pe\<rparr>]
                \<and> ev_subject pe = CLIENT_BENCHMARK_PHASE \<and> ev_type pe = END)
          \<and> (\<exists>base acc s5.
                (finalStats, s') = finishPairing env lib B C (eventCommon s) base acc s5)
          \<and> failure (await env s') = None
          \<and> (\<not> canceled s \<longrightarrow>
                clientsLoop fuel env lib config rawExample B (C # cs) s
                  = clientsLoop fuel env lib config rawExample B cs (await env s')))
   \<and> (failure s0 = None
        \<and> clientsLoop fuel env lib config rawExample B cs s0 = Some (Resolved u s1)
      \<longrightarrow> failure s1 = None)
   \<and> (failure s0 = None
        \<and> benchmarksLoop fuel env lib config rawExample bs cs s0 = Some (Resolved u s2)
      \<longrightarrow> failure s2 = None)"
proof (intro conjI impI)
  show "events (snd (finishPairing env lib B C common base acc s5)) =
      events s5 @ [(pairingEvent common B C CLIENT_BENCHMARK END)
        \<lparr>ev_stats := Some (fst (finishPairing env lib B C common base acc s5)),
         ev_failure := failure s5\<rparr>]"
    by (rule finishPairing_events)
  show "failure (snd (finishPairing env lib B C common base acc s5)) = None"
    by (rule finishPairing_failure)
next
  assume run: "runClientBenchmark fuel env lib config rawExample B C s
                 = Some (Resolved finalStats s')"
  note r = runClientBenchmark_reported [OF run]
  from r show "failure s' = None" by blast
  from r show "\<exists>evs pe. events s' = events s @ evs @
                [pe, (pairingEvent (eventCommon s) B C CLIENT_BENCHMARK END)
                       \<lparr>ev_stats := Some finalStats, ev_failure := ev_failure pe\<rparr>]
                \<and> ev_subject pe = CLIENT_BENCHMARK_PHASE \<and> ev_type pe = END"
    by blast
  from r show "\<exists>base acc s5.
                (finalStats, s') = finishPairing env lib B C (eventCommon s) base acc s5"
    by blast
  from r show "failure (await env s') = None" by simp
  assume "\<not> canceled s"
  with run show "clientsLoop fuel env lib config rawExample B (C # cs) s
                  = clientsLoop fuel env lib config rawExample B cs (await env s')"
    by simp
next
  assume "failure s0 = None
        \<and> clientsLoop fuel env lib config rawExample B cs s0 = Some (Resolved u s1)"
  then show "failure s1 = None"
    using clientsLoop_failure [of s0 fuel env lib config rawExample B cs u s1] by blast
next
  assume "failure s0 = None
        \<and> benchmarksLoop fuel env lib config rawExample bs cs s0 = Some (Resolved u s2)"
  then show "failure s2 = None"
    using benchmarksLoop_failure [of s0 fuel env lib config rawExample bs cs u s2] by blast
qed

lemma neverCanceled_quiet: "neverCanceled quietEnv"
  by (simp add: neverCanceled_def quietEnv_def)

lemma broken_pairing:
  "\<exists>finalStats s'.
     runClientBenchmark fuel quietEnv lib config someExample B brokenClient s
       = Some (Resolved finalStats s')
     \<and> map ev_failure (events s') = map ev_failure (events s)
          @ [None, None, Some \<lparr>f_error = ''bad example'', f_phase = VERIFY\<rparr>,
             Some \<lparr>f_error = ''bad example'', f_phase = VERIFY\<rparr>]
     \<and> failure s' = None
     \<and> (\<not> canceled s \<longrightarrow> \<not> canceled s')"
proof -
  have h1: "c_new brokenClient (tick s + (if gc quietEnv then 3 else 1)) = None"
    by (simp add: brokenClient_def)
  from pairing_transform_throw [OF h1 broken_throws, of fuel lib config B]
  obtain finalStats s' m t0 t1 t2 d where r:
    "runClientBenchmark fuel quietEnv lib config someExample B brokenClient s
       = Some (Resolved finalStats s')"
    "trace s' = trace s
          @ [Report (pairingEvent (eventCommon s) B brokenClient CLIENT_BENCHMARK START)]
          @ (if gc quietEnv then [CallGc, ReadMemory m] else [])
          @ [NewClient (c_metadata brokenClient),
             Report (phaseEvent (eventCommon s) B brokenClient VERIFY START), ReadClock t0]
          @ map TransformRawExample (take (Suc 0) (transformCalls someExample))
          @ [ReadClock t1,
             Report ((phaseEvent (eventCommon s) B brokenClient VERIFY END)
               \<lparr>ev_duration := Some d,
                ev_failure := Some \<lparr>f_error = ''bad example'', f_phase = VERIFY\<rparr>\<rparr>),
             SetTimeout 50, Suspend, SetTimeout 50, Suspend, ReadClock t2, SetTimeout 10, Suspend,
             Report ((pairingEvent (eventCommon s) B brokenClient CLIENT_BENCHMARK END)
               \<lparr>ev_stats := Some finalStats,
                ev_failure := Some \<lparr>f_error = ''bad example'', f_phase = VERIFY\<rparr>\<rparr>)]
          @ (if gc quietEnv
             then [ReadFile ''./findings.json'' (c_name brokenClient) (amean lib [])] else [])"
    "failure s' = None"
    by blast
  have 1: "map ev_failure (events s') = map ev_failure (events s)
          @ [None, None, Some \<lparr>f_error = ''bad example'', f_phase = VERIFY\<rparr>,
             Some \<lparr>f_error = ''bad example'', f_phase = VERIFY\<rparr>]"
    unfolding events_trace_append [OF r(2)]
    by (simp add: quietEnv_def transformCalls_def pairingEvent_def phaseEvent_def)
  have 2: "\<not> canceled s \<longrightarrow> \<not> canceled s'"
    using runClientBenchmark_neverCanceled [OF neverCanceled_quiet _ r(1)] by blast
  show ?thesis
    by (intro exI conjI) (rule r(1), rule 1, rule r(3), rule 2)
qed

lemma await_quiet_frame:
  "canceled (await quietEnv s) = canceled s"
  by (simp add: await_def quietEnv_def)

lemma broken_clients:
  assumes "\<not> canceled s"
  shows "\<exists>s1. clientsLoop fuel quietEnv lib config someExample B [brokenClient, brokenClient] s
           = Some (Resolved () s1)
     \<and> failure s1 = None
     \<and> map ev_failure (events s1) = map ev_failure (events s)
          @ [None, None, Some \<lparr>f_error = ''bad example'', f_phase = VERIFY\<rparr>,
             Some \<lparr>f_error = ''bad example'', f_phase = VERIFY\<rparr>,
             None, None, Some \<lparr>f_error = ''bad example'', f_phase = VERIFY\<rparr>,
             Some \<lparr>f_error = ''bad example'', f_phase = VERIFY\<rparr>]"
proof -
  from broken_pairing [of fuel lib config B s] assms obtain st1 sA where a:
    "runClientBenchmark fuel quietEnv lib config someExample B brokenClient s
       = Some (Resolved st1 sA)"
    "map ev_failure (events sA) = map ev_failure (events s)
          @ [None, None, Some \<lparr>f_error = ''bad example'', f_phase = VERIFY\<rparr>,
             Some \<lparr>f_error = ''bad example'', f_phase = VERIFY\<rparr>]"
    "failure sA = None" "\<not> canceled sA"
    by blast
  from broken_pairing [of fuel lib config B "await quietEnv sA"] obtain st2 sC where c:
    "runClientBenchmark fuel quietEnv lib config someExample B brokenClient (await quietEnv sA)
       = Some (Resolved st2 sC)"
    "map ev_failure (events sC) = map ev_failure (events (await quietEnv sA))
          @ [None, None, Some \<lparr>f_error = ''bad example'', f_phase = VERIFY\<rparr>,
             Some \<lparr>f_error = ''bad example'', f_phase = VERIFY\<rparr>]"
    "failure sC = None"
    by blast
  have "clientsLoop fuel quietEnv lib config someExample B [brokenClient, brokenClient] s
           = Some (Resolved () (await quietEnv sC))"
    using assms a(1,4) c(1) by (simp add: await_quiet_frame)
  moreover have "failure (await quietEnv sC) = None"
    by (simp add: c(3))
  moreover have "map ev_failure (events (await quietEnv sC)) = map ev_failure (events s)
          @ [None, None, Some \<lparr>f_error = ''bad example'', f_phase = VERIFY\<rparr>,
             Some \<lparr>f_error = ''bad example'', f_phase = VERIFY\<rparr>,
             None, None, Some \<lparr>f_error = ''bad example'', f_phase = VERIFY\<rparr>,
             Some \<lparr>f_error = ''bad example'', f_phase = VERIFY\<rparr>]"
    by (simp add: c(2) a(2))
  ultimately show ?thesis by blast
qed

theorem failure_cleared_after_pairing_witness:
  "(\<exists>finalStats s'.
      runClientBenchmark 0 quietEnv sampleStats customConfig someExample goodBenchmark
        brokenClient startState = Some (Resolved finalStats s')
      \<and> map ev_failure (events s')
          = [None, None, Some \<lparr>f_error = ''bad example'', f_phase = VERIFY\<rparr>,
             Some \<lparr>f_error = ''bad example'', f_phase = VERIFY\<rparr>]
      \<and> failure s' = None \<and> failure (await quietEnv s') = None
      \<and> \<not> canceled startState
      \<and> clientsLoop 0 quietEnv sampleStats customConfig someExample goodBenchmark
           [brokenClient, brokenClient] startState
         = clientsLoop 0 quietEnv sampleStats customConfig someExample goodBenchmark
           [brokenClient] (await quietEnv s'))
   \<and> failure startState = None
   \<and> (\<exists>s1. clientsLoop 0 quietEnv sampleStats customConfig someExample goodBenchmark
              [brokenClient, brokenClient] startState = Some (Resolved () s1)
         \<and> map ev_failure (events s1)
             = [None, None, Some \<lparr>f_error = ''bad example'', f_phase = VERIFY\<rparr>,
                Some \<lparr>f_error = ''bad example'', f_phase = VERIFY\<rparr>,
                None, None, Some \<lparr>f_error = ''bad example'', f_phase = VERIFY\<rparr>,
                Some \<lparr>f_error = ''bad example'', f_phase = VERIFY\<rparr>]
         \<and> failure s1 = None)
   \<and> (\<exists>s2. benchmarksLoop 0 quietEnv sampleStats customConfig someExample [goodBenchmark]
              [brokenClient, brokenClient] startState = Some (Resolved () s2)
         \<and> failure s2 = None)"
proof -
  have clean: "\<not> canceled startState" "failure startState = None" "events startState = []"
    by (simp_all add: startState_def initialState_def events_def)
  from broken_pairing [of 0 sampleStats customConfig goodBenchmark startState]
  obtain finalStats s' where run:
    "runClientBenchmark 0 quietEnv sampleStats customConfig someExample goodBenchmark
        brokenClient startState = Some (Resolved finalStats s')"
    "map ev_failure (events s')
          = [None, None, Some \<lparr>f_error = ''bad example'', f_phase = VERIFY\<rparr>,
             Some \<lparr>f_error = ''bad example'', f_phase = VERIFY\<rparr>]"
    by (auto simp: clean)
  from broken_clients [OF clean(1), of 0 sampleStats customConfig goodBenchmark]
  obtain s1 where cl:
    "clientsLoop 0 quietEnv sampleStats customConfig someExample goodBenchmark
              [brokenClient, brokenClient] startState = Some (Resolved () s1)"
    "map ev_failure (events s1)
             = [None, None, Some \<lparr>f_error = ''bad example'', f_phase = VERIFY\<rparr>,
                Some \<lparr>f_error = ''bad example'', f_phase = VERIFY\<rparr>,
                None, None, Some \<lparr>f_error = ''bad example'', f_phase = VERIFY\<rparr>,
                Some \<lparr>f_error = ''bad example'', f_phase = VERIFY\<rparr>]"
    by (auto simp: clean)
  define sB where "sB = reporter (suiteEvent (eventCommon startState) BENCHMARK START
      (Some (b_metadata goodBenchmark))) startState"
  have "\<not> canceled sB"
    by (simp add: sB_def clean)
  from broken_clients [OF this, of 0 sampleStats customConfig goodBenchmark]
  obtain s3 where inner:
    "clientsLoop 0 quietEnv sampleStats customConfig someExample goodBenchmark
              [brokenClient, brokenClient] sB = Some (Resolved () s3)"
    by blast
  define s2 where "s2 = reporter (suiteEvent (eventCommon s3) BENCHMARK END
      (Some (b_metadata goodBenchmark))) s3"
  have bl: "benchmarksLoop 0 quietEnv sampleStats customConfig someExample [goodBenchmark]
              [brokenClient, brokenClient] startState = Some (Resolved () s2)"
    using inner clean(1) by (simp add: sB_def s2_def)
  note T = failure_cleared_after_pairing [where fuel = 0 and env = quietEnv and lib = sampleStats
      and config = customConfig and rawExample = someExample and B = goodBenchmark
      and C = brokenClient and s = startState and finalStats = finalStats and s' = s'
      and ?s0.0 = startState and u = "()" and bs = "[goodBenchmark]"]
  from T [where cs = "[brokenClient]", THEN conjunct2, THEN conjunct1, THEN mp, OF run(1)]
  have p: "failure s' = None" "failure (await quietEnv s') = None"
    "\<not> canceled startState \<longrightarrow>
       clientsLoop 0 quietEnv sampleStats customConfig someExample goodBenchmark
           (brokenClient # [brokenClient]) startState
         = clientsLoop 0 quietEnv sampleStats customConfig someExample goodBenchmark
           [brokenClient] (await quietEnv s')"
    by blast+
  have c3: "failure s1 = None"
    using T [where cs = "[brokenClient, brokenClient]" and ?s1.0 = s1,
        THEN conjunct2, THEN conjunct2, THEN conjunct1] clean(2) cl(1)
    by blast
  have c4: "failure s2 = None"
    using T [where cs = "[brokenClient, brokenClient]" and ?s2.0 = s2,
        THEN conjunct2, THEN conjunct2, THEN conjunct2] clean(2) bl
    by blast
  have A: "\<exists>finalStats s'.
      runClientBenchmark 0 quietEnv sampleStats customConfig someExample goodBenchmark
        brokenClient startState = Some (Resolved finalStats s')
      \<and> map ev_failure (events s')
          = [None, None, Some \<lparr>f_error = ''bad example'', f_phase = VERIFY\<rparr>,
             Some \<lparr>f_error = ''bad example'', f_phase = VERIFY\<rparr>]
      \<and> failure s' = None \<and> failure (await quietEnv s') = None
      \<and> \<not> canceled startState
      \<and> clientsLoop 0 quietEnv sampleStats customConfig someExample goodBenchmark
           [brokenClient, brokenClient] startState
         = clientsLoop 0 quietEnv sampleStats customConfig someExample goodBenchmark
           [brokenClient] (await quietEnv s')"
    using p(3) clean(1)
    by (intro exI conjI) (rule run(1), rule run(2), rule p(1), rule p(2), rule clean(1), blast)
  have B: "\<exists>s1. clientsLoop 0 quietEnv sampleStats customConfig someExample goodBenchmark
              [brokenClient, brokenClient] startState = Some (Resolved () s1)
         \<and> map ev_failure (events s1)
             = [None, None, Some \<lparr>f_error = ''bad example'', f_phase = VERIFY\<rparr>,
                Some \<lparr>f_error = ''bad example'', f_phase = VERIFY\<rparr>,
                None, None, Some \<lparr>f_error = ''bad example'', f_phase = VERIFY\<rparr>,
                Some \<lparr>f_error = ''bad example'', f_phase = VERIFY\<rparr>]
         \<and> failure s1 = None"
    by (intro exI conjI) (rule cl(1), rule cl(2), rule c3)
  have C: "\<exists>s2. benchmarksLoop 0 quietEnv sampleStats customConfig someExample [goodBenchmark]
              [brokenClient, brokenClient] startState = Some (Resolved () s2)
         \<and> failure s2 = None"
    by (intro exI conjI) (rule bl, rule c4)
  show ?thesis
    by (rule conjI [OF A conjI [OF clean(2) conjI [OF B C]]])
qed

end
